(* ===== verification/Prelude.thy ===== *)
theory Prelude
  imports Main "HOL-Library.Word" "HOL-Library.Sublist"
begin

text \<open>
  Shared vocabulary of the development: the types that name the program's data
  (bytes, Python text, POSIX path and argument strings), the Python string methods the
  executor calls (\<open>str.startswith\<close>, \<open>str.endswith\<close>, \<open>str.join\<close>, \<open>str.split\<close>,
  \<open>str.lstrip\<close>), and generic lemmas on lists and bytes that the component theories
  share through the collections declared here.
\<close>

unbundle bit_operations_syntax

section \<open>Types of the model\<close>

text \<open>
  A Python \<open>bytes\<close> value is a list of 8-bit words. A Python \<open>str\<close> is a sequence of
  code points; the captured output and the caller's code are such sequences (\<open>pystr\<close>,
  code points as \<open>nat\<close>). Paths, argument vectors and environment values are manipulated by
  the executor only through the methods below, character by character, so they are
  HOL strings (\<open>char list\<close>).
\<close>

type_synonym byte = "8 word"
type_synonym pystr = "nat list"
type_synonym env = "string \<Rightarrow> string option"

text \<open>A Python string literal of ASCII text as a sequence of code points.\<close>

abbreviation pystr_lit :: "string \<Rightarrow> pystr" where
  "pystr_lit s \<equiv> map of_char s"

named_theorems pystr_simps "evaluation rules of the modelled Python string methods"
named_theorems byte_simps "arithmetic facts about single bytes"

section \<open>Python string methods\<close>

text \<open>\<open>s.startswith(p)\<close> and \<open>s.endswith(p)\<close>, as the interpreter computes them.\<close>

fun startswith :: "'a list \<Rightarrow> 'a list \<Rightarrow> bool" where
  "startswith s [] = True"
| "startswith [] (p # ps) = False"
| "startswith (c # cs) (p # ps) = (c = p \<and> startswith cs ps)"

definition endswith :: "'a list \<Rightarrow> 'a list \<Rightarrow> bool" where
  "endswith s p = (length p \<le> length s \<and> drop (length s - length p) s = p)"

text \<open>\<open>sep.join(xs)\<close> for a separator string.\<close>

fun py_join :: "'a list \<Rightarrow> 'a list list \<Rightarrow> 'a list" where
  "py_join sep [] = []"
| "py_join sep [x] = x"
| "py_join sep (x # y # zs) = x @ sep @ py_join sep (y # zs)"

text \<open>\<open>s.split(c)\<close> for a one-character separator: the pieces between separators,
  empty pieces included.\<close>

fun py_split :: "'a \<Rightarrow> 'a list \<Rightarrow> 'a list list" where
  "py_split c [] = [[]]"
| "py_split c (x # xs) =
     (if x = c then [] # py_split c xs
      else (case py_split c xs of p # ps \<Rightarrow> (x # p) # ps | [] \<Rightarrow> [[x]]))"

text \<open>\<open>s.lstrip(chars)\<close> for a set of characters given as a list.\<close>

definition py_lstrip :: "'a list \<Rightarrow> 'a list \<Rightarrow> 'a list" where
  "py_lstrip chars s = dropWhile (\<lambda>c. c \<in> set chars) s"

section \<open>Lemmas on the string methods\<close>

lemma startswith_iff [pystr_simps]: "startswith s p \<longleftrightarrow> (\<exists>r. s = p @ r)"
  by (induction s p rule: startswith.induct) auto

lemma startswith_append [simp]: "startswith (p @ r) p"
  by (simp add: startswith_iff)

lemma startswith_append_mono: "startswith s p \<Longrightarrow> startswith (s @ t) p"
  by (auto simp: startswith_iff)

lemma endswith_iff [pystr_simps]: "endswith s p \<longleftrightarrow> (\<exists>r. s = r @ p)"
proof
  assume "endswith s p"
  then have "s = take (length s - length p) s @ p"
    unfolding endswith_def by (metis append_take_drop_id)
  then show "\<exists>r. s = r @ p" by blast
next
  assume "\<exists>r. s = r @ p"
  then show "endswith s p" by (auto simp: endswith_def)
qed

lemma endswith_append [simp]: "endswith (r @ p) p"
  by (auto simp: endswith_iff)

lemma py_split_nonempty [simp]: "py_split c xs \<noteq> []"
  by (induction xs) (auto split: list.split)

lemma py_split_no_sep: "c \<notin> set xs \<Longrightarrow> py_split c xs = [xs]"
  by (induction xs) auto

lemma py_split_append_sep:
  "c \<notin> set x \<Longrightarrow> py_split c (x @ c # ys) = x # py_split c ys"
  by (induction x) auto

lemma py_split_join:
  "\<forall>x \<in> set xs. c \<notin> set x \<Longrightarrow> xs \<noteq> [] \<Longrightarrow> py_split c (py_join [c] xs) = xs"
proof (induction "[c]" xs rule: py_join.induct)
  case (2 x)
  then show ?case by (simp add: py_split_no_sep)
next
  case (3 x y zs)
  then show ?case by (simp add: py_split_append_sep)
qed simp

lemma set_py_join: "set (py_join sep xss) \<subseteq> set sep \<union> \<Union> (set ` set xss)"
  by (induction sep xss rule: py_join.induct) auto

lemma list_all_py_join:
  "list_all P sep \<Longrightarrow> \<forall>x \<in> set xss. list_all P x \<Longrightarrow> list_all P (py_join sep xss)"
  using set_py_join [of sep xss] by (auto simp: list_all_iff)

lemma remdups_snoc: "remdups (ys @ [x]) = remdups (filter (\<lambda>e. e \<noteq> x) ys) @ [x]"
  by (induction ys) auto

lemma py_lstrip_no_lead [simp]: "x \<notin> set chars \<Longrightarrow> py_lstrip chars (x # xs) = x # xs"
  by (simp add: py_lstrip_def)

lemma py_lstrip_lead [simp]: "x \<in> set chars \<Longrightarrow> py_lstrip chars (x # xs) = py_lstrip chars xs"
  by (simp add: py_lstrip_def)

section \<open>Bytes\<close>

lemma mod_add_low [byte_simps]: "(a :: nat) mod n = 0 \<Longrightarrow> b < n \<Longrightarrow> (a + b) mod n = b"
  by (simp add: mod_add_left_eq [symmetric])

lemma unat_byte_less [byte_simps]: "unat (b :: byte) < 256"
  using unsigned_less [of b] by simp

lemma unat_byte_and_mask [byte_simps]:
  "unat ((b :: byte) AND mask n) = unat b mod 2 ^ n"
  unfolding take_bit_eq_mask [symmetric] unsigned_take_bit_eq by (simp add: take_bit_eq_mod)

lemma Suc_Suc_diff_2 [byte_simps]: "Suc (Suc (n - 2)) = (if 2 \<le> n then n else 2)"
  by arith

lemma add_diff_if [byte_simps]: "(k :: nat) + (n - k) = (if k \<le> n then n else k)"
  by arith

lemma div_digits_step: "(c :: nat) div (m * n) * n + c div m mod n = c div m"
  by (simp add: div_mult2_eq)

lemma byte_numeral_masks:
  "(3 :: byte) = mask 2" "(15 :: byte) = mask 4" "(31 :: byte) = mask 5"
  "(63 :: byte) = mask 6" "(7 :: byte) = mask 3"
  by (simp_all add: mask_eq_exp_minus_1)

lemma unat_byte_of_nat [byte_simps]: "n < 256 \<Longrightarrow> unat (of_nat n :: byte) = n"
  by (simp add: unat_of_nat)

lemma unat_byte_of_nat_and [byte_simps]:
  "n < 256 \<Longrightarrow> unat ((of_nat n :: byte) AND mask k) = n mod 2 ^ k"
  by (simp add: unat_byte_and_mask unat_byte_of_nat)

end
