(* ===== verification/Resolver.thy ===== *)
theory Resolver
  imports Prelude
begin

text \<open>
  The RuntimeResolver: \<open>_locate_runtime\<close> and \<open>_resolve_wasm_runtime\<close> of
  \<open>src/app/services/executor.py\<close> (lines 94--151), and the POSIX \<open>shlex.split\<close> they
  call on \<open>PYTHON_WASM_RUNTIME_ARGS\<close>. The host is a record of the answers the code asks
  the operating system for (\<open>os.environ\<close>, \<open>os.path.isfile\<close>, \<open>os.access(X_OK)\<close>,
  \<open>shutil.which\<close>, the home directory, the first bytes of a file, the names in a directory, \<open>Path.resolve\<close>); every
  \<open>RuntimeError\<close> and \<open>ValueError\<close> the code can raise is a constructor of
  \<open>resolve_error\<close>. The lemmas give the order in which the runtime is looked up, the
  guards a module passes, and the behaviour of the argument splitter.
\<close>

section \<open>The host\<close>

record host =
  h_environ :: env
  h_is_file :: "string \<Rightarrow> bool"
  h_is_dir :: "string \<Rightarrow> bool"
  h_exists :: "string \<Rightarrow> bool"
  h_executable :: "string \<Rightarrow> bool"
  h_which :: "string \<Rightarrow> string option"
  h_abspath :: "string \<Rightarrow> string"
  h_home :: string
  h_read :: "string \<Rightarrow> byte list option"
  h_listdir :: "string \<Rightarrow> string list"
  h_resolve :: "string \<Rightarrow> string"

text \<open>\<open>Path(a) / b\<close> on POSIX paths: one separator between the parts.\<close>

definition path_join :: "string \<Rightarrow> string \<Rightarrow> string" where
  "path_join a b = (if a \<noteq> [] \<and> last a = CHR ''/'' then a @ b else a @ ''/'' @ b)"

text \<open>\<open>Path(p).parent\<close> of an absolute, normalised path: everything before the last
  separator, the root for a file directly under it.\<close>

definition path_parent :: "string \<Rightarrow> string" where
  "path_parent p =
     (let d = rev (dropWhile (\<lambda>c. c \<noteq> CHR ''/'') (rev p))
      in if d = ''/'' then d else butlast d)"

section \<open>POSIX \<open>shlex.split\<close>\<close>

text \<open>The states of \<open>shlex.read_token\<close> with \<open>whitespace_split\<close> and no comment
  characters: between tokens, inside a word, inside quotes, and after a backslash
  (remembering the state to return to).\<close>

datatype lex_state = LexWs | LexWord | LexQuote char | LexEsc lex_state

definition shlex_whitespace :: string where
  "shlex_whitespace = [CHR '' '', CHR 9, CHR 13, CHR 10]"

definition shlex_escape :: char where
  "shlex_escape = CHR 92"

definition shlex_quotes :: string where
  "shlex_quotes = [CHR 39, CHR 34]"

fun shlex_scan :: "lex_state \<Rightarrow> string \<Rightarrow> string list \<Rightarrow> string \<Rightarrow> string + string list" where
  "shlex_scan LexWs tok acc [] = Inr (rev acc)"
| "shlex_scan LexWord tok acc [] = Inr (rev (tok # acc))"
| "shlex_scan (LexQuote q) tok acc [] = Inl ''No closing quotation''"
| "shlex_scan (LexEsc s) tok acc [] = Inl ''No escaped character''"
| "shlex_scan LexWs tok acc (c # cs) =
     (if c \<in> set shlex_whitespace then shlex_scan LexWs [] acc cs
      else if c = shlex_escape then shlex_scan (LexEsc LexWord) [] acc cs
      else if c \<in> set shlex_quotes then shlex_scan (LexQuote c) [] acc cs
      else shlex_scan LexWord [c] acc cs)"
| "shlex_scan LexWord tok acc (c # cs) =
     (if c \<in> set shlex_whitespace then shlex_scan LexWs [] (tok # acc) cs
      else if c \<in> set shlex_quotes then shlex_scan (LexQuote c) tok acc cs
      else if c = shlex_escape then shlex_scan (LexEsc LexWord) tok acc cs
      else shlex_scan LexWord (tok @ [c]) acc cs)"
| "shlex_scan (LexQuote q) tok acc (c # cs) =
     (if c = q then shlex_scan LexWord tok acc cs
      else if c = shlex_escape \<and> q = CHR 34 then shlex_scan (LexEsc (LexQuote q)) tok acc cs
      else shlex_scan (LexQuote q) (tok @ [c]) acc cs)"
| "shlex_scan (LexEsc s) tok acc (c # cs) =
     (case s of
        LexQuote q \<Rightarrow>
          if c \<noteq> shlex_escape \<and> c \<noteq> q then shlex_scan s (tok @ [shlex_escape, c]) acc cs
          else shlex_scan s (tok @ [c]) acc cs
      | _ \<Rightarrow> shlex_scan s (tok @ [c]) acc cs)"

text \<open>\<open>shlex.split(s)\<close>: \<open>Inl\<close> is the message of the \<open>ValueError\<close>.\<close>

definition shlex_split :: "string \<Rightarrow> string + string list" where
  "shlex_split s = shlex_scan LexWs [] [] s"

text \<open>A word that \<open>shlex.split\<close> passes through unchanged: no whitespace, quote or
  backslash.\<close>

definition shlex_plain :: "string \<Rightarrow> bool" where
  "shlex_plain w \<longleftrightarrow>
     (\<forall>c \<in> set w. c \<notin> set shlex_whitespace \<and> c \<noteq> shlex_escape \<and> c \<notin> set shlex_quotes)"

section \<open>Locating the runtime\<close>

text \<open>Lines 94--102. \<open>os.path.isabs(e) or os.sep in e\<close> is \<open>/ \<in> e\<close> on POSIX.\<close>

definition locate_runtime :: "host \<Rightarrow> string option \<Rightarrow> string option" where
  "locate_runtime h executable =
     (case executable of
        None \<Rightarrow> None
      | Some e \<Rightarrow>
          if e = [] then None
          else if CHR ''/'' \<in> set e then
            (let candidate = h_abspath h e
             in if h_is_file h candidate \<and> h_executable h candidate then Some candidate else None)
          else h_which h e)"

text \<open>Lines 110--115: the fixed install locations, in the order the loop tries them.\<close>

definition default_runtime_paths :: "host \<Rightarrow> string list" where
  "default_runtime_paths h =
     [''/opt/homebrew/bin/wasmtime'', ''/usr/local/bin/wasmtime'',
      path_join (path_join (path_join (h_home h) ''.wasmtime'') ''bin'') ''wasmtime'',
      path_join (path_join (path_join (h_home h) ''.cargo'') ''bin'') ''wasmtime'']"

definition find_runtime :: "host \<Rightarrow> string option" where
  "find_runtime h =
     (case locate_runtime h (h_environ h ''PYTHON_WASM_RUNTIME'') of
        Some p \<Rightarrow> Some p
      | None \<Rightarrow>
          (case locate_runtime h (Some ''wasmtime'') of
             Some p \<Rightarrow> Some p
           | None \<Rightarrow> find (\<lambda>p. h_is_file h p \<and> h_executable h p) (default_runtime_paths h)))"

section \<open>Resolving the runtime and the module\<close>

datatype resolve_error =
    RuntimeNotFound
  | WasmPathUnset
  | WasmNotFound string
  | WasmIsDirectory string
  | WasmUnreadable
  | WasmBadMagic
  | RuntimeArgsError string

definition wasm_magic :: "byte list" where
  "wasm_magic = [0x00, 0x61, 0x73, 0x6D]"

text \<open>Lines 105--151, every \<open>raise\<close> a left value, in the order the code tests.\<close>

definition resolve_wasm_runtime :: "host \<Rightarrow> resolve_error + (string \<times> string \<times> string list)" where
  "resolve_wasm_runtime h =
     (case find_runtime h of
        None \<Rightarrow> Inl RuntimeNotFound
      | Some runtime_path \<Rightarrow>
          (case h_environ h ''PYTHON_WASM_PATH'' of
             None \<Rightarrow> Inl WasmPathUnset
           | Some wasm_module \<Rightarrow>
               if wasm_module = [] then Inl WasmPathUnset
               else if \<not> h_exists h wasm_module then Inl (WasmNotFound wasm_module)
               else if h_is_dir h wasm_module then Inl (WasmIsDirectory wasm_module)
               else (case h_read h wasm_module of
                       None \<Rightarrow> Inl WasmUnreadable
                     | Some content \<Rightarrow>
                         if take 4 content \<noteq> wasm_magic then Inl WasmBadMagic
                         else (case shlex_split (case h_environ h ''PYTHON_WASM_RUNTIME_ARGS'' of
                                                   Some a \<Rightarrow> a | None \<Rightarrow> []) of
                                 Inl msg \<Rightarrow> Inl (RuntimeArgsError msg)
                               | Inr extra_args \<Rightarrow>
                                   Inr (runtime_path, h_abspath h wasm_module, extra_args)))))"

text \<open>A host on which resolution succeeds: the runtime in \<open>/usr/local/bin\<close>, the module
  at \<open>/srv/python.wasm\<close>, one extra runtime argument.\<close>

definition demo_host :: host where
  "demo_host =
     \<lparr>h_environ = map_of [(''PYTHON_WASM_PATH'', ''/srv/python.wasm''),
                           (''PYTHON_WASM_RUNTIME_ARGS'', ''--wasm max-wasm-stack=1048576'')],
      h_is_file = (\<lambda>p. p = ''/usr/local/bin/wasmtime'' \<or> p = ''/srv/python.wasm''),
      h_is_dir = (\<lambda>p. False),
      h_exists = (\<lambda>p. p = ''/usr/local/bin/wasmtime'' \<or> p = ''/srv/python.wasm''),
      h_executable = (\<lambda>p. p = ''/usr/local/bin/wasmtime''),
      h_which = (\<lambda>e. None),
      h_abspath = (\<lambda>p. p),
      h_home = ''/root'',
      h_read = (\<lambda>p. if p = ''/srv/python.wasm'' then Some [0x00, 0x61, 0x73, 0x6D, 0x01] else None),
      h_listdir = (\<lambda>p. []),
      h_resolve = (\<lambda>p. p)\<rparr>"

section \<open>The argument splitter\<close>

lemma shlex_scan_word_plain:
  "shlex_plain w \<Longrightarrow> shlex_scan LexWord tok acc (w @ r) = shlex_scan LexWord (tok @ w) acc r"
  by (induction w arbitrary: tok) (auto simp: shlex_plain_def)

lemma shlex_scan_join:
  "\<forall>w \<in> set ws. w \<noteq> [] \<and> shlex_plain w \<Longrightarrow>
   shlex_scan LexWs [] acc (py_join '' '' ws) = Inr (rev acc @ ws)"
proof (induction "'' ''" ws arbitrary: acc rule: py_join.induct)
  case (2 x)
  then obtain c cs where x: "x = c # cs" and p: "shlex_plain (c # cs)"
    by (cases x) auto
  then have "c \<notin> set shlex_whitespace" "c \<noteq> shlex_escape" "c \<notin> set shlex_quotes"
    by (auto simp: shlex_plain_def)
  moreover have "shlex_plain cs" using p by (simp add: shlex_plain_def)
  ultimately show ?case
    using shlex_scan_word_plain [of cs "[c]" acc "[]"] x by simp
next
  case (3 x y zs)
  then obtain c cs where x: "x = c # cs" and p: "shlex_plain (c # cs)"
    by (cases x) auto
  then have "c \<notin> set shlex_whitespace" "c \<noteq> shlex_escape" "c \<notin> set shlex_quotes"
    by (auto simp: shlex_plain_def)
  moreover have "shlex_plain cs" using p by (simp add: shlex_plain_def)
  ultimately show ?case
    using shlex_scan_word_plain [of cs "[c]" acc "'' '' @ py_join '' '' (y # zs)"] x 3
    by (simp add: shlex_whitespace_def)
qed simp

lemma shlex_scan_open_quote:
  "q \<notin> set b \<Longrightarrow> q \<noteq> CHR 34 \<Longrightarrow> shlex_scan (LexQuote q) tok acc b = Inl ''No closing quotation''"
  by (induction b arbitrary: tok) auto

lemma shlex_scan_plain_open_quote:
  assumes "shlex_plain a" and "CHR 39 \<notin> set b"
  shows "shlex_scan LexWs [] acc (a @ CHR 39 # b) = Inl ''No closing quotation''"
proof (cases a)
  case Nil
  then show ?thesis
    using assms shlex_scan_open_quote [of "CHR 39" b "[]" acc]
    by (simp add: shlex_whitespace_def shlex_escape_def shlex_quotes_def)
next
  case (Cons c cs)
  then have "c \<notin> set shlex_whitespace" "c \<noteq> shlex_escape" "c \<notin> set shlex_quotes"
      and p: "shlex_plain cs"
    using assms(1) by (auto simp: shlex_plain_def)
  then show ?thesis
    using Cons shlex_scan_word_plain [OF p, of "[c]" acc "CHR 39 # b"] assms(2)
      shlex_scan_open_quote [of "CHR 39" b "c # cs" acc]
    by (simp add: shlex_whitespace_def shlex_escape_def shlex_quotes_def)
qed

section \<open>Properties of the resolver\<close>

text \<open>C11: When resolution succeeds, the module handed to the runtime passed every guard
  of \<open>_resolve_wasm_runtime\<close>: \<open>PYTHON_WASM_PATH\<close> is set and non-empty, names an
  existing non-directory whose first four bytes are \<open>\0asm\<close>, and is returned as its
  absolute path; the runtime is the one the lookup chain found.\<close>

theorem resolve_wasm_runtime_ok:
  assumes "resolve_wasm_runtime h = Inr (rp, wm, args)"
  shows "find_runtime h = Some rp \<and>
         (\<exists>m c. h_environ h ''PYTHON_WASM_PATH'' = Some m \<and> m \<noteq> [] \<and> h_exists h m \<and>
                \<not> h_is_dir h m \<and> h_read h m = Some c \<and> take 4 c = wasm_magic \<and>
                wm = h_abspath h m)"
  using assms
  by (auto simp: resolve_wasm_runtime_def split: option.splits if_splits sum.splits)


text \<open>C13: An unbalanced single quote in \<open>PYTHON_WASM_RUNTIME_ARGS\<close> makes resolution
  fail with the \<open>ValueError\<close> of \<open>shlex.split\<close> even when the runtime and the module are
  valid: the error is not the \<open>RuntimeError\<close> of the other guards.\<close>

theorem resolve_runtime_args_unbalanced:
  assumes "find_runtime h = Some rp"
    and "h_environ h ''PYTHON_WASM_PATH'' = Some m" and "m \<noteq> []" and "h_exists h m"
    and "\<not> h_is_dir h m" and "h_read h m = Some c" and "take 4 c = wasm_magic"
    and "h_environ h ''PYTHON_WASM_RUNTIME_ARGS'' = Some (a @ CHR 39 # b)"
    and "shlex_plain a" and "CHR 39 \<notin> set b"
  shows "resolve_wasm_runtime h = Inl (RuntimeArgsError ''No closing quotation'')"
  using assms shlex_scan_plain_open_quote [OF assms(9,10), of "[]"]
  by (simp add: resolve_wasm_runtime_def shlex_split_def)

lemma demo_host_resolve:
  "resolve_wasm_runtime demo_host =
     Inr (''/usr/local/bin/wasmtime'', ''/srv/python.wasm'', [''--wasm'', ''max-wasm-stack=1048576''])"
  by (simp add: resolve_wasm_runtime_def find_runtime_def locate_runtime_def demo_host_def
      default_runtime_paths_def wasm_magic_def shlex_split_def shlex_whitespace_def
      shlex_escape_def shlex_quotes_def)

theorem resolve_wasm_runtime_ok_witness:
  "resolve_wasm_runtime demo_host =
     Inr (''/usr/local/bin/wasmtime'', ''/srv/python.wasm'', [''--wasm'', ''max-wasm-stack=1048576'']) \<and>
   find_runtime demo_host = Some ''/usr/local/bin/wasmtime'' \<and>
   h_read demo_host ''/srv/python.wasm'' = Some [0x00, 0x61, 0x73, 0x6D, 0x01]"
  using resolve_wasm_runtime_ok [OF demo_host_resolve] demo_host_resolve by (simp add: demo_host_def)


theorem resolve_runtime_args_unbalanced_witness:
  "resolve_wasm_runtime (demo_host\<lparr>h_environ :=
       (h_environ demo_host)(''PYTHON_WASM_RUNTIME_ARGS'' \<mapsto> ''A='' @ CHR 39 # ''x'')\<rparr>) =
     Inl (RuntimeArgsError ''No closing quotation'')"
proof -
  let ?h = "demo_host\<lparr>h_environ :=
       (h_environ demo_host)(''PYTHON_WASM_RUNTIME_ARGS'' \<mapsto> ''A='' @ CHR 39 # ''x'')\<rparr>"
  have f: "find_runtime ?h = Some ''/usr/local/bin/wasmtime''"
    by (simp add: find_runtime_def locate_runtime_def demo_host_def default_runtime_paths_def)
  have p: "shlex_plain ''A=''"
    by (simp add: shlex_plain_def shlex_whitespace_def shlex_escape_def shlex_quotes_def)
  show ?thesis
    by (rule resolve_runtime_args_unbalanced [OF f, of "''/srv/python.wasm''" "[0x00, 0x61, 0x73, 0x6D, 0x01]"
          "''A=''" "''x''", OF _ _ _ _ _ _ _ p])
      (simp_all add: demo_host_def wasm_magic_def)
qed

end
