(* ===== verification/TestHarness.thy ===== *)
theory TestHarness
  imports Resolver
begin

text \<open>
  The gate of the integration tests: \<open>_runtime_available\<close> and
  \<open>_require_wasm_environment\<close> of \<open>src/tests/test_hello_world.py\<close> (lines 13--40),
  which decide whether a test runs or is skipped. They repeat the executor's lookup of
  the runtime with fewer places to look, and test the module with \<open>Path.exists\<close> only.
  The lemmas compare the gate with \<open>find_runtime\<close> of the executor: a test never runs
  when the executor would find no runtime, but a runtime the executor finds may still
  make the tests skip.
\<close>

section \<open>Definitions\<close>

text \<open>\<open>_runtime_available()\<close>: an explicit path is checked alone; otherwise \<open>which\<close>
  on the configured name and on \<open>wasmtime\<close>, then two locations under the home
  directory.\<close>

definition runtime_available :: "host \<Rightarrow> bool" where
  "runtime_available h =
     (let runtime = h_environ h ''PYTHON_WASM_RUNTIME''
      in case runtime of
           Some r \<Rightarrow>
             if r \<noteq> [] \<and> CHR ''/'' \<in> set r then
               h_is_file h (h_abspath h r) \<and> h_executable h (h_abspath h r)
             else
               (\<exists>name \<in> set (filter (\<lambda>n. n \<noteq> []) [r, ''wasmtime'']). h_which h name \<noteq> None) \<or>
               (\<exists>p \<in> set (drop 2 (default_runtime_paths h)). h_is_file h p \<and> h_executable h p)
         | None \<Rightarrow>
             h_which h ''wasmtime'' \<noteq> None \<or>
             (\<exists>p \<in> set (drop 2 (default_runtime_paths h)). h_is_file h p \<and> h_executable h p))"

datatype test_gate = TestRuns | TestSkipped string

text \<open>\<open>_require_wasm_environment()\<close>: \<open>pytest.skip\<close> as a value.\<close>

definition require_wasm_environment :: "host \<Rightarrow> test_gate" where
  "require_wasm_environment h =
     (case h_environ h ''PYTHON_WASM_PATH'' of
        None \<Rightarrow> TestSkipped ''Skipping WASM integration test: PYTHON_WASM_PATH not configured''
      | Some p \<Rightarrow>
          if p = [] \<or> \<not> h_exists h p
          then TestSkipped ''Skipping WASM integration test: PYTHON_WASM_PATH not configured''
          else if \<not> runtime_available h
          then TestSkipped ''Skipping WASM integration test: WASM runtime binary not available''
          else TestRuns)"

section \<open>The gate and the executor's lookup\<close>

lemma find_runtime_default:
  "find_runtime h \<noteq> None"
  if "p \<in> set (default_runtime_paths h)" and "h_is_file h p" and "h_executable h p"
proof -
  have "find (\<lambda>p. h_is_file h p \<and> h_executable h p) (default_runtime_paths h) \<noteq> None"
    using that by (auto simp: find_None_iff)
  then show ?thesis by (auto simp: find_runtime_def split: option.splits)
qed

lemma find_runtime_which:
  "h_environ h ''PYTHON_WASM_RUNTIME'' = Some r \<Longrightarrow> r \<noteq> [] \<Longrightarrow> CHR ''/'' \<notin> set r \<Longrightarrow>
   h_which h r \<noteq> None \<Longrightarrow> find_runtime h \<noteq> None"
  by (auto simp: find_runtime_def locate_runtime_def)

lemma find_runtime_wasmtime:
  "h_which h ''wasmtime'' \<noteq> None \<Longrightarrow> find_runtime h \<noteq> None"
  by (auto simp: find_runtime_def locate_runtime_def split: option.splits)

lemma drop_default_subset: "set (drop 2 (default_runtime_paths h)) \<subseteq> set (default_runtime_paths h)"
  by (rule set_drop_subset)

text \<open>C34: The tests never run where the executor could not find a runtime: whenever
  \<open>_runtime_available\<close> holds, the lookup of \<open>_resolve_wasm_runtime\<close> succeeds.\<close>

theorem runtime_available_sound:
  assumes "runtime_available h"
  shows "find_runtime h \<noteq> None"
proof (cases "h_environ h ''PYTHON_WASM_RUNTIME''")
  case None
  then have "h_which h ''wasmtime'' \<noteq> None \<or>
             (\<exists>p \<in> set (drop 2 (default_runtime_paths h)). h_is_file h p \<and> h_executable h p)"
    using assms by (simp add: runtime_available_def)
  then show ?thesis using find_runtime_wasmtime find_runtime_default drop_default_subset by blast
next
  case (Some r)
  show ?thesis
  proof (cases "r \<noteq> [] \<and> CHR ''/'' \<in> set r")
    case True
    then show ?thesis using Some assms
      by (auto simp: runtime_available_def find_runtime_def locate_runtime_def Let_def)
  next
    case False
    then have "(r \<noteq> [] \<and> h_which h r \<noteq> None) \<or> h_which h ''wasmtime'' \<noteq> None \<or>
               (\<exists>p \<in> set (drop 2 (default_runtime_paths h)). h_is_file h p \<and> h_executable h p)"
      using Some assms by (auto simp: runtime_available_def split: if_splits)
    then show ?thesis
      using False Some find_runtime_which find_runtime_wasmtime find_runtime_default
        drop_default_subset by blast
  qed
qed

text \<open>The converse fails: with \<open>wasmtime\<close> installed only in \<open>/usr/local/bin\<close> and
  not on the \<open>PATH\<close>, the executor finds the runtime but the tests skip, so the
  integration tests do not exercise every configuration the service accepts.\<close>

theorem test_gate_skips_found_runtime:
  "find_runtime demo_host = Some ''/usr/local/bin/wasmtime'' \<and>
   require_wasm_environment demo_host =
     TestSkipped ''Skipping WASM integration test: WASM runtime binary not available''"
  by (simp add: find_runtime_def locate_runtime_def default_runtime_paths_def demo_host_def
      require_wasm_environment_def runtime_available_def path_join_def)

theorem runtime_available_sound_witness:
  "runtime_available (demo_host\<lparr>h_which := (\<lambda>n. if n = ''wasmtime'' then Some ''/usr/bin/wasmtime'' else None)\<rparr>) \<and>
   find_runtime (demo_host\<lparr>h_which := (\<lambda>n. if n = ''wasmtime'' then Some ''/usr/bin/wasmtime'' else None)\<rparr>) \<noteq> None"
proof -
  have a: "runtime_available (demo_host\<lparr>h_which := (\<lambda>n. if n = ''wasmtime'' then Some ''/usr/bin/wasmtime'' else None)\<rparr>)"
    by (simp add: runtime_available_def demo_host_def)
  show ?thesis using runtime_available_sound [OF a] a by simp
qed

end
