(* ===== verification/Utf8.thy ===== *)
theory Utf8
  imports Prelude
begin

text \<open>
  The UTF-8 codec of the Python runtime, as the executor uses it: \<open>str.encode("utf-8")\<close>
  (strict: a lone surrogate raises \<open>UnicodeEncodeError\<close>), \<open>bytes.decode("utf-8",
  errors="replace")\<close> (every maximal ill-formed subsequence becomes one U+FFFD, the
  Unicode "maximal subpart" practice that CPython's decoder follows) and the strict
  \<open>bytes.decode("utf-8")\<close> of the guest bootstrap script. The decoder is one step function
  \<open>utf8_next\<close> (one iteration of the interpreter's decoding loop) iterated by a
  terminating recursion. The lemmas give the roundtrip, the append behaviour at an
  ASCII boundary that keeps the truncation marker intact, and length bounds.
\<close>

unbundle bit_operations_syntax

section \<open>Code points and errors\<close>

definition replacement_char :: nat where
  "replacement_char = 0xFFFD"

definition is_surrogate :: "nat \<Rightarrow> bool" where
  "is_surrogate c \<longleftrightarrow> 0xD800 \<le> c \<and> c \<le> 0xDFFF"

text \<open>A Python \<open>str\<close> holds code points below 0x110000; the encodable ones are the
  Unicode scalar values, which exclude the surrogates.\<close>

definition py_char :: "nat \<Rightarrow> bool" where
  "py_char c \<longleftrightarrow> c < 0x110000"

definition scalar_value :: "nat \<Rightarrow> bool" where
  "scalar_value c \<longleftrightarrow> py_char c \<and> \<not> is_surrogate c"

datatype codec_error =
    UnicodeEncodeError nat  \<comment> \<open>index of the first unencodable code point\<close>
  | UnicodeDecodeError nat  \<comment> \<open>byte offset of the first ill-formed sequence\<close>

section \<open>Encoding\<close>

text \<open>One code point, as the encoder writes it: the lead byte carries the high bits
  (\<open>0xC0 | (ch >> 6)\<close> and so on), each continuation byte six more (\<open>0x80 | (ch & 0x3F)\<close>).
  The bit fields do not overlap, so each \<open>OR\<close> is written as a sum.\<close>

definition utf8_encode_cp :: "nat \<Rightarrow> byte list" where
  "utf8_encode_cp c =
     (if c < 0x80 then [of_nat c]
      else if c < 0x800 then [of_nat (0xC0 + c div 64), of_nat (0x80 + c mod 64)]
      else if c < 0x10000 then
        [of_nat (0xE0 + c div 4096), of_nat (0x80 + c div 64 mod 64), of_nat (0x80 + c mod 64)]
      else
        [of_nat (0xF0 + c div 262144), of_nat (0x80 + c div 4096 mod 64),
         of_nat (0x80 + c div 64 mod 64), of_nat (0x80 + c mod 64)])"

text \<open>\<open>s.encode("utf-8")\<close>: the first surrogate raises, at its index.\<close>

definition utf8_encode :: "pystr \<Rightarrow> codec_error + byte list" where
  "utf8_encode s =
     (if list_all (\<lambda>c. \<not> is_surrogate c) s then Inr (concat (map utf8_encode_cp s))
      else Inl (UnicodeEncodeError (length (takeWhile (\<lambda>c. \<not> is_surrogate c) s))))"

section \<open>Decoding\<close>

text \<open>
  After a lead byte that announces \<open>k\<close> continuation bytes, \<open>utf8_conts k lo hi acc\<close>
  reads them: the first must lie in \<open>[lo, hi]\<close> (the ranges that exclude overlong forms,
  surrogates and values above U+10FFFF), the others in \<open>[0x80, 0xBF]\<close>. At the first byte
  that does not fit, or at the end of the input, the bytes read so far form one
  ill-formed subsequence (\<open>None\<close>) and decoding resumes at the byte that did not fit.
\<close>

fun utf8_conts :: "nat \<Rightarrow> nat \<Rightarrow> nat \<Rightarrow> nat \<Rightarrow> byte list \<Rightarrow> nat option \<times> nat" where
  "utf8_conts 0 lo hi acc bs = (Some acc, 0)"
| "utf8_conts (Suc k) lo hi acc [] = (None, 0)"
| "utf8_conts (Suc k) lo hi acc (c # cs) =
     (if lo \<le> unat c \<and> unat c \<le> hi
      then (case utf8_conts k 0x80 0xBF (acc * 64 + unat (c AND 0x3F)) cs of
              (r, n) \<Rightarrow> (r, Suc n))
      else (None, 0))"

text \<open>One step of the decoder: the lead byte \<open>b\<close> selects the sequence length; the
  result is the decoded code point (\<open>None\<close> for an ill-formed subsequence) and the number
  of bytes after \<open>b\<close> that the step consumed.\<close>

definition utf8_next :: "byte \<Rightarrow> byte list \<Rightarrow> nat option \<times> nat" where
  "utf8_next b bs =
     (let n = unat b in
      if n < 0x80 then (Some n, 0)
      else if n < 0xC2 then (None, 0)
      else if n < 0xE0 then utf8_conts 1 0x80 0xBF (unat (b AND 0x1F)) bs
      else if n < 0xF0 then
        utf8_conts 2 (if n = 0xE0 then 0xA0 else 0x80) (if n = 0xED then 0x9F else 0xBF)
          (unat (b AND 0x0F)) bs
      else if n < 0xF5 then
        utf8_conts 3 (if n = 0xF0 then 0x90 else 0x80) (if n = 0xF4 then 0x8F else 0xBF)
          (unat (b AND 0x07)) bs
      else (None, 0))"

text \<open>\<open>bytes.decode("utf-8", errors="replace")\<close>.\<close>

fun utf8_decode_replace :: "byte list \<Rightarrow> pystr" where
  "utf8_decode_replace [] = []"
| "utf8_decode_replace (b # bs) =
     (case utf8_next b bs of
        (r, n) \<Rightarrow> (case r of Some c \<Rightarrow> c | None \<Rightarrow> replacement_char)
                   # utf8_decode_replace (drop n bs))"

text \<open>\<open>bytes.decode("utf-8")\<close>: the first ill-formed subsequence raises, at its offset
  \<open>i\<close> in the whole input.\<close>

fun utf8_decode_strict_from :: "nat \<Rightarrow> byte list \<Rightarrow> codec_error + pystr" where
  "utf8_decode_strict_from i [] = Inr []"
| "utf8_decode_strict_from i (b # bs) =
     (case utf8_next b bs of
        (Some c, n) \<Rightarrow>
          (case utf8_decode_strict_from (i + Suc n) (drop n bs) of
             Inl e \<Rightarrow> Inl e
           | Inr s \<Rightarrow> Inr (c # s))
      | (None, n) \<Rightarrow> Inl (UnicodeDecodeError i))"

definition utf8_decode_strict :: "byte list \<Rightarrow> codec_error + pystr" where
  "utf8_decode_strict bs = utf8_decode_strict_from 0 bs"

text \<open>A position is a boundary when the next byte, if any, cannot continue a
  multi-byte sequence.\<close>

definition utf8_boundary :: "byte list \<Rightarrow> bool" where
  "utf8_boundary ys = (case ys of [] \<Rightarrow> True | y # _ \<Rightarrow> \<not> (0x80 \<le> unat y \<and> unat y \<le> 0xBF))"

section \<open>Evaluation and consumption\<close>

lemma utf8_conts_numeral [simp]:
  "utf8_conts (numeral m) lo hi acc [] = (None, 0)"
  "utf8_conts (numeral m) lo hi acc (c # cs) =
     (if lo \<le> unat c \<and> unat c \<le> hi
      then (case utf8_conts (pred_numeral m) 0x80 0xBF (acc * 64 + unat (c AND 0x3F)) cs of
              (r, n) \<Rightarrow> (r, Suc n))
      else (None, 0))"
  by (simp_all add: numeral_eq_Suc)

lemma utf8_conts_one [simp]: "utf8_conts 1 lo hi acc bs = utf8_conts (Suc 0) lo hi acc bs"
  by simp

lemma utf8_conts_consumed: "snd (utf8_conts k lo hi acc bs) \<le> length bs"
  by (induction k lo hi acc bs rule: utf8_conts.induct) (auto split: prod.split)

lemma utf8_next_consumed: "snd (utf8_next b bs) \<le> length bs"
  by (simp add: utf8_next_def Let_def utf8_conts_consumed)

section \<open>The decoder at an ASCII boundary\<close>

text \<open>Decoding splits at a boundary: bytes before it never combine with bytes after it.\<close>

lemma utf8_boundary_ascii: "unat y < 0x80 \<Longrightarrow> utf8_boundary (y # ys)"
  by (simp add: utf8_boundary_def)

lemma utf8_conts_append:
  "0x80 \<le> lo \<Longrightarrow> hi \<le> 0xBF \<Longrightarrow> utf8_boundary ys \<Longrightarrow>
   utf8_conts k lo hi acc (bs @ ys) = utf8_conts k lo hi acc bs"
proof (induction k lo hi acc bs rule: utf8_conts.induct)
  case (2 k lo hi acc)
  then show ?case by (cases ys) (auto simp: utf8_boundary_def)
qed (auto split: prod.split)

lemma utf8_next_append:
  "utf8_boundary ys \<Longrightarrow> utf8_next b (bs @ ys) = utf8_next b bs"
  by (simp add: utf8_next_def Let_def utf8_conts_append)

lemma utf8_decode_replace_append:
  "utf8_boundary ys \<Longrightarrow>
   utf8_decode_replace (xs @ ys) = utf8_decode_replace xs @ utf8_decode_replace ys"
proof (induction xs rule: utf8_decode_replace.induct)
  case (2 b bs)
  obtain r n where nx: "utf8_next b bs = (r, n)" by (cases "utf8_next b bs")
  then have "n \<le> length bs" using utf8_next_consumed [of b bs] by simp
  then have "drop n (bs @ ys) = drop n bs @ ys" by simp
  with 2 nx show ?case by (simp add: utf8_next_append)
qed simp

section \<open>Roundtrip\<close>

lemma utf8_cont_byte [byte_simps]:
  "d < 64 \<Longrightarrow> unat (of_nat (128 + d) :: byte) = 128 + d"
  "d < 64 \<Longrightarrow> unat ((of_nat (128 + d) :: byte) AND 63) = d"
  by (simp_all add: byte_simps byte_numeral_masks del: of_nat_add)

text \<open>The four encoding lengths, one lemma each: the lead byte selects the right branch
  of \<open>utf8_next\<close>, each continuation byte passes its range check, and the payload bits
  reassemble the code point.\<close>

lemma utf8_next_encode_cp2:
  assumes "0x80 \<le> c" and "c < 0x800"
  shows "utf8_next (of_nat (0xC0 + c div 64)) ([of_nat (0x80 + c mod 64)] @ rest) = (Some c, 1)"
proof -
  define x z where "x = c div 64" and "z = c mod 64"
  have x: "2 \<le> x" "x < 32" and z: "z < 64" "z \<le> 63"
    using assms by (simp_all add: x_def z_def)
  have u0: "unat (of_nat (192 + x) :: byte) = 192 + x"
    and a0: "unat ((of_nat (192 + x) :: byte) AND 31) = x"
    using x by (simp_all add: byte_simps byte_numeral_masks del: of_nat_add)
  have "x * 64 + z = c" by (simp add: x_def z_def)
  then show ?thesis using x z
    by (simp add: utf8_next_def Let_def u0 a0 byte_simps flip: x_def z_def del: of_nat_add)
qed

lemma utf8_next_encode_cp3:
  assumes "0x800 \<le> c" and "c < 0x10000" and "\<not> is_surrogate c"
  shows "utf8_next (of_nat (0xE0 + c div 4096))
           ([of_nat (0x80 + c div 64 mod 64), of_nat (0x80 + c mod 64)] @ rest) = (Some c, 2)"
proof -
  define q y z where "q = c div 4096" and "y = c div 64 mod 64" and "z = c mod 64"
  have q: "q < 16" and y: "y < 64" "y \<le> 63" and z: "z < 64" "z \<le> 63"
    using assms by (simp_all add: q_def y_def z_def)
  have u0: "unat (of_nat (224 + q) :: byte) = 224 + q"
    and a0: "unat ((of_nat (224 + q) :: byte) AND 15) = q"
    using q by (simp_all add: byte_simps byte_numeral_masks del: of_nat_add)
  have lo: "(if 224 + q = 224 then 160 else 128) \<le> 128 + y"
  proof -
    have "q = 0 \<Longrightarrow> 32 \<le> y" using assms(1) by (auto simp: q_def y_def)
    then show ?thesis by auto
  qed
  have hi: "128 + y \<le> (if 224 + q = 237 then 159 else 191)"
  proof -
    have "y < 32" if "q = 13"
    proof -
      have "c = 53248 + c mod 4096" using that div_mult_mod_eq [of c 4096] by (simp add: q_def)
      moreover have "c mod 4096 < 4096" by simp
      ultimately have "c mod 4096 < 2048" using assms(3) unfolding is_surrogate_def by linarith
      then show ?thesis using mod_mult2_eq [of c 64 64] by (simp add: y_def)
    qed
    then show ?thesis using y by auto
  qed
  have "(q * 64 + y) * 64 + z = c"
    using div_digits_step [of c 64 64] by (simp add: q_def y_def z_def)
  then show ?thesis using q y z lo hi
    by (simp add: utf8_next_def Let_def u0 a0 byte_simps flip: q_def y_def z_def del: of_nat_add)
qed

lemma utf8_next_encode_cp4:
  assumes "0x10000 \<le> c" and "c < 0x110000"
  shows "utf8_next (of_nat (0xF0 + c div 262144))
           ([of_nat (0x80 + c div 4096 mod 64), of_nat (0x80 + c div 64 mod 64),
             of_nat (0x80 + c mod 64)] @ rest) = (Some c, 3)"
proof -
  define q x y z where "q = c div 262144" and "x = c div 4096 mod 64"
    and "y = c div 64 mod 64" and "z = c mod 64"
  have q: "q < 5" and x: "x < 64" and y: "y < 64" "y \<le> 63" and z: "z < 64" "z \<le> 63"
    using assms by (simp_all add: q_def x_def y_def z_def)
  have u0: "unat (of_nat (240 + q) :: byte) = 240 + q"
    and a0: "unat ((of_nat (240 + q) :: byte) AND 7) = q"
    using q by (simp_all add: byte_simps byte_numeral_masks del: of_nat_add)
  have lo: "(if 240 + q = 240 then 144 else 128) \<le> 128 + x"
  proof -
    have "q = 0 \<Longrightarrow> 16 \<le> x" using assms(1) by (auto simp: q_def x_def)
    then show ?thesis by auto
  qed
  have hi: "128 + x \<le> (if 240 + q = 244 then 143 else 191)"
  proof -
    have "x < 16" if "q = 4"
    proof -
      have "c = 1048576 + c mod 262144" using that div_mult_mod_eq [of c 262144] by (simp add: q_def)
      then have "c mod 262144 < 65536" using assms(2) by linarith
      then show ?thesis using mod_mult2_eq [of c 4096 64] by (simp add: x_def)
    qed
    then show ?thesis using x by auto
  qed
  have "((q * 64 + x) * 64 + y) * 64 + z = c"
    using div_digits_step [of c 4096 64] div_digits_step [of c 64 64]
    by (simp add: q_def x_def y_def z_def)
  then show ?thesis using q x y z lo hi
    by (simp add: utf8_next_def Let_def u0 a0 byte_simps flip: q_def x_def y_def z_def
        del: of_nat_add)
qed

lemma utf8_next_encode_cp:
  assumes "scalar_value c"
  shows "utf8_next (hd (utf8_encode_cp c)) (tl (utf8_encode_cp c) @ rest) =
           (Some c, length (tl (utf8_encode_cp c)))"
proof -
  have lt: "c < 0x110000" and ns: "\<not> is_surrogate c"
    using assms by (auto simp: scalar_value_def py_char_def)
  consider (a) "c < 0x80" | (b) "0x80 \<le> c" "c < 0x800" | (c) "0x800 \<le> c" "c < 0x10000"
    | (d) "0x10000 \<le> c" by linarith
  then show ?thesis
  proof cases
    case a
    then show ?thesis by (simp add: utf8_encode_cp_def utf8_next_def byte_simps)
  next
    case b
    then show ?thesis using utf8_next_encode_cp2 [of c rest] by (simp add: utf8_encode_cp_def)
  next
    case c
    then show ?thesis using utf8_next_encode_cp3 [of c rest] ns by (simp add: utf8_encode_cp_def)
  next
    case d
    then show ?thesis using utf8_next_encode_cp4 [of c rest] lt by (simp add: utf8_encode_cp_def)
  qed
qed

lemma utf8_encode_cp_nonempty [simp]: "utf8_encode_cp c \<noteq> []"
  by (simp add: utf8_encode_cp_def)

lemma utf8_decode_replace_encode_cp:
  "scalar_value c \<Longrightarrow>
   utf8_decode_replace (utf8_encode_cp c @ rest) = c # utf8_decode_replace rest"
  using utf8_next_encode_cp [of c rest]
  by (cases "utf8_encode_cp c") simp_all

lemma utf8_decode_replace_encode:
  "list_all scalar_value s \<Longrightarrow>
   utf8_decode_replace (concat (map utf8_encode_cp s) @ rest) = s @ utf8_decode_replace rest"
  by (induction s) (simp_all add: utf8_decode_replace_encode_cp)

lemma utf8_decode_strict_from_encode:
  "list_all scalar_value s \<Longrightarrow>
   utf8_decode_strict_from i (concat (map utf8_encode_cp s)) = Inr s"
proof (induction s arbitrary: i)
  case (Cons c s)
  obtain b bs where e: "utf8_encode_cp c = b # bs" by (cases "utf8_encode_cp c") simp_all
  have "utf8_next b (bs @ concat (map utf8_encode_cp s)) = (Some c, length bs)"
    using utf8_next_encode_cp [of c "concat (map utf8_encode_cp s)"] Cons.prems e by simp
  then show ?case using Cons e by simp
qed simp

text \<open>The encoder produces only code points the decoder accepts: a string of Python
  characters that encodes without error decodes back to itself, by either decoder.\<close>

lemma utf8_encode_Inr_scalar:
  "utf8_encode s = Inr bs \<Longrightarrow> list_all py_char s \<Longrightarrow> list_all scalar_value s"
  by (auto simp: utf8_encode_def scalar_value_def list_all_iff split: if_splits)

lemma utf8_roundtrip_replace:
  "list_all py_char s \<Longrightarrow> utf8_encode s = Inr bs \<Longrightarrow> utf8_decode_replace bs = s"
  using utf8_decode_replace_encode [of s "[]"] utf8_encode_Inr_scalar [of s bs]
  by (simp add: utf8_encode_def split: if_splits)

lemma utf8_roundtrip_strict:
  "list_all py_char s \<Longrightarrow> utf8_encode s = Inr bs \<Longrightarrow> utf8_decode_strict bs = Inr s"
  using utf8_decode_strict_from_encode [of s 0] utf8_encode_Inr_scalar [of s bs]
  by (simp add: utf8_encode_def utf8_decode_strict_def split: if_splits)

lemma utf8_encode_Inl_surrogate:
  "utf8_encode s = Inl e \<longleftrightarrow> (\<exists>c \<in> set s. is_surrogate c) \<and>
     e = UnicodeEncodeError (length (takeWhile (\<lambda>c. \<not> is_surrogate c) s))"
  by (auto simp: utf8_encode_def list_all_iff)

section \<open>Length bounds\<close>

text \<open>Each decoding step consumes at least one byte and emits one code point.\<close>

lemma utf8_decode_replace_length: "length (utf8_decode_replace bs) \<le> length bs"
proof (induction bs rule: utf8_decode_replace.induct)
  case (2 b bs)
  obtain r n where nx: "utf8_next b bs = (r, n)" by (cases "utf8_next b bs")
  then have "length (utf8_decode_replace (drop n bs)) \<le> length bs - n" using 2 by simp
  with nx show ?case by simp
qed simp

text \<open>Each step emits a code point whose UTF-8 form is at most three times the bytes it
  consumed: an ASCII byte stays one byte, a sequence of two to four bytes re-encodes to at
  most four, and U+FFFD, three bytes, replaces at least one.\<close>

lemma utf8_encode_cp_length: "length (utf8_encode_cp c) \<le> 4"
  by (simp add: utf8_encode_cp_def)

lemma utf8_conts_Some_consumed:
  "utf8_conts (Suc k) lo hi acc bs = (Some c, n) \<Longrightarrow> 0 < n"
  by (cases bs) (auto split: if_splits prod.splits)

lemma utf8_next_Some_ascii: "utf8_next b bs = (Some c, 0) \<Longrightarrow> c < 0x80"
  unfolding utf8_next_def Let_def
  by (auto split: if_splits dest: utf8_conts_Some_consumed simp: numeral_eq_Suc)

lemma utf8_next_encoded_length:
  assumes "utf8_next b bs = (r, n)"
  shows "length (utf8_encode_cp (case r of Some c \<Rightarrow> c | None \<Rightarrow> replacement_char)) \<le> 3 * Suc n"
proof (cases r)
  case None
  then show ?thesis by (simp add: utf8_encode_cp_def replacement_char_def)
next
  case (Some c)
  show ?thesis
  proof (cases n)
    case 0
    then have "c < 0x80" using utf8_next_Some_ascii assms Some by simp
    then show ?thesis using Some by (simp add: utf8_encode_cp_def)
  next
    case (Suc m)
    then show ?thesis using Some utf8_encode_cp_length [of c] by simp
  qed
qed

lemma utf8_decode_replace_encoded_length:
  "length (concat (map utf8_encode_cp (utf8_decode_replace bs))) \<le> 3 * length bs"
proof (induction bs rule: utf8_decode_replace.induct)
  case (2 b bs)
  obtain r n where nx: "utf8_next b bs = (r, n)" by (cases "utf8_next b bs")
  have "n \<le> length bs" using utf8_next_consumed [of b bs] nx by simp
  moreover have "length (concat (map utf8_encode_cp (utf8_decode_replace (drop n bs)))) \<le> 3 * (length bs - n)"
    using 2 nx by simp
  ultimately show ?case using utf8_next_encoded_length [OF nx] nx by simp
qed simp

lemma utf8_decode_strict_from_replace:
  "utf8_decode_strict_from i bs = Inr s \<Longrightarrow> utf8_decode_replace bs = s"
proof (induction i bs arbitrary: s rule: utf8_decode_strict_from.induct)
  case (2 i b bs)
  then show ?case by (auto split: prod.splits option.splits sum.splits)
qed simp

section \<open>Runs of single-byte decisions\<close>

text \<open>An ASCII byte and a byte that can never start a sequence are each decided alone.\<close>

lemma utf8_decode_replicate_ascii:
  "unat b < 0x80 \<Longrightarrow> utf8_decode_replace (replicate n b) = replicate n (unat b)"
  by (induction n) (simp_all add: utf8_next_def)

lemma utf8_decode_replicate_invalid:
  "0xF5 \<le> unat b \<Longrightarrow> utf8_decode_replace (replicate n b) = replicate n replacement_char"
  by (induction n) (simp_all add: utf8_next_def)

lemma utf8_encode_replacement_length:
  "length (concat (map utf8_encode_cp (replicate n replacement_char))) = 3 * n"
  by (induction n) (simp_all add: utf8_encode_cp_def replacement_char_def)

section \<open>The decoder produces scalar values\<close>

text \<open>Every code point the decoder emits is a Unicode scalar value: the continuation
  ranges of the lead bytes \<open>E0\<close>, \<open>ED\<close>, \<open>F0\<close> and \<open>F4\<close> exclude overlong forms,
  surrogates and values above U+10FFFF, and the replacement character is one. The
  accumulator of \<open>utf8_conts\<close> stays in the block of values its prefix selects.\<close>

lemma mod_block: "(k :: nat) * m \<le> n \<Longrightarrow> n < k * m + m \<Longrightarrow> n mod m = n - k * m"
proof -
  assume a: "k * m \<le> n" "n < k * m + m"
  then have "n = k * m + (n - k * m)" by simp
  moreover have "n - k * m < m" using a by simp
  ultimately show ?thesis by (metis mod_less mod_mult_self3)
qed

lemma utf8_conts_range:
  "utf8_conts k lo hi acc bs = (Some r, n) \<Longrightarrow> acc * 64 ^ k \<le> r \<and> r < Suc acc * 64 ^ k"
proof (induction k lo hi acc bs arbitrary: r n rule: utf8_conts.induct)
  case (3 k lo hi acc c cs)
  let ?a = "acc * 64 + unat (c AND 0x3F)"
  have d: "unat (c AND 0x3F) < 64"
    using unat_byte_and_mask [of c 6] by (simp add: byte_numeral_masks)
  obtain n' where rec: "utf8_conts k 0x80 0xBF ?a cs = (Some r, n')"
    using "3.prems" by (auto split: if_splits prod.splits)
  have "?a * 64 ^ k \<le> r \<and> r < Suc ?a * 64 ^ k"
    using "3.IH" "3.prems" rec by (auto split: if_splits)
  moreover have "acc * 64 ^ Suc k \<le> ?a * 64 ^ k" by simp
  moreover have "Suc ?a * 64 ^ k \<le> Suc acc * 64 ^ Suc k"
  proof -
    have "Suc ?a \<le> Suc acc * 64" using d by simp
    then have "Suc ?a * 64 ^ k \<le> Suc acc * 64 * 64 ^ k" by (rule mult_le_mono1)
    then show ?thesis by (simp only: power_Suc mult.assoc)
  qed
  ultimately show ?case by linarith
qed auto

lemma utf8_conts_first_Suc:
  assumes "utf8_conts (Suc k) lo hi acc (c # cs) = (Some r, n)"
  shows "lo \<le> unat c \<and> unat c \<le> hi \<and> (acc * 64 + unat c mod 64) * 64 ^ k \<le> r \<and>
         r < Suc (acc * 64 + unat c mod 64) * 64 ^ k"
proof -
  have m: "unat (c AND 0x3F) = unat c mod 64"
    using unat_byte_and_mask [of c 6] by (simp add: byte_numeral_masks)
  have in_range: "lo \<le> unat c \<and> unat c \<le> hi" using assms by (auto split: if_splits)
  then obtain n' where "utf8_conts k 0x80 0xBF (acc * 64 + unat c mod 64) cs = (Some r, n')"
    using assms m by (auto split: prod.splits)
  then show ?thesis using in_range utf8_conts_range by blast
qed

lemma utf8_conts_first:
  assumes "0 < k" and "utf8_conts k lo hi acc (c # cs) = (Some r, n)"
  shows "lo \<le> unat c \<and> unat c \<le> hi \<and> (acc * 64 + unat c mod 64) * 64 ^ (k - 1) \<le> r \<and>
         r < Suc (acc * 64 + unat c mod 64) * 64 ^ (k - 1)"
proof -
  obtain k' where k: "k = Suc k'" using assms(1) by (cases k) auto
  from assms(2) have "utf8_conts (Suc k') lo hi acc (c # cs) = (Some r, n)" by (simp only: k)
  from utf8_conts_first_Suc [OF this] show ?thesis by (simp only: k diff_Suc_1)
qed

lemma cont_mod: "0x80 \<le> unat (c :: byte) \<Longrightarrow> unat c \<le> 0xBF \<Longrightarrow> unat c mod 64 = unat c - 128"
  using mod_block [of 2 64 "unat c"] by simp

lemma utf8_next_scalar2:
  fixes b :: byte
  assumes "0xC2 \<le> unat b" "unat b < 0xE0" "utf8_conts 1 0x80 0xBF (unat (b AND 0x1F)) bs = (Some c, n)"
  shows "scalar_value c"
proof -
  have "unat (b AND 0x1F) < 32"
    using unat_byte_and_mask [of b 5] by (simp add: byte_numeral_masks)
  then have "c < 2048" using utf8_conts_range [OF assms(3)] by simp
  then show ?thesis by (simp add: scalar_value_def py_char_def is_surrogate_def)
qed

lemma scalar_value_iff: "scalar_value c \<longleftrightarrow> c < 0x110000 \<and> (c < 0xD800 \<or> 0xDFFF < c)"
  by (auto simp: scalar_value_def py_char_def is_surrogate_def)

lemma utf8_next_scalar3:
  fixes b :: byte
  assumes "0xE0 \<le> unat b" "unat b < 0xF0"
    and "utf8_conts 2 (if unat b = 0xE0 then 0xA0 else 0x80) (if unat b = 0xED then 0x9F else 0xBF)
           (unat (b AND 0x0F)) bs = (Some c, n)"
  shows "scalar_value c"
proof -
  obtain c1 cs where bs: "bs = c1 # cs" using assms(3) by (cases bs) auto
  have a: "unat (b AND 0x0F) = unat b - 224"
    using unat_byte_and_mask [of b 4] mod_block [of 14 16 "unat b"] assms(1,2)
    by (simp add: byte_numeral_masks)
  have f: "(if unat b = 0xE0 then 0xA0 else 0x80) \<le> unat c1 \<and>
           unat c1 \<le> (if unat b = 0xED then 0x9F else 0xBF) \<and>
           ((unat b - 224) * 64 + unat c1 mod 64) * 64 \<le> c \<and>
           c < Suc ((unat b - 224) * 64 + unat c1 mod 64) * 64"
  proof -
    have "utf8_conts 2 (if unat b = 0xE0 then 0xA0 else 0x80) (if unat b = 0xED then 0x9F else 0xBF)
            (unat b - 224) (c1 # cs) = (Some c, n)"
      using assms(3) by (simp only: bs a)
    from utf8_conts_first [OF _ this] show ?thesis by simp
  qed
  have r1: "0x80 \<le> unat c1" "unat c1 \<le> 0xBF" using f by (simp_all split: if_splits)
  define A D where "A = unat b - 224" and "D = unat c1 - 128"
  have d: "unat c1 mod 64 = D" using cont_mod [OF r1] by (simp add: D_def)
  have lo: "A * 4096 + D * 64 \<le> c" and hi: "c < A * 4096 + D * 64 + 64"
    using f by (simp_all add: d A_def [symmetric])
  have A: "A \<le> 15" and D: "D \<le> 63" using assms(2) r1 by (simp_all add: A_def D_def)
  show ?thesis
  proof (cases "unat b = 0xED")
    case True
    have "unat c1 \<le> 159" using f True by simp
    then have "A = 13" "D \<le> 31" using True by (simp_all add: A_def D_def)
    then show ?thesis using hi by (simp add: scalar_value_iff)
  next
    case False
    then have "A \<noteq> 13" using assms(1) by (simp add: A_def)
    then have "A \<le> 12 \<or> 14 \<le> A" by linarith
    then show ?thesis using lo hi A D by (auto simp: scalar_value_iff)
  qed
qed

lemma utf8_next_scalar4:
  fixes b :: byte
  assumes "0xF0 \<le> unat b" "unat b < 0xF5"
    and "utf8_conts 3 (if unat b = 0xF0 then 0x90 else 0x80) (if unat b = 0xF4 then 0x8F else 0xBF)
           (unat (b AND 0x07)) bs = (Some c, n)"
  shows "scalar_value c"
proof -
  obtain c1 cs where bs: "bs = c1 # cs" using assms(3) by (cases bs) auto
  have a: "unat (b AND 0x07) = unat b - 240"
    using unat_byte_and_mask [of b 3] mod_block [of 30 8 "unat b"] assms(1,2)
    by (simp add: byte_numeral_masks)
  have f: "(if unat b = 0xF0 then 0x90 else 0x80) \<le> unat c1 \<and>
           unat c1 \<le> (if unat b = 0xF4 then 0x8F else 0xBF) \<and>
           ((unat b - 240) * 64 + unat c1 mod 64) * 4096 \<le> c \<and>
           c < Suc ((unat b - 240) * 64 + unat c1 mod 64) * 4096"
  proof -
    have "utf8_conts 3 (if unat b = 0xF0 then 0x90 else 0x80) (if unat b = 0xF4 then 0x8F else 0xBF)
            (unat b - 240) (c1 # cs) = (Some c, n)"
      using assms(3) by (simp only: bs a)
    from utf8_conts_first [OF _ this] show ?thesis by simp
  qed
  have r1: "0x80 \<le> unat c1" "unat c1 \<le> 0xBF" using f by (simp_all split: if_splits)
  define A D where "A = unat b - 240" and "D = unat c1 - 128"
  have d: "unat c1 mod 64 = D" using cont_mod [OF r1] by (simp add: D_def)
  have lo: "A * 262144 + D * 4096 \<le> c" and hi: "c < A * 262144 + D * 4096 + 4096"
    using f by (simp_all add: d A_def [symmetric])
  have A: "A \<le> 4" and D: "D \<le> 63" using assms(2) r1 by (simp_all add: A_def D_def)
  have top: "c < 0x110000"
  proof (cases "unat b = 0xF4")
    case True
    have "unat c1 \<le> 143" using f True by simp
    then have "A = 4" "D \<le> 15" using True by (simp_all add: A_def D_def)
    then show ?thesis using hi by simp
  next
    case False
    then have "A \<le> 3" using assms(2) by (simp add: A_def)
    then show ?thesis using hi D by simp
  qed
  have bottom: "0xDFFF < c"
  proof (cases "unat b = 0xF0")
    case True
    have "144 \<le> unat c1" using f True by simp
    then have "16 \<le> D" by (simp add: D_def)
    then show ?thesis using lo by simp
  next
    case False
    then have "1 \<le> A" using assms(1) by (simp add: A_def)
    then show ?thesis using lo by simp
  qed
  show ?thesis using top bottom by (simp add: scalar_value_iff)
qed

lemma utf8_next_scalar: "utf8_next b bs = (Some c, n) \<Longrightarrow> scalar_value c"
  unfolding utf8_next_def Let_def
  using utf8_next_scalar2 [of b bs c n] utf8_next_scalar3 [of b bs c n] utf8_next_scalar4 [of b bs c n]
  by (auto simp: scalar_value_iff split: if_splits)

lemma utf8_decode_replace_scalar: "list_all scalar_value (utf8_decode_replace bs)"
proof (induction bs rule: utf8_decode_replace.induct)
  case (2 b bs)
  obtain r n where nx: "utf8_next b bs = (r, n)" by (cases "utf8_next b bs")
  have "scalar_value (case r of Some c \<Rightarrow> c | None \<Rightarrow> replacement_char)"
    using nx utf8_next_scalar [of b bs _ n]
    by (cases r) (auto simp: scalar_value_iff replacement_char_def)
  then show ?case using 2 nx by simp
qed simp

section \<open>The bytes of the encoder\<close>

text \<open>An encoded text without surrogates has no zero byte unless the text has U+0000,
  and an ASCII character is its own byte.\<close>

lemma utf8_encode_cp_ascii: "c < 128 \<Longrightarrow> utf8_encode_cp c = [of_nat c]"
  by (simp add: utf8_encode_cp_def)

lemma byte_of_nat_nonzero: "0 < n \<Longrightarrow> n < 256 \<Longrightarrow> (of_nat n :: byte) \<noteq> 0"
  using unat_byte_of_nat [of n] by auto

lemma utf8_encode_cp_nonzero:
  assumes "0 < c" "scalar_value c"
  shows "0 \<notin> set (utf8_encode_cp c)"
proof -
  have nz: "\<And>n. 0 < n \<Longrightarrow> n < 256 \<Longrightarrow> (of_nat n :: byte) \<noteq> 0"
    using byte_of_nat_nonzero by blast
  have lt: "c < 0x110000" using assms(2) by (simp add: scalar_value_iff)
  have m: "c mod 64 < 64" "c div 64 mod 64 < 64" "c div 4096 mod 64 < 64" by simp_all
  consider "c < 128" | "128 \<le> c" "c < 2048" | "2048 \<le> c" "c < 65536" | "65536 \<le> c"
    by linarith
  then show ?thesis
  proof cases
    case 1
    then show ?thesis using nz [of c] assms(1) by (simp add: utf8_encode_cp_def)
  next
    case 2
    then have "c div 64 < 32" by simp
    then show ?thesis using 2 nz [of "192 + c div 64"] nz [of "128 + c mod 64"] m
      by (simp add: utf8_encode_cp_def)
  next
    case 3
    then have "c div 4096 < 16" by simp
    then show ?thesis
      using 3 nz [of "224 + c div 4096"] nz [of "128 + c div 64 mod 64"] nz [of "128 + c mod 64"] m
      by (simp add: utf8_encode_cp_def)
  next
    case 4
    then have "c div 262144 \<le> 4" using lt by simp
    then show ?thesis
      using 4 nz [of "240 + c div 262144"] nz [of "128 + c div 4096 mod 64"]
        nz [of "128 + c div 64 mod 64"] nz [of "128 + c mod 64"] m
      by (simp add: utf8_encode_cp_def)
  qed
qed

lemma utf8_encode_scalar:
  "list_all scalar_value t \<Longrightarrow> utf8_encode t = Inr (concat (map utf8_encode_cp t))"
  by (simp add: utf8_encode_def scalar_value_def list_all_iff)

end
