(* ===== verification/Sanitizer.thy ===== *)
theory Sanitizer
  imports Utf8
begin

text \<open>
  The OutputSanitizer: \<open>_truncate\<close> of \<open>src/app/services/executor.py\<close>, which turns
  a captured byte stream into the text returned to the caller. Within the cap the
  stream is decoded whole; above it the first \<open>max(0, max_bytes - 32)\<close> bytes are kept,
  the 15-byte marker \<open>b"\n...[truncated]"\<close> appended, and the result decoded with
  replacement. The cap is a Python \<open>int\<close> read from the environment, so it is an
  \<open>int\<close> here and may be zero or negative.
\<close>

section \<open>The marker and the truncation\<close>

definition byte_of_char :: "char \<Rightarrow> byte" where
  "byte_of_char c = of_nat (of_char c)"

text \<open>\<open>suffix = b"\n...[truncated]"\<close>: a newline (byte 10) and fourteen ASCII bytes.\<close>

definition truncation_suffix :: "byte list" where
  "truncation_suffix = 10 # map byte_of_char ''...[truncated]''"

text \<open>The same marker as text, the way it appears at the end of a truncated stream.\<close>

definition truncation_marker :: pystr where
  "truncation_marker = 10 # map of_char ''...[truncated]''"

definition truncate :: "byte list \<Rightarrow> int \<Rightarrow> pystr" where
  "truncate s max_bytes =
     (if int (length s) \<le> max_bytes then utf8_decode_replace s
      else utf8_decode_replace (take (nat (max 0 (max_bytes - 32))) s @ truncation_suffix))"

section \<open>Facts about the marker\<close>

lemma truncation_suffix_length [simp]: "length truncation_suffix = 15"
  by (simp add: truncation_suffix_def)

lemma truncation_suffix_boundary: "utf8_boundary truncation_suffix"
  by (simp add: truncation_suffix_def utf8_boundary_def)

lemma decode_truncation_suffix: "utf8_decode_replace truncation_suffix = truncation_marker"
  by (simp add: truncation_suffix_def truncation_marker_def byte_of_char_def utf8_next_def)

lemma truncation_marker_length [simp]: "length truncation_marker = 15"
  by (simp add: truncation_marker_def)

text \<open>The marker starts with an ASCII byte, so no partial sequence at the end of a head
  can absorb any of it.\<close>

lemma decode_with_suffix:
  "utf8_decode_replace (h @ truncation_suffix) = utf8_decode_replace h @ truncation_marker"
  by (simp add: utf8_decode_replace_append truncation_suffix_boundary decode_truncation_suffix)

text \<open>The returned text is always a sequence of scalar values, so it can be encoded.\<close>

lemma truncate_scalar: "list_all scalar_value (truncate s max_bytes)"
  by (simp add: truncate_def utf8_decode_replace_scalar)

lemma truncate_encodable: "\<exists>bs. utf8_encode (truncate s max_bytes) = Inr bs"
  using truncate_scalar [of s max_bytes]
  by (simp add: utf8_encode_def list_all_iff scalar_value_def)

lemma truncate_negative: "max_bytes < 0 \<Longrightarrow> truncate s max_bytes = truncation_marker"
  by (simp add: truncate_def decode_truncation_suffix)

text \<open>The UTF-8 size of the returned text: three bytes per byte kept, and the
  marker's fifteen.\<close>

lemma truncation_marker_encoded_length:
  "length (concat (map utf8_encode_cp truncation_marker)) = 15"
  by (simp add: truncation_marker_def utf8_encode_cp_def)

lemma truncate_encoded_length:
  assumes "5 \<le> max_bytes"
  shows "int (length (concat (map utf8_encode_cp (truncate s max_bytes)))) \<le> 3 * max_bytes"
proof (cases "int (length s) \<le> max_bytes")
  case True
  then show ?thesis
    using utf8_decode_replace_encoded_length [of s] by (simp add: truncate_def)
next
  case False
  let ?h = "take (nat (max 0 (max_bytes - 32))) s"
  have "length (concat (map utf8_encode_cp (utf8_decode_replace ?h))) \<le> 3 * nat (max 0 (max_bytes - 32))"
    using utf8_decode_replace_encoded_length [of ?h] by simp
  with False assms show ?thesis
    by (simp add: truncate_def decode_with_suffix truncation_marker_encoded_length)
qed
section \<open>Properties of the truncation\<close>

text \<open>C1: Above the cap, the returned text is exactly the decoding of the first
  \<open>max(0, max_bytes - 32)\<close> bytes followed by the complete marker \<open>"\n...[truncated]"\<close>:
  the marker is never cut and never merged with a partial character of the head.\<close>

theorem truncate_over_cap_marker:
  assumes "max_bytes < int (length s)"
  shows "truncate s max_bytes =
           utf8_decode_replace (take (nat (max 0 (max_bytes - 32))) s) @ truncation_marker"
  using assms by (simp add: truncate_def decode_with_suffix)

theorem truncate_over_cap_marker_witness:
  "(40 :: int) < int (length (replicate 50 (0x61 :: byte))) \<and>
   truncate (replicate 50 0x61) 40 = replicate 8 0x61 @ truncation_marker"
proof -
  have h: "(40 :: int) < int (length (replicate 50 (0x61 :: byte)))" by simp
  have d: "utf8_decode_replace (replicate 8 (0x61 :: byte)) = replicate 8 0x61"
    using utf8_decode_replicate_ascii [of "0x61 :: byte" 8] by simp
  show ?thesis using truncate_over_cap_marker [OF h] d by simp
qed

text \<open>C2: For a cap of at least 15, the text returned never has more characters than
  the cap, and its UTF-8 encoding in the response never more than three times the cap
  bytes: the head keeps at most \<open>max_bytes - 32\<close> bytes, each decoded to at most one
  character of at most three bytes per byte consumed, and the marker adds 15 ASCII
  characters.\<close>

theorem truncate_length_le_cap:
  assumes "15 \<le> max_bytes"
  shows "int (length (truncate s max_bytes)) \<le> max_bytes \<and>
         int (length (concat (map utf8_encode_cp (truncate s max_bytes)))) \<le> 3 * max_bytes"
proof -
  have "int (length (truncate s max_bytes)) \<le> max_bytes"
  proof (cases "int (length s) \<le> max_bytes")
    case True
    then show ?thesis
      using utf8_decode_replace_length [of s] by (simp add: truncate_def)
  next
    case False
    let ?h = "take (nat (max 0 (max_bytes - 32))) s"
    have "length (utf8_decode_replace ?h) \<le> nat (max 0 (max_bytes - 32))"
      using utf8_decode_replace_length [of ?h] by simp
    with False assms show ?thesis by (simp add: truncate_def decode_with_suffix)
  qed
  moreover have "int (length (concat (map utf8_encode_cp (truncate s max_bytes)))) \<le> 3 * max_bytes"
    using truncate_encoded_length assms by simp
  ultimately show ?thesis by simp
qed

theorem truncate_length_le_cap_witness:
  "(15 :: int) \<le> 16 \<and> int (length (truncate (replicate 16 (0xFF :: byte)) 16)) \<le> 16 \<and>
   int (length (concat (map utf8_encode_cp (truncate (replicate 16 (0xFF :: byte)) 16)))) \<le> 48"
  using truncate_length_le_cap [of 16 "replicate 16 0xFF"] by simp

text \<open>C3: Within the cap, output that is the UTF-8 encoding of some text comes back as
  that very text: nothing is cut and nothing is replaced.\<close>

theorem truncate_within_cap_exact:
  assumes "list_all py_char t" and "utf8_encode t = Inr s" and "int (length s) \<le> max_bytes"
  shows "truncate s max_bytes = t"
  using assms by (simp add: truncate_def utf8_roundtrip_replace)

theorem truncate_within_cap_exact_witness:
  "list_all py_char [0x68, 0x20AC] \<and> utf8_encode [0x68, 0x20AC] = Inr [0x68, 0xE2, 0x82, 0xAC] \<and>
   int (length [0x68, 0xE2, 0x82, (0xAC :: byte)]) \<le> 10 \<and>
   truncate [0x68, 0xE2, 0x82, 0xAC] 10 = [0x68, 0x20AC]"
proof -
  have h1: "list_all py_char [0x68, 0x20AC]" by (simp add: py_char_def)
  have h2: "utf8_encode [0x68, 0x20AC] = Inr [0x68, 0xE2, 0x82, 0xAC]"
    by (simp add: utf8_encode_def utf8_encode_cp_def is_surrogate_def)
  have h3: "int (length [0x68, 0xE2, 0x82, (0xAC :: byte)]) \<le> 10" by simp
  show ?thesis using truncate_within_cap_exact [OF h1 h2 h3] h1 h2 h3 by simp
qed

text \<open>The byte bound is reached: sixteen invalid bytes under a cap of
  sixteen come back as sixteen U+FFFD characters, 48 bytes once the response is encoded
  as UTF-8, three times the cap.\<close>

theorem truncate_bytes_exceed_cap:
  "truncate (replicate 16 0xFF) 16 = replicate 16 replacement_char \<and>
   length (concat (map utf8_encode_cp (truncate (replicate 16 0xFF) 16))) = 48"
proof -
  have "truncate (replicate 16 0xFF) 16 = replicate 16 replacement_char"
    using utf8_decode_replicate_invalid [of "0xFF :: byte" 16] by (simp add: truncate_def)
  then show ?thesis
    using utf8_encode_replacement_length [of 16] by simp
qed



end
