(* ===== verification/Supervisor.thy ===== *)
theory Supervisor
  imports Sanitizer
begin

text \<open>
  The ProcessSupervisor of \<open>src/app/services/executor.py\<close>: the resource limits that
  \<open>_limit_preexec\<close> (lines 32--64) installs in the child before \<open>exec\<close>, and the life of
  the child from \<open>subprocess.Popen\<close> to the \<open>ExecutionResult\<close> (lines 285--327):
  \<open>communicate\<close> with the deadline, on \<open>TimeoutExpired\<close> \<open>os.killpg\<close> (errors
  swallowed), \<open>proc.kill()\<close> and a second \<open>communicate\<close> that drains the pipes, then the
  duration and the truncated streams. The life of the child is an inductive step relation
  over a record of the supervisor's state, with the clock an integer count of
  nanoseconds of \<open>time.perf_counter\<close>; each \<open>setrlimit\<close> is an answer of the host that
  may fail. The lemmas give an invariant of every reachable state, the result's timeout
  and exit-code laws, progress to a reaped child, and a functional supervisor that the
  relation refines.
\<close>

section \<open>Resource limits of the child\<close>

datatype rlimit = RLIMIT_CPU | RLIMIT_AS | RLIMIT_FSIZE | RLIMIT_NOFILE | RLIMIT_NPROC

text \<open>Lines 38--59, in order: soft and hard limit are the same value.\<close>

definition limit_plan :: "int \<Rightarrow> int \<Rightarrow> (rlimit \<times> int) list" where
  "limit_plan cpu_time_sec memory_limit_mb =
     [(RLIMIT_CPU, cpu_time_sec), (RLIMIT_AS, memory_limit_mb * 1024 * 1024),
      (RLIMIT_FSIZE, 16 * 1024 * 1024), (RLIMIT_NOFILE, 64), (RLIMIT_NPROC, 64)]"

text \<open>The child's process attributes that the hook changes.\<close>

record child_attrs =
  ca_limits :: "rlimit \<Rightarrow> int option"
  ca_session_leader :: bool

text \<open>\<open>_apply\<close>: nothing when the \<open>resource\<close> module is missing (line 34--35, which also
  skips \<open>os.setsid()\<close>); otherwise each \<open>setrlimit\<close> in its own \<open>try\<close>, a failing one
  (\<open>setrlimit_ok\<close> false) leaving that limit as it was, then \<open>os.setsid()\<close>.\<close>

definition limit_preexec ::
  "bool \<Rightarrow> (rlimit \<Rightarrow> int \<Rightarrow> bool) \<Rightarrow> int \<Rightarrow> int \<Rightarrow> child_attrs \<Rightarrow> child_attrs" where
  "limit_preexec resource_available setrlimit_ok cpu_time_sec memory_limit_mb c =
     (if \<not> resource_available then c
      else (fold (\<lambda>(r, v) c. if setrlimit_ok r v then c\<lparr>ca_limits := (ca_limits c)(r \<mapsto> v)\<rparr> else c)
                 (limit_plan cpu_time_sec memory_limit_mb) c)\<lparr>ca_session_leader := True\<rparr>)"

text \<open>Lines 285--288: the defaults for limits the caller leaves out.\<close>

definition preexec_limits :: "int option \<Rightarrow> int option \<Rightarrow> int \<times> int" where
  "preexec_limits cpu_time_limit_sec memory_limit_mb =
     ((case cpu_time_limit_sec of Some c \<Rightarrow> c | None \<Rightarrow> 2),
      (case memory_limit_mb of Some m \<Rightarrow> m | None \<Rightarrow> 256))"

section \<open>The life of the child\<close>

datatype phase = Prepared | Running | Exited | TimedOut | Killed | Reaped

text \<open>The supervisor's view: the phase, the clock, \<open>start\<close> (line 230), the deadline of
  the first \<open>communicate\<close>, \<open>proc.returncode\<close>, \<open>timed_out\<close>, whether the child is
  alive, the bytes read from its pipes, whether it leads its own process group (the
  \<open>os.setsid()\<close> of the hook) and whether \<open>os.killpg\<close> reached that group.\<close>

record supervisor =
  sv_phase :: phase
  sv_now :: int
  sv_start :: int
  sv_deadline :: int
  sv_returncode :: "int option"
  sv_timed_out :: bool
  sv_alive :: bool
  sv_out :: "byte list"
  sv_err :: "byte list"
  sv_group_leader :: bool
  sv_group_killed :: bool

definition sv_init :: "int \<Rightarrow> bool \<Rightarrow> supervisor" where
  "sv_init start group_leader =
     \<lparr>sv_phase = Prepared, sv_now = start, sv_start = start, sv_deadline = start,
      sv_returncode = None, sv_timed_out = False, sv_alive = False, sv_out = [], sv_err = [],
      sv_group_leader = group_leader, sv_group_killed = False\<rparr>"

text \<open>\<open>timeout_ms / 1000.0\<close> seconds in nanoseconds.\<close>

definition ns_per_ms :: int where
  "ns_per_ms = 1000000"

text \<open>One step of the supervisor, with the timeout in milliseconds as parameter:
  \<^item> \<open>spawn\<close>: \<open>Popen\<close> and the start of \<open>communicate\<close> at time \<open>t\<close>, which fixes the deadline;
  \<^item> \<open>output\<close>: the child writes to its pipes before the deadline;
  \<^item> \<open>exit\<close>: the child ends with status \<open>c\<close> before the deadline and \<open>communicate\<close> returns;
  \<^item> \<open>expire\<close>: the deadline passes, \<open>TimeoutExpired\<close>, \<open>timed_out = True\<close> (line 307);
  \<^item> \<open>kill\<close>: \<open>os.killpg(proc.pid, SIGKILL)\<close>, which reaches a group only when the child
    leads one, and \<open>proc.kill()\<close>, which always ends the child (lines 308--313);
  \<^item> \<open>reap\<close>: the last \<open>communicate\<close> (line 314, or the end of the first one) drains the
    pipes and waits; a killed child has status \<open>-9\<close>.\<close>

inductive sv_step :: "int \<Rightarrow> supervisor \<Rightarrow> supervisor \<Rightarrow> bool" for timeout_ms :: int where
  sv_spawn: "sv_phase s = Prepared \<Longrightarrow> sv_now s \<le> t \<Longrightarrow>
    sv_step timeout_ms s (s\<lparr>sv_phase := Running, sv_now := t,
      sv_deadline := t + timeout_ms * ns_per_ms, sv_alive := True\<rparr>)"
| sv_output: "sv_phase s = Running \<Longrightarrow> sv_now s \<le> t \<Longrightarrow> t < sv_deadline s \<Longrightarrow>
    sv_step timeout_ms s (s\<lparr>sv_now := t, sv_out := sv_out s @ ob, sv_err := sv_err s @ eb\<rparr>)"
| sv_exit: "sv_phase s = Running \<Longrightarrow> sv_now s \<le> t \<Longrightarrow> t < sv_deadline s \<Longrightarrow>
    sv_step timeout_ms s (s\<lparr>sv_phase := Exited, sv_now := t, sv_returncode := Some c,
      sv_alive := False\<rparr>)"
| sv_expire: "sv_phase s = Running \<Longrightarrow> sv_now s \<le> t \<Longrightarrow> sv_deadline s \<le> t \<Longrightarrow>
    sv_step timeout_ms s (s\<lparr>sv_phase := TimedOut, sv_now := t, sv_timed_out := True\<rparr>)"
| sv_kill: "sv_phase s = TimedOut \<Longrightarrow>
    sv_step timeout_ms s (s\<lparr>sv_phase := Killed, sv_alive := False,
      sv_group_killed := sv_group_leader s, sv_returncode := Some (-9)\<rparr>)"
| sv_reap: "sv_phase s \<in> {Exited, Killed} \<Longrightarrow> sv_now s \<le> t \<Longrightarrow>
    sv_step timeout_ms s (s\<lparr>sv_phase := Reaped, sv_now := t, sv_out := sv_out s @ ob,
      sv_err := sv_err s @ eb\<rparr>)"


section \<open>The result\<close>

text \<open>\<open>ExecutionResult\<close> (lines 23--29).\<close>

record execution_result =
  er_stdout :: pystr
  er_stderr :: pystr
  er_exit_code :: "int option"
  er_timed_out :: bool
  er_duration_ms :: int

text \<open>Lines 316--327: \<open>int((now - start) * 1000)\<close> truncates toward zero, which is the
  floor for the non-negative durations of a monotone clock.\<close>

definition sv_result :: "int \<Rightarrow> supervisor \<Rightarrow> execution_result" where
  "sv_result max_output_bytes s =
     \<lparr>er_stdout = Sanitizer.truncate (sv_out s) max_output_bytes,
      er_stderr = Sanitizer.truncate (sv_err s) max_output_bytes,
      er_exit_code = (if sv_timed_out s then None else sv_returncode s),
      er_timed_out = sv_timed_out s,
      er_duration_ms = (sv_now s - sv_start s) div ns_per_ms\<rparr>"

section \<open>A functional supervisor\<close>

text \<open>What the child does when left alone: after how many nanoseconds it would exit
  (\<open>None\<close>: never), with which status, and what it writes before it ends or is killed.\<close>

record child_run =
  cr_runtime :: "int option"
  cr_status :: int
  cr_out :: "byte list"
  cr_err :: "byte list"

text \<open>The whole of lines 290--314 as one function: spawned at \<open>t_spawn\<close>, the child
  either exits before the deadline or is killed at it.\<close>

definition supervise :: "int \<Rightarrow> int \<Rightarrow> int \<Rightarrow> bool \<Rightarrow> child_run \<Rightarrow> supervisor" where
  "supervise timeout_ms start t_spawn group_leader r =
     (let d = t_spawn + timeout_ms * ns_per_ms;
          s0 = sv_init start group_leader
      in case cr_runtime r of
           Some rt \<Rightarrow>
             if max 0 rt < timeout_ms * ns_per_ms then
               s0\<lparr>sv_phase := Reaped, sv_now := t_spawn + max 0 rt, sv_deadline := d,
                  sv_returncode := Some (cr_status r), sv_out := cr_out r, sv_err := cr_err r\<rparr>
             else
               s0\<lparr>sv_phase := Reaped, sv_now := max t_spawn d, sv_deadline := d,
                  sv_returncode := Some (-9), sv_timed_out := True, sv_out := cr_out r,
                  sv_err := cr_err r, sv_group_killed := group_leader\<rparr>
         | None \<Rightarrow>
             s0\<lparr>sv_phase := Reaped, sv_now := max t_spawn d, sv_deadline := d,
                sv_returncode := Some (-9), sv_timed_out := True, sv_out := cr_out r,
                sv_err := cr_err r, sv_group_killed := group_leader\<rparr>)"

text \<open>A child that prints \<open>hi\<close> and exits with status 0 five nanoseconds after it starts.\<close>

definition demo_child :: child_run where
  "demo_child = \<lparr>cr_runtime = Some 5, cr_status = 0, cr_out = [0x68, 0x69], cr_err = []\<rparr>"

section \<open>The invariant of the supervisor\<close>

text \<open>What holds in every reachable state: the clock never runs back behind \<open>start\<close>;
  the deadline is at least the timeout after \<open>start\<close>; a timed-out run is past its
  deadline; the phases before the timeout have not timed out and those after it have; a
  child that exited, was killed or reaped is dead and has a status; \<open>killpg\<close> reached a
  group exactly when the timed-out child leads one, and a killed child has status -9.\<close>

definition sv_inv :: "int \<Rightarrow> supervisor \<Rightarrow> bool" where
  "sv_inv timeout_ms s \<longleftrightarrow>
     sv_start s \<le> sv_now s \<and>
     (sv_phase s \<noteq> Prepared \<longrightarrow> sv_start s + timeout_ms * ns_per_ms \<le> sv_deadline s) \<and>
     (sv_timed_out s \<longrightarrow> sv_deadline s \<le> sv_now s) \<and>
     (sv_phase s \<in> {Prepared, Running, Exited} \<longrightarrow> \<not> sv_timed_out s) \<and>
     (sv_phase s \<in> {TimedOut, Killed} \<longrightarrow> sv_timed_out s) \<and>
     (sv_phase s \<in> {Exited, Killed, Reaped} \<longrightarrow> \<not> sv_alive s \<and> sv_returncode s \<noteq> None) \<and>
     (sv_timed_out s \<and> sv_phase s \<in> {Killed, Reaped} \<longrightarrow>
        sv_group_killed s = sv_group_leader s \<and> sv_returncode s = Some (-9)) \<and>
     (\<not> sv_timed_out s \<longrightarrow> \<not> sv_group_killed s)"

text \<open>The order in which the phases follow each other, for the termination argument:
  every step but \<open>output\<close> moves to a later phase.\<close>

definition sv_phase_rank :: "phase \<Rightarrow> nat" where
  "sv_phase_rank p =
     (case p of Prepared \<Rightarrow> 5 | Running \<Rightarrow> 4 | TimedOut \<Rightarrow> 3 | Exited \<Rightarrow> 2 | Killed \<Rightarrow> 2
      | Reaped \<Rightarrow> 0)"

lemma sv_inv_init: "sv_inv T (sv_init start gl)"
  by (simp add: sv_inv_def sv_init_def)

lemma sv_step_inv: "sv_step T s s' \<Longrightarrow> sv_inv T s \<Longrightarrow> sv_inv T s'"
  by (induction rule: sv_step.induct) (auto simp: sv_inv_def)

lemma sv_reachable_inv:
  "(sv_step T)\<^sup>*\<^sup>* (sv_init start gl) s \<Longrightarrow> sv_inv T s"
  by (induction rule: rtranclp_induct) (auto simp: sv_inv_init sv_step_inv)

section \<open>Progress\<close>

lemma sv_reap_from:
  assumes "sv_phase s \<in> {Exited, Killed}"
  shows "\<exists>s'. (sv_step T)\<^sup>*\<^sup>* s s' \<and> sv_phase s' = Reaped"
proof -
  let ?s' = "s\<lparr>sv_phase := Reaped, sv_now := sv_now s, sv_out := sv_out s @ [], sv_err := sv_err s @ []\<rparr>"
  have "sv_step T s ?s'" using assms by (intro sv_step.sv_reap) simp_all
  then show ?thesis by (intro exI [of _ ?s']) simp
qed

lemma sv_step_then:
  "sv_step T s s1 \<Longrightarrow> \<exists>s'. (sv_step T)\<^sup>*\<^sup>* s1 s' \<and> P s' \<Longrightarrow> \<exists>s'. (sv_step T)\<^sup>*\<^sup>* s s' \<and> P s'"
  by (meson converse_rtranclp_into_rtranclp)

lemma sv_reap_from_TimedOut:
  "sv_phase s = TimedOut \<Longrightarrow> \<exists>s'. (sv_step T)\<^sup>*\<^sup>* s s' \<and> sv_phase s' = Reaped"
  by (rule sv_step_then [OF sv_step.sv_kill]) (simp_all add: sv_reap_from)

lemma sv_reap_from_Running:
  "sv_phase s = Running \<Longrightarrow> \<exists>s'. (sv_step T)\<^sup>*\<^sup>* s s' \<and> sv_phase s' = Reaped"
  by (rule sv_step_then [OF sv_step.sv_expire [of s "max (sv_now s) (sv_deadline s)"]])
    (simp_all add: sv_reap_from_TimedOut)

lemma sv_reap_from_Prepared:
  "sv_phase s = Prepared \<Longrightarrow> \<exists>s'. (sv_step T)\<^sup>*\<^sup>* s s' \<and> sv_phase s' = Reaped"
  by (rule sv_step_then [OF sv_step.sv_spawn [of s "sv_now s"]]) (simp_all add: sv_reap_from_Running)

lemma sv_step_leader: "sv_step T s s' \<Longrightarrow> sv_group_leader s' = sv_group_leader s"
  by (induction rule: sv_step.induct) simp_all

lemma sv_reachable_leader:
  "(sv_step T)\<^sup>*\<^sup>* (sv_init start gl) s \<Longrightarrow> sv_group_leader s = gl"
  by (induction rule: rtranclp_induct) (auto simp: sv_init_def dest: sv_step_leader)

lemma sv_Reaped_final: "sv_phase s = Reaped \<Longrightarrow> \<not> sv_step T s s'"
  by (auto elim: sv_step.cases)

lemma div_ns_per_ms_mono: "T * ns_per_ms \<le> x \<Longrightarrow> T \<le> x div ns_per_ms"
  using zdiv_mono1 [of "T * ns_per_ms" x ns_per_ms] by (simp add: ns_per_ms_def)

section \<open>Properties of the supervisor\<close>

text \<open>C17: Whatever the child does and however the scheduler interleaves the steps,
  every state reachable from the start satisfies the invariant \<open>sv_inv\<close>.\<close>

theorem sv_invariant:
  assumes "(sv_step T)\<^sup>*\<^sup>* (sv_init start gl) s"
  shows "sv_inv T s"
  using assms by (rule sv_reachable_inv)

lemma sv_reaped_result:
  assumes "(sv_step T)\<^sup>*\<^sup>* (sv_init start gl) s" and "sv_phase s = Reaped"
  shows "(er_exit_code (sv_result m s) = None \<longleftrightarrow> er_timed_out (sv_result m s)) \<and>
         0 \<le> er_duration_ms (sv_result m s) \<and>
         (er_timed_out (sv_result m s) \<longrightarrow> T \<le> er_duration_ms (sv_result m s)) \<and>
         (er_timed_out (sv_result m s) \<longrightarrow> sv_group_killed s = gl)"
proof -
  have inv: "sv_inv T s" using assms(1) by (rule sv_reachable_inv)
  have "sv_group_leader s = gl" using assms(1) by (rule sv_reachable_leader)
  moreover have "0 \<le> (sv_now s - sv_start s) div ns_per_ms"
    using inv by (simp add: sv_inv_def ns_per_ms_def pos_imp_zdiv_nonneg_iff)
  moreover have "sv_timed_out s \<longrightarrow> T \<le> (sv_now s - sv_start s) div ns_per_ms"
    using inv assms(2) div_ns_per_ms_mono [of T "sv_now s - sv_start s"] by (auto simp: sv_inv_def)
  ultimately show ?thesis using inv assms(2) by (auto simp: sv_result_def sv_inv_def)
qed

text \<open>C18: In the result of a reaped child, \<open>exit_code\<close> is \<open>None\<close> exactly when the run
  timed out, the duration is never negative, a timed-out run lasted at least the timeout,
  and after a timeout \<open>os.killpg\<close> has reached the child's group exactly when the hook
  made the child a group leader.\<close>

theorem sv_result_laws:
  assumes "(sv_step T)\<^sup>*\<^sup>* (sv_init start gl) s" and "sv_phase s = Reaped"
  shows "(er_exit_code (sv_result m s) = None \<longleftrightarrow> er_timed_out (sv_result m s)) \<and>
         0 \<le> er_duration_ms (sv_result m s) \<and>
         (er_timed_out (sv_result m s) \<longrightarrow> T \<le> er_duration_ms (sv_result m s)) \<and>
         (er_timed_out (sv_result m s) \<longrightarrow> sv_group_killed s = gl)"
  using assms by (rule sv_reaped_result)


lemma sv_steps3:
  "sv_step T a b \<Longrightarrow> sv_step T b c \<Longrightarrow> sv_step T c d \<Longrightarrow> (sv_step T)\<^sup>*\<^sup>* a d"
  by (meson converse_rtranclp_into_rtranclp r_into_rtranclp)

lemma sv_steps4:
  "sv_step T a b \<Longrightarrow> sv_step T b c \<Longrightarrow> sv_step T c d \<Longrightarrow> sv_step T d e \<Longrightarrow>
   (sv_step T)\<^sup>*\<^sup>* a e"
  by (meson converse_rtranclp_into_rtranclp r_into_rtranclp)

lemma supervise_reachable:
  assumes "start \<le> t_spawn"
  shows "(sv_step T)\<^sup>*\<^sup>* (sv_init start gl) (supervise T start t_spawn gl r)"
proof -
  let ?d = "t_spawn + T * ns_per_ms"
  let ?s1 = "(sv_init start gl)\<lparr>sv_phase := Running, sv_now := t_spawn, sv_deadline := ?d,
               sv_alive := True\<rparr>"
  have s1: "sv_step T (sv_init start gl) ?s1"
    using assms sv_step.sv_spawn [of "sv_init start gl" t_spawn T] by (simp add: sv_init_def)
  show ?thesis
  proof (cases "\<exists>rt. cr_runtime r = Some rt \<and> max 0 rt < T * ns_per_ms")
    case True
    then obtain rt where rt: "cr_runtime r = Some rt" "max 0 rt < T * ns_per_ms" by blast
    let ?te = "t_spawn + max 0 rt"
    let ?s2 = "?s1\<lparr>sv_phase := Exited, sv_now := ?te, sv_returncode := Some (cr_status r),
                 sv_alive := False\<rparr>"
    let ?s3 = "?s2\<lparr>sv_phase := Reaped, sv_now := ?te, sv_out := sv_out ?s2 @ cr_out r,
                 sv_err := sv_err ?s2 @ cr_err r\<rparr>"
    have s2: "sv_step T ?s1 ?s2"
      using rt sv_step.sv_exit [of ?s1 ?te T "cr_status r"] by simp
    have s3: "sv_step T ?s2 ?s3"
      using sv_step.sv_reap [where s = ?s2 and t = ?te and timeout_ms = T and ob = "cr_out r" and eb = "cr_err r"] by simp
    have eq: "?s3 = supervise T start t_spawn gl r"
      using rt by (simp add: supervise_def sv_init_def Let_def)
    show ?thesis unfolding eq [symmetric]
      using s1 s2 s3 by (rule sv_steps3)
  next
    case False
    let ?tx = "max t_spawn ?d"
    let ?s2 = "?s1\<lparr>sv_phase := TimedOut, sv_now := ?tx, sv_timed_out := True\<rparr>"
    let ?s3 = "?s2\<lparr>sv_phase := Killed, sv_alive := False, sv_group_killed := sv_group_leader ?s2,
                 sv_returncode := Some (-9)\<rparr>"
    let ?s4 = "?s3\<lparr>sv_phase := Reaped, sv_now := ?tx, sv_out := sv_out ?s3 @ cr_out r,
                 sv_err := sv_err ?s3 @ cr_err r\<rparr>"
    have s2: "sv_step T ?s1 ?s2"
      using sv_step.sv_expire [of ?s1 ?tx T] by simp
    have s3: "sv_step T ?s2 ?s3"
      using sv_step.sv_kill [of ?s2 T] by simp
    have s4: "sv_step T ?s3 ?s4"
      using sv_step.sv_reap [where s = ?s3 and t = ?tx and timeout_ms = T and ob = "cr_out r" and eb = "cr_err r"] by simp
    have eq: "?s4 = supervise T start t_spawn gl r"
      using False by (auto simp: supervise_def sv_init_def Let_def split: option.split)
    show ?thesis unfolding eq [symmetric]
      using s1 s2 s3 s4 by (rule sv_steps4)
  qed
qed

text \<open>C20: The functional supervisor is a run of the step relation: for every child
  behaviour, spawned no earlier than \<open>start\<close>, the state it computes is reachable, so the
  laws of C17 and C18 hold of it.\<close>

theorem supervise_refines:
  assumes "start \<le> t_spawn"
  shows "(sv_step T)\<^sup>*\<^sup>* (sv_init start gl) (supervise T start t_spawn gl r)"
  using assms by (rule supervise_reachable)

section \<open>Properties of the resource limits\<close>

text \<open>C21: With the \<open>resource\<close> module present, the hook sets each of the five limits of
  the plan to its value exactly when that \<open>setrlimit\<close> succeeds, independently of the
  others (a failing call is skipped, not fatal), leaves every other limit alone, and
  makes the child a session leader.\<close>

theorem limit_preexec_limits:
  "ca_limits (limit_preexec True ok cpu mem c) =
     (\<lambda>r. case map_of (limit_plan cpu mem) r of
            Some v \<Rightarrow> if ok r v then Some v else ca_limits c r
          | None \<Rightarrow> ca_limits c r) \<and>
   ca_session_leader (limit_preexec True ok cpu mem c)"
  by (auto simp: limit_preexec_def limit_plan_def fun_eq_iff split: rlimit.split)

section \<open>Termination after the deadline\<close>

lemma sv_step_rank:
  "sv_step T s s' \<Longrightarrow> sv_deadline s \<le> sv_now s \<Longrightarrow>
   sv_phase_rank (sv_phase s') < sv_phase_rank (sv_phase s)"
  by (induction rule: sv_step.induct) (auto simp: sv_phase_rank_def)

text \<open>C36: Once the clock has reached the deadline the supervisor cannot go on forever:
  the steps taken from states past their deadline are well-founded, since the child can
  no longer write and the timeout, the kill and the final \<open>communicate\<close> each move to a
  later phase (lines 304--314).\<close>

theorem sv_terminates_after_deadline:
  "wf {(s', s). sv_step T s s' \<and> sv_deadline s \<le> sv_now s}"
  by (rule wf_subset [OF wf_measure [of "\<lambda>s. sv_phase_rank (sv_phase s)"]]) (auto dest: sv_step_rank)

section \<open>Witnesses\<close>

theorem sv_invariant_witness:
  "sv_inv 1000 (supervise 1000 0 0 True demo_child) \<and>
   sv_phase (supervise 1000 0 0 True demo_child) = Reaped"
  using sv_invariant [OF supervise_reachable [of 0 0 1000 True demo_child]]
  by (simp add: supervise_def sv_init_def demo_child_def ns_per_ms_def)

theorem sv_result_laws_witness:
  "er_exit_code (sv_result 100 (supervise 2 0 0 False (demo_child\<lparr>cr_runtime := None\<rparr>))) = None \<and>
   er_timed_out (sv_result 100 (supervise 2 0 0 False (demo_child\<lparr>cr_runtime := None\<rparr>))) \<and>
   2 \<le> er_duration_ms (sv_result 100 (supervise 2 0 0 False (demo_child\<lparr>cr_runtime := None\<rparr>))) \<and>
   \<not> sv_group_killed (supervise 2 0 0 False (demo_child\<lparr>cr_runtime := None\<rparr>))"
proof -
  let ?s = "supervise 2 0 0 False (demo_child\<lparr>cr_runtime := None\<rparr>)"
  have r: "(sv_step 2)\<^sup>*\<^sup>* (sv_init 0 False) ?s" by (rule supervise_reachable) simp
  have p: "sv_phase ?s = Reaped" by (simp add: supervise_def sv_init_def Let_def)
  have t: "er_timed_out (sv_result 100 ?s)"
    by (simp add: supervise_def sv_init_def sv_result_def demo_child_def Let_def)
  show ?thesis using sv_result_laws [OF r p, of 100] t by simp
qed

theorem supervise_refines_witness:
  "(sv_step 1000)\<^sup>*\<^sup>* (sv_init 0 True) (supervise 1000 0 7 True demo_child)"
  using supervise_refines [of 0 7 1000 True demo_child] by simp

theorem limit_preexec_limits_witness:
  "ca_limits (limit_preexec True (\<lambda>r v. r \<noteq> RLIMIT_NPROC) 2 256
       \<lparr>ca_limits = Map.empty, ca_session_leader = False\<rparr>) RLIMIT_AS = Some 268435456 \<and>
   ca_limits (limit_preexec True (\<lambda>r v. r \<noteq> RLIMIT_NPROC) 2 256
       \<lparr>ca_limits = Map.empty, ca_session_leader = False\<rparr>) RLIMIT_NPROC = None"
  using limit_preexec_limits [of "\<lambda>r v. r \<noteq> RLIMIT_NPROC" 2 256
      "\<lparr>ca_limits = Map.empty, ca_session_leader = False\<rparr>"]
  by (simp add: limit_plan_def)

end
