(* ===== verification/Rlimit.thy ===== *)
theory Rlimit
  imports Supervisor
begin

text \<open>
  What \<open>resource.setrlimit\<close> does with the values \<open>_limit_preexec\<close> of
  \<open>src/app/services/executor.py\<close> (lines 36--61) passes to it. CPython (up to 3.13, on
  64-bit Linux) converts each Python integer with \<open>PyLong_AsLong\<close>, which raises
  \<open>OverflowError\<close> outside the range of a signed 64-bit \<open>long\<close>, and stores the result in
  the unsigned 64-bit \<open>rlim_t\<close>, so a negative value wraps around. The kernel refuses
  (\<open>EPERM\<close>, a \<open>ValueError\<close> in Python) a hard limit above the current one unless the
  process may raise it. Every such exception is swallowed by the hook's \<open>except\<close>. The
  values are kept at their width: \<open>rlim_t\<close> is \<open>64 word\<close>. The lemmas show that the
  address-space limit \<open>memory_limit_mb * 1024 * 1024\<close> is installed only for
  \<open>-2^43 \<le> memory_limit_mb < 2^43\<close>: a larger setting removes the limit instead of
  raising it.
\<close>

section \<open>Definitions\<close>

text \<open>The kernel's side of \<open>setrlimit(2)\<close> for the child: its current hard limits,
  inherited from the server, and whether it may raise them (\<open>CAP_SYS_RESOURCE\<close>).\<close>

record kernel_limits =
  kl_hard :: "rlimit \<Rightarrow> 64 word"
  kl_privileged :: bool

text \<open>The conversion of a Python integer to \<open>rlim_t\<close>: \<open>PyLong_AsLong\<close>, then the cast
  to the unsigned type.\<close>

definition rlim_of_pylong :: "int \<Rightarrow> 64 word option" where
  "rlim_of_pylong v = (if - (2 ^ 63) \<le> v \<and> v < 2 ^ 63 then Some (word_of_int v) else None)"

text \<open>\<open>resource.setrlimit(r, (v, v))\<close>: \<open>True\<close> when it returns, \<open>False\<close> when it
  raises. Soft and hard limit are equal, so \<open>EINVAL\<close> (soft above hard) cannot occur.\<close>

definition py_setrlimit :: "kernel_limits \<Rightarrow> rlimit \<Rightarrow> int \<Rightarrow> bool" where
  "py_setrlimit k r v =
     (case rlim_of_pylong v of
        None \<Rightarrow> False
      | Some w \<Rightarrow> kl_privileged k \<or> w \<le> kl_hard k r)"

text \<open>A child with the usual inherited limits: no address-space limit
  (\<open>RLIM_INFINITY\<close>, all ones) and no privilege.\<close>

definition demo_kernel :: kernel_limits where
  "demo_kernel = \<lparr>kl_hard = (\<lambda>r. - 1), kl_privileged = False\<rparr>"

section \<open>The hook on one limit\<close>

lemma limit_preexec_at:
  assumes "map_of (limit_plan cpu mem) r = Some v"
  shows "ca_limits (limit_preexec True ok cpu mem c) r = (if ok r v then Some v else ca_limits c r)"
  using assms by (cases r) (auto simp: limit_preexec_def limit_plan_def)

lemma limit_plan_as: "map_of (limit_plan cpu mem) RLIMIT_AS = Some (mem * 1048576)"
  by (simp add: limit_plan_def)

lemma rlim_of_pylong_mb:
  "rlim_of_pylong (mem * 1048576) =
     (if - (2 ^ 43) \<le> mem \<and> mem < 2 ^ 43 then Some (word_of_int (mem * 1048576)) else None)"
proof -
  have "(- (2 ^ 63) \<le> mem * 1048576 \<and> mem * 1048576 < (2 ^ 63 :: int)) \<longleftrightarrow>
        (- (2 ^ 43) \<le> mem \<and> mem < (2 ^ 43 :: int))"
    by simp
  then show ?thesis by (simp add: rlim_of_pylong_def)
qed

section \<open>Properties\<close>

text \<open>C38: The address-space limit reaches the child exactly when
  \<open>memory_limit_mb * 1024 * 1024\<close> fits a signed 64-bit integer, that is
  \<open>-2^43 \<le> memory_limit_mb < 2^43\<close>, and the kernel accepts the wrapped value; otherwise
  the \<open>OverflowError\<close> or \<open>ValueError\<close> is swallowed and the child keeps the limit it had.\<close>

theorem rlimit_as_width:
  "ca_limits (limit_preexec True (py_setrlimit k) cpu mem c) RLIMIT_AS =
     (if - (2 ^ 43) \<le> mem \<and> mem < 2 ^ 43 \<and>
         (kl_privileged k \<or> word_of_int (mem * 1048576) \<le> kl_hard k RLIMIT_AS)
      then Some (mem * 1048576) else ca_limits c RLIMIT_AS)"
  by (simp add: limit_preexec_at [OF limit_plan_as] py_setrlimit_def rlim_of_pylong_mb)

text \<open>With the usual inherited limits, \<open>MEMORY_LIMIT_MB=8796093022207\<close> installs the
  limit and one more megabyte installs none.\<close>

lemma rlimit_as_drops_at_2_43:
  "ca_limits (limit_preexec True (py_setrlimit demo_kernel) 2 (2 ^ 43 - 1) \<lparr>ca_limits = Map.empty, ca_session_leader = False\<rparr>)
     RLIMIT_AS = Some ((2 ^ 43 - 1) * 1048576) \<and>
   ca_limits (limit_preexec True (py_setrlimit demo_kernel) 2 (2 ^ 43) \<lparr>ca_limits = Map.empty, ca_session_leader = False\<rparr>)
     RLIMIT_AS = None"
  by (simp add: limit_preexec_at [OF limit_plan_as] py_setrlimit_def rlim_of_pylong_def demo_kernel_def)

end
