(* ===== verification/Base64.thy ===== *)
theory Base64
  imports Prelude
begin

text \<open>
  The payload channel between the host and the guest: the executor sends the caller's
  code as \<open>base64.b64encode(code.encode("utf-8")).decode("ascii")\<close> in the environment
  variable \<open>PY_CODE_B64\<close>, and the bootstrap script reads it back with
  \<open>base64.b64decode\<close>. The encoder follows the standard alphabet and \<open>=\<close> padding
  of \<open>binascii.b2a_base64\<close>, three bytes to four sextets, each sextet masked with
  \<open>0x3f\<close> before the table lookup. The decoder is the inverse on the canonical form
  that the encoder produces (groups of four characters, padding only in the last group);
  every other input is \<open>None\<close>, the \<open>binascii.Error\<close> branch. The lemmas prove the
  roundtrip, the output length and that the output is ASCII.
\<close>

unbundle bit_operations_syntax

section \<open>Encoding\<close>

definition b64_alphabet :: string where
  "b64_alphabet = ''ABCDEFGHIJKLMNOPQRSTUVWXYZabcdefghijklmnopqrstuvwxyz0123456789+/''"

definition b64_char :: "byte \<Rightarrow> char" where
  "b64_char s = b64_alphabet ! unat (s AND 0x3F)"

fun b64encode :: "byte list \<Rightarrow> string" where
  "b64encode (a # b # c # rest) =
     [b64_char (drop_bit 2 a), b64_char (push_bit 4 (a AND 3) OR drop_bit 4 b),
      b64_char (push_bit 2 (b AND 15) OR drop_bit 6 c), b64_char c] @ b64encode rest"
| "b64encode [a, b] =
     [b64_char (drop_bit 2 a), b64_char (push_bit 4 (a AND 3) OR drop_bit 4 b),
      b64_char (push_bit 2 (b AND 15)), CHR ''='']"
| "b64encode [a] =
     [b64_char (drop_bit 2 a), b64_char (push_bit 4 (a AND 3)), CHR ''='', CHR ''='']"
| "b64encode [] = []"

section \<open>Decoding\<close>

text \<open>The table lookup of the decoder: the position of a character in the alphabet.\<close>

definition b64_value :: "char \<Rightarrow> byte option" where
  "b64_value ch =
     (let i = length (takeWhile (\<lambda>x. x \<noteq> ch) b64_alphabet)
      in if i < 64 then Some (of_nat i) else None)"

text \<open>Three bytes from four sextets, as \<open>binascii.a2b_base64\<close> shifts them out of its
  bit accumulator.\<close>

definition b64_byte1 :: "byte \<Rightarrow> byte \<Rightarrow> byte" where
  "b64_byte1 s1 s2 = push_bit 2 s1 OR drop_bit 4 s2"

definition b64_byte2 :: "byte \<Rightarrow> byte \<Rightarrow> byte" where
  "b64_byte2 s2 s3 = push_bit 4 s2 OR drop_bit 2 s3"

definition b64_byte3 :: "byte \<Rightarrow> byte \<Rightarrow> byte" where
  "b64_byte3 s3 s4 = push_bit 6 s3 OR s4"

fun b64decode :: "string \<Rightarrow> byte list option" where
  "b64decode [] = Some []"
| "b64decode (c1 # c2 # c3 # c4 # rest) =
     (case (b64_value c1, b64_value c2) of
        (Some s1, Some s2) \<Rightarrow>
          (if c3 = CHR ''='' then
             (if c4 = CHR ''='' \<and> rest = [] then Some [b64_byte1 s1 s2] else None)
           else (case b64_value c3 of
                   None \<Rightarrow> None
                 | Some s3 \<Rightarrow>
                     (if c4 = CHR ''='' then
                        (if rest = [] then Some [b64_byte1 s1 s2, b64_byte2 s2 s3] else None)
                      else (case b64_value c4 of
                              None \<Rightarrow> None
                            | Some s4 \<Rightarrow>
                                map_option (\<lambda>r. [b64_byte1 s1 s2, b64_byte2 s2 s3, b64_byte3 s3 s4] @ r)
                                  (b64decode rest)))))
      | _ \<Rightarrow> None)"
| "b64decode _ = None"

section \<open>The alphabet\<close>

lemma b64_alphabet_facts: "length b64_alphabet = 64" "distinct b64_alphabet"
  "CHR ''='' \<notin> set b64_alphabet"
  by (simp_all add: b64_alphabet_def)

lemma takeWhile_neq_nth:
  "distinct xs \<Longrightarrow> k < length xs \<Longrightarrow> length (takeWhile (\<lambda>x. x \<noteq> xs ! k) xs) = k"
proof (induction xs arbitrary: k)
  case (Cons x xs)
  then show ?case
    by (cases k) (auto simp: nth_mem)
qed simp

lemma b64_char_value: "b64_value (b64_char s) = Some (s AND 0x3F)"
proof -
  have k: "unat (s AND 0x3F) < 64"
    using unat_byte_and_mask [of s 6] by (simp add: byte_numeral_masks)
  then have "length (takeWhile (\<lambda>x. x \<noteq> b64_char s) b64_alphabet) = unat (s AND 0x3F)"
    unfolding b64_char_def using b64_alphabet_facts by (simp add: takeWhile_neq_nth)
  with k show ?thesis by (simp add: b64_value_def)
qed

lemma b64_char_not_pad [simp]: "b64_char s \<noteq> CHR ''=''"
proof -
  have "unat (s AND 0x3F) < 64"
    using unat_byte_and_mask [of s 6] by (simp add: byte_numeral_masks)
  then have "b64_char s \<in> set b64_alphabet"
    unfolding b64_char_def using b64_alphabet_facts(1) by simp
  then show ?thesis using b64_alphabet_facts(3) by auto
qed

section \<open>Bit identities of one group\<close>

lemma b64_group_bits:
  fixes a b c :: byte
  shows "b64_byte1 (drop_bit 2 a AND 0x3F) ((push_bit 4 (a AND 3) OR drop_bit 4 b) AND 0x3F) = a"
    and "b64_byte2 ((push_bit 4 (a AND 3) OR drop_bit 4 b) AND 0x3F)
           ((push_bit 2 (b AND 15) OR drop_bit 6 c) AND 0x3F) = b"
    and "b64_byte3 ((push_bit 2 (b AND 15) OR drop_bit 6 c) AND 0x3F) (c AND 0x3F) = c"
  unfolding b64_byte1_def b64_byte2_def b64_byte3_def byte_numeral_masks
  by (rule bit_word_eqI; auto simp: bit_simps byte_simps split: if_splits)+

lemma b64_group_bits_pad:
  fixes a b :: byte
  shows "b64_byte1 (drop_bit 2 a AND 0x3F) (push_bit 4 (a AND 3) AND 0x3F) = a"
    and "b64_byte2 ((push_bit 4 (a AND 3) OR drop_bit 4 b) AND 0x3F)
           (push_bit 2 (b AND 15) AND 0x3F) = b"
  unfolding b64_byte1_def b64_byte2_def byte_numeral_masks
  by (rule bit_word_eqI; auto simp: bit_simps byte_simps split: if_splits)+

section \<open>Roundtrip, length and alphabet of the encoding\<close>

lemma b64decode_b64encode: "b64decode (b64encode bs) = Some bs"
  by (induction bs rule: b64encode.induct)
    (simp_all add: b64_char_value b64_group_bits b64_group_bits_pad del: push_bit_and)

lemma b64encode_length: "length (b64encode bs) = 4 * ((length bs + 2) div 3)"
proof (induction bs rule: b64encode.induct)
  case (1 a b c rest)
  have "(5 + length rest) div 3 = Suc ((length rest + 2) div 3)"
    using div_add_self2 [of 3 "length rest + 2"] by (simp add: add.commute)
  then show ?case using 1 by simp
qed simp_all

lemma b64_char_in: "b64_char s \<in> set b64_alphabet"
proof -
  have "unat (s AND 0x3F) < 64"
    using unat_byte_and_mask [of s 6] by (simp add: byte_numeral_masks)
  then show ?thesis unfolding b64_char_def using b64_alphabet_facts(1) by simp
qed

lemma b64encode_chars: "set (b64encode bs) \<subseteq> set b64_alphabet \<union> {CHR ''=''}"
  by (induction bs rule: b64encode.induct) (simp_all add: b64_char_in)

end
