(* ===== verification/Assembler.thy ===== *)
theory Assembler
  imports Prelude
begin

text \<open>
  The CommandAssembler, lines 207--283 of \<open>execute_python\<close> in
  \<open>src/app/services/executor.py\<close>: the directory mapping that exposes the module's
  directory at the guest prefix (\<open>_has_mapping\<close>, skipped when the caller's runtime
  arguments already map that prefix), the isolation flag, the environment updates, the
  runtime \<open>--env\<close> injections (\<open>_ensure_env_arg\<close>, skipped per key when the caller's
  arguments already inject that key) and the final argument vector. Both duplicate checks
  are the same scan over the argument list (\<open>flag_arg_matches\<close>), with a different test
  on the value. The lemmas show that the assembly keeps the caller's arguments, adds each
  missing injection exactly once, is idempotent, and that the caller's injections win.
\<close>

section \<open>Definitions\<close>

definition guest_prefix :: string where
  "guest_prefix = ''/python''"

text \<open>\<open>host_mapping = f"{python_root}::{guest_prefix.lstrip('/')}"\<close>.\<close>

definition host_mapping :: "string \<Rightarrow> string" where
  "host_mapping python_root = python_root @ ''::'' @ py_lstrip ''/'' guest_prefix"

text \<open>The scan shared by \<open>_has_mapping\<close> and \<open>_ensure_env_arg\<close>: an argument equal to the
  flag is tested on the argument after it, if any; an argument \<open>flag=value\<close> is tested on
  \<open>value\<close> (\<open>value[6:]\<close>, six being the length of \<open>--dir=\<close> and \<open>--env=\<close>). The loop
  goes on with the next index either way.\<close>

fun flag_arg_matches :: "string \<Rightarrow> (string \<Rightarrow> bool) \<Rightarrow> string list \<Rightarrow> bool" where
  "flag_arg_matches flag p [] = False"
| "flag_arg_matches flag p (v # rest) =
     ((if v = flag then (case rest of n # _ \<Rightarrow> p n | [] \<Rightarrow> False)
       else startswith v (flag @ ''='') \<and> p (drop (length flag + 1) v))
      \<or> flag_arg_matches flag p rest)"

text \<open>\<open>_has_mapping(args)\<close>: some \<open>--dir\<close> value ends with \<open>::python\<close>.\<close>

definition has_mapping :: "string list \<Rightarrow> bool" where
  "has_mapping args =
     flag_arg_matches ''--dir'' (\<lambda>v. endswith v (''::'' @ py_lstrip ''/'' guest_prefix)) args"

text \<open>\<open>if not _has_mapping(runtime_args): runtime_args.extend(["--dir", host_mapping])\<close>.\<close>

definition add_mapping :: "string list \<Rightarrow> string \<Rightarrow> string list" where
  "add_mapping args python_root =
     (if has_mapping args then args else args @ [''--dir'', host_mapping python_root])"

text \<open>The test of \<open>_ensure_env_arg\<close>: some \<open>--env\<close> value starts with \<open>key=\<close>.\<close>

definition has_env_arg :: "string list \<Rightarrow> string \<Rightarrow> bool" where
  "has_env_arg args key = flag_arg_matches ''--env'' (\<lambda>v. startswith v (key @ ''='')) args"

definition ensure_env_arg :: "string list \<Rightarrow> string \<Rightarrow> string \<Rightarrow> string list" where
  "ensure_env_arg args key value =
     (if has_env_arg args key then args else args @ [''--env'', key @ ''='' @ value])"

text \<open>\<open>for env_key, env_value in env_updates.items(): _ensure_env_arg(...)\<close>, in the
  dictionary's insertion order.\<close>

definition ensure_env_args :: "string list \<Rightarrow> (string \<times> string) list \<Rightarrow> string list" where
  "ensure_env_args args ups = fold (\<lambda>(k, v) a. ensure_env_arg a k v) ups args"

text \<open>The isolation policy of lines 235--242: \<open>PYTHON_WASM_FORCE_ISOLATED\<close>, when set,
  decides (\<open>"1"\<close> means on); otherwise \<open>PYTHON_WASM_DISABLE_ISOLATED\<close>, when set, turns
  isolation on for every value but \<open>"1"\<close>; otherwise it is off.\<close>

definition use_isolated :: "string option \<Rightarrow> string option \<Rightarrow> bool" where
  "use_isolated force_isolated disable_isolated =
     (case force_isolated of
        Some f \<Rightarrow> f = ''1''
      | None \<Rightarrow> (case disable_isolated of Some d \<Rightarrow> d \<noteq> ''1'' | None \<Rightarrow> False))"

text \<open>The bootstrap script \<open>_WASM_BOOTSTRAP_SCRIPT\<close>, its lines joined by newlines.\<close>

definition wasm_bootstrap_script :: string where
  "wasm_bootstrap_script = py_join [CHR 10]
     [''import base64, os as _os, sys as _sys'',
      ''_prefix = _os.environ.get('PYTHON_WASM_PREFIX')'',
      ''if _prefix:'',
      ''    _sys.prefix = _sys.exec_prefix = _prefix'',
      ''_paths = _os.environ.get('PYTHON_WASM_STDLIB_PATHS')'',
      ''if _paths:'',
      ''    _entries = [p for p in _paths.split(':') if p]'',
      ''    for _entry in reversed(_entries):'',
      ''        if _entry not in _sys.path:'',
      ''            _sys.path.insert(0, _entry)'',
      ''_code = base64.b64decode(_os.environ['PY_CODE_B64']).decode('utf-8')'',
      ''_globals = {'__name__': '__main__'}'',
      ''exec(compile(_code, '<user_code>', 'exec'), _globals)'']"

definition python_args :: "bool \<Rightarrow> string list" where
  "python_args isolated = (if isolated then [''-I''] else []) @ [''-c'', wasm_bootstrap_script]"

text \<open>\<open>env_updates\<close> of lines 252--260, in insertion order; \<open>PYTHONPATH\<close> only when the
  joined library path is non-empty.\<close>

definition env_updates :: "string \<Rightarrow> string \<Rightarrow> (string \<times> string) list" where
  "env_updates encoded_code stdlib_path_str =
     [(''PYTHONUNBUFFERED'', ''1''), (''PY_CODE_B64'', encoded_code),
      (''PYTHON_WASM_PREFIX'', guest_prefix), (''PYTHON_WASM_STDLIB_PATHS'', stdlib_path_str),
      (''PYTHONHOME'', guest_prefix)]
     @ (if stdlib_path_str \<noteq> [] then [(''PYTHONPATH'', stdlib_path_str)] else [])"

text \<open>\<open>env = os.environ.copy(); env.update(env_updates)\<close>: the child's host environment.\<close>

definition child_env :: "env \<Rightarrow> (string \<times> string) list \<Rightarrow> env" where
  "child_env environ ups = environ ++ map_of ups"

text \<open>Keys whose injections cannot be mistaken for one another: no \<open>=\<close> in the key, and
  not the flag itself.\<close>

definition env_key_ok :: "string \<Rightarrow> bool" where
  "env_key_ok k \<longleftrightarrow> CHR ''='' \<notin> set k \<and> k \<noteq> ''--env''"

text \<open>\<open>cmd = [runtime_path, "run", *runtime_args, wasm_module, *python_args]\<close>.\<close>

definition command :: "string \<Rightarrow> string list \<Rightarrow> string \<Rightarrow> string list \<Rightarrow> string list" where
  "command runtime_path runtime_args wasm_module pargs =
     [runtime_path, ''run''] @ runtime_args @ [wasm_module] @ pargs"

section \<open>The argument scan\<close>

lemma flag_arg_matches_append:
  "flag_arg_matches f p (xs @ ys) \<longleftrightarrow>
     flag_arg_matches f p xs \<or> flag_arg_matches f p ys \<or>
     (xs \<noteq> [] \<and> last xs = f \<and> ys \<noteq> [] \<and> p (hd ys))"
proof (induction xs)
  case (Cons x xs)
  then show ?case by (cases xs; cases ys) auto
qed simp

lemma flag_arg_matches_append_left:
  "flag_arg_matches f p xs \<Longrightarrow> flag_arg_matches f p (xs @ ys)"
  by (simp add: flag_arg_matches_append)

lemma startswith_key_eq:
  "CHR ''='' \<notin> set k \<Longrightarrow> CHR ''='' \<notin> set k' \<Longrightarrow>
   startswith (k @ ''='' @ v) (k' @ ''='') \<longleftrightarrow> k = k'"
proof (induction k arbitrary: k')
  case Nil
  then show ?case by (cases k') auto
next
  case (Cons c k)
  then show ?case by (cases k') auto
qed

lemma startswith_set: "startswith s p \<Longrightarrow> set p \<subseteq> set s"
  by (auto simp: startswith_iff)

lemma has_env_arg_injection: "has_env_arg (a @ [''--env'', k @ ''='' @ v]) k"
  by (simp add: has_env_arg_def flag_arg_matches_append startswith_iff)

text \<open>An injection appended for one key is invisible to the test of any other key.\<close>

lemma has_env_arg_append_other:
  assumes "env_key_ok k" and "env_key_ok k'" and "k \<noteq> k'"
  shows "has_env_arg (a @ [''--env'', k @ ''='' @ v]) k' \<longleftrightarrow> has_env_arg a k'"
proof -
  have k: "CHR ''='' \<notin> set k" "k \<noteq> ''--env''" and k': "CHR ''='' \<notin> set k'"
    using assms by (auto simp: env_key_ok_def)
  have ne: "\<not> startswith (k @ ''='' @ v) (k' @ ''='')"
    using startswith_key_eq [OF k(1) k'] assms(3) by simp
  have nf: "\<not> startswith (k @ ''='' @ v) ''--env=''"
    using startswith_key_eq [OF k(1), of "''--env''" v] k(2) by simp
  have nd: "\<not> startswith ''--env'' (k' @ ''='')"
    using startswith_set [of "''--env''" "k' @ ''=''"] by auto
  show ?thesis using ne nf nd
    by (simp add: has_env_arg_def flag_arg_matches_append)
qed

section \<open>The environment injections\<close>

lemma has_env_arg_ensure: "has_env_arg (ensure_env_arg a k v) k"
  using has_env_arg_injection [of a k v] by (simp add: ensure_env_arg_def)

lemma ensure_env_arg_present: "has_env_arg a k \<Longrightarrow> ensure_env_arg a k v = a"
  by (simp add: ensure_env_arg_def)

lemma ensure_env_arg_mono: "has_env_arg a k' \<Longrightarrow> has_env_arg (ensure_env_arg a k v) k'"
  by (simp add: ensure_env_arg_def has_env_arg_def flag_arg_matches_append_left)

lemma ensure_env_args_Nil [simp]: "ensure_env_args a [] = a"
  by (simp add: ensure_env_args_def)

lemma ensure_env_args_Cons:
  "ensure_env_args a ((k, v) # ups) = ensure_env_args (ensure_env_arg a k v) ups"
  by (simp add: ensure_env_args_def)

lemma ensure_env_args_mono:
  "has_env_arg a k' \<Longrightarrow> has_env_arg (ensure_env_args a ups) k'"
  by (induction ups arbitrary: a) (auto simp: ensure_env_args_Cons ensure_env_arg_mono)

lemma ensure_env_args_has:
  "k \<in> fst ` set ups \<Longrightarrow> has_env_arg (ensure_env_args a ups) k"
proof (induction ups arbitrary: a)
  case (Cons u ups)
  obtain k0 v0 where u: "u = (k0, v0)" by fastforce
  show ?case
  proof (cases "k = k0")
    case True
    then show ?thesis
      using u ensure_env_args_mono [OF has_env_arg_ensure] by (simp add: ensure_env_args_Cons)
  next
    case False
    with Cons u show ?thesis by (simp add: ensure_env_args_Cons)
  qed
qed simp

lemma ensure_env_args_all_present:
  "\<forall>k \<in> fst ` set ups. has_env_arg a k \<Longrightarrow> ensure_env_args a ups = a"
  by (induction ups) (auto simp: ensure_env_args_Cons ensure_env_arg_present)

lemma ensure_env_args_prefix: "\<exists>r. ensure_env_args a ups = a @ r"
proof (induction ups arbitrary: a)
  case (Cons u ups)
  obtain k v where u: "u = (k, v)" by fastforce
  obtain r where "ensure_env_args (ensure_env_arg a k v) ups = ensure_env_arg a k v @ r"
    using Cons by blast
  then show ?case using u by (auto simp: ensure_env_args_Cons ensure_env_arg_def)
qed simp

lemma ensure_env_arg_other:
  assumes "env_key_ok k" and "env_key_ok k'" and "k \<noteq> k'"
  shows "has_env_arg (ensure_env_arg a k v) k' \<longleftrightarrow> has_env_arg a k'"
  using has_env_arg_append_other [OF assms] by (simp add: ensure_env_arg_def)

text \<open>C6: With distinct, well-formed keys the injection loop keeps the caller's arguments
  unchanged and in front, and appends, in the order of the updates, one \<open>--env KEY=VALUE\<close>
  pair for each key the caller's arguments do not already inject, and nothing else: a
  caller's injection always wins and no key is injected twice.\<close>

theorem ensure_env_args_exact:
  assumes "distinct (map fst ups)" and "\<forall>k \<in> fst ` set ups. env_key_ok k"
  shows "ensure_env_args a ups =
           a @ concat (map (\<lambda>(k, v). [''--env'', k @ ''='' @ v])
                         (filter (\<lambda>(k, v). \<not> has_env_arg a k) ups))"
  using assms
proof (induction ups arbitrary: a)
  case (Cons u ups)
  obtain k v where u: "u = (k, v)" by fastforce
  let ?a' = "ensure_env_arg a k v"
  have other: "has_env_arg ?a' k' \<longleftrightarrow> has_env_arg a k'" if "(k', v') \<in> set ups" for k' v'
    using ensure_env_arg_other [of k k' a v] Cons.prems u that by force
  have "filter (\<lambda>(k', v'). \<not> has_env_arg ?a' k') ups = filter (\<lambda>(k', v'). \<not> has_env_arg a k') ups"
    by (rule filter_cong) (auto dest: other)
  moreover have "ensure_env_args ?a' ups =
      ?a' @ concat (map (\<lambda>(k, v). [''--env'', k @ ''='' @ v])
                     (filter (\<lambda>(k, v). \<not> has_env_arg ?a' k) ups))"
    using Cons by (simp add: u)
  ultimately show ?case by (simp add: u ensure_env_args_Cons ensure_env_arg_def)
qed simp

text \<open>C7: Running the injection loop a second time over its own output adds nothing:
  the assembly of \<open>--env\<close> arguments is idempotent for any arguments and updates.\<close>

theorem ensure_env_args_idem:
  "ensure_env_args (ensure_env_args a ups) ups = ensure_env_args a ups"
  by (simp add: ensure_env_args_all_present ensure_env_args_has)

section \<open>The directory mapping\<close>

lemma has_mapping_add_mapping: "has_mapping (add_mapping a r)"
  by (simp add: add_mapping_def has_mapping_def host_mapping_def flag_arg_matches_append)

lemma add_mapping_idem: "add_mapping (add_mapping a r) r' = add_mapping a r"
  using has_mapping_add_mapping [of a r] by (simp add: add_mapping_def [of "add_mapping a r"])

text \<open>C8: The directory mapping step leaves the caller's arguments in front, adds at most
  the one pair \<open>--dir ROOT::python\<close>, makes the guest prefix mapped, and running it again
  (with any root) changes nothing.\<close>

theorem add_mapping_once:
  "(\<exists>m. add_mapping a r = a @ m \<and> m \<in> {[], [''--dir'', host_mapping r]}) \<and>
   has_mapping (add_mapping a r) \<and> add_mapping (add_mapping a r) r' = add_mapping a r"
  using has_mapping_add_mapping [of a r] add_mapping_idem [of a r r']
  by (auto simp: add_mapping_def)

section \<open>The isolation flag\<close>


theorem ensure_env_args_exact_witness:
  "distinct (map fst (env_updates ''aGk='' [])) \<and>
   list_all env_key_ok (map fst (env_updates ''aGk='' [])) \<and>
   ensure_env_args [''--env'', ''PYTHONHOME=/opt''] (env_updates ''aGk='' []) =
     [''--env'', ''PYTHONHOME=/opt'', ''--env'', ''PYTHONUNBUFFERED=1'', ''--env'', ''PY_CODE_B64=aGk='',
      ''--env'', ''PYTHON_WASM_PREFIX=/python'', ''--env'', ''PYTHON_WASM_STDLIB_PATHS='']"
proof -
  have d: "distinct (map fst (env_updates ''aGk='' []))"
    by (simp add: env_updates_def guest_prefix_def)
  have k: "\<forall>k \<in> fst ` set (env_updates ''aGk='' []). env_key_ok k"
    by (simp add: env_updates_def guest_prefix_def env_key_ok_def)
  show ?thesis
    using ensure_env_args_exact [OF d k, of "[''--env'', ''PYTHONHOME=/opt'']"] d k
    by (simp add: env_updates_def guest_prefix_def has_env_arg_def env_key_ok_def)
qed

end
