(* ===== verification/Bootstrap.thy ===== *)
theory Bootstrap
  imports Utf8 Base64 Assembler
begin

text \<open>
  The guest side of the invocation: what \<open>_WASM_BOOTSTRAP_SCRIPT\<close> (lines 75--91 of
  \<open>src/app/services/executor.py\<close>) does inside the sandbox before it runs the caller's
  code. It sets \<open>sys.prefix\<close> from \<open>PYTHON_WASM_PREFIX\<close>, puts the entries of
  \<open>PYTHON_WASM_STDLIB_PATHS\<close> in front of \<open>sys.path\<close> (each only if absent), and
  decodes \<open>PY_CODE_B64\<close> with \<open>base64.b64decode\<close> and a strict UTF-8 decode. The guest's
  environment is given as a map; \<open>os.environ[...]\<close> on a missing key raises \<open>KeyError\<close>.
  The execution of the decoded code itself is the interpreter's and is not modelled.
\<close>

section \<open>Definitions\<close>

datatype guest_error =
    GuestKeyError string
  | GuestBase64Error
  | GuestDecodeError codec_error

record guest_sys =
  sys_prefix :: string
  sys_exec_prefix :: string
  sys_path :: "string list"

text \<open>Lines 78--80: \<open>if _prefix: _sys.prefix = _sys.exec_prefix = _prefix\<close>.\<close>

definition bootstrap_prefix :: "env \<Rightarrow> guest_sys \<Rightarrow> guest_sys" where
  "bootstrap_prefix environ s =
     (case environ ''PYTHON_WASM_PREFIX'' of
        Some p \<Rightarrow> if p \<noteq> [] then s\<lparr>sys_prefix := p, sys_exec_prefix := p\<rparr> else s
      | None \<Rightarrow> s)"

text \<open>Lines 84--86: \<open>for _entry in reversed(_entries): if _entry not in _sys.path:
  _sys.path.insert(0, _entry)\<close>.\<close>

definition insert_absent_front :: "string list \<Rightarrow> string list \<Rightarrow> string list" where
  "insert_absent_front entries path =
     fold (\<lambda>e p. if e \<in> set p then p else e # p) (rev entries) path"

text \<open>Lines 81--86: the non-empty pieces of the colon-separated list.\<close>

definition bootstrap_paths :: "env \<Rightarrow> guest_sys \<Rightarrow> guest_sys" where
  "bootstrap_paths environ s =
     (case environ ''PYTHON_WASM_STDLIB_PATHS'' of
        Some ps \<Rightarrow>
          if ps \<noteq> [] then
            s\<lparr>sys_path := insert_absent_front (filter (\<lambda>p. p \<noteq> []) (py_split CHR '':'' ps)) (sys_path s)\<rparr>
          else s
      | None \<Rightarrow> s)"

text \<open>Line 87: \<open>base64.b64decode(_os.environ['PY_CODE_B64']).decode('utf-8')\<close>.\<close>

definition bootstrap_code :: "env \<Rightarrow> guest_error + pystr" where
  "bootstrap_code environ =
     (case environ ''PY_CODE_B64'' of
        None \<Rightarrow> Inl (GuestKeyError ''PY_CODE_B64'')
      | Some enc \<Rightarrow>
          (case b64decode enc of
             None \<Rightarrow> Inl GuestBase64Error
           | Some bs \<Rightarrow>
               (case utf8_decode_strict bs of
                  Inl e \<Rightarrow> Inl (GuestDecodeError e)
                | Inr code \<Rightarrow> Inr code)))"

text \<open>The whole script up to \<open>exec\<close>: the interpreter state it leaves and the code it
  compiles.\<close>

definition bootstrap :: "env \<Rightarrow> guest_sys \<Rightarrow> guest_error + (guest_sys \<times> pystr)" where
  "bootstrap environ s =
     (let s' = bootstrap_paths environ (bootstrap_prefix environ s)
      in case bootstrap_code environ of Inl e \<Rightarrow> Inl e | Inr code \<Rightarrow> Inr (s', code))"

section \<open>The search path\<close>

text \<open>Inserting the reversed entries at the front, each only when absent, leaves the
  absent entries in their own order in front of the old path, duplicates reduced to one.\<close>

lemma fold_insert_absent_front:
  "fold (\<lambda>e p. if e \<in> set p then p else e # p) (rev entries) path =
     remdups (filter (\<lambda>e. e \<notin> set path) entries) @ path"
proof (induction entries arbitrary: path rule: rev_induct)
  case (snoc x xs)
  show ?case
    using snoc [of "if x \<in> set path then path else x # path"]
    by (auto simp: remdups_snoc filter_filter conj_commute)
qed simp

end
