(* ===== verification/Stdlib.thy ===== *)
theory Stdlib
  imports Resolver "HOL-Library.List_Lexorder" "HOL-Library.Char_ord"
begin

text \<open>
  The GuestEnvironmentBuilder: \<open>_discover_stdlib_paths\<close> of
  \<open>src/app/services/executor.py\<close> (lines 154--187). From the directory of the module
  it picks the first entry of \<open>lib/\<close>, in sorted order, that is a directory named
  \<open>python\d+(\.\d+)?\<close>, and lists the guest paths of that directory, of its
  \<open>lib-dynload\<close> and \<open>site-packages\<close> subdirectories when present, and of every
  \<open>lib/python*.zip\<close>, dropping repeats through the \<open>seen\<close> set of \<open>_add\<close>. Names are
  ordered as Python orders \<open>str\<close>: lexicographically by character, a prefix first
  (\<open>List_Lexorder\<close> over \<open>Char_ord\<close>). The directory tree is read through the host's
  \<open>h_is_dir\<close> and \<open>h_listdir\<close>.
\<close>

section \<open>Name patterns\<close>

definition is_digit :: "char \<Rightarrow> bool" where
  "is_digit c \<longleftrightarrow> CHR ''0'' \<le> c \<and> c \<le> CHR ''9''"

text \<open>\<open>\d+(?:\.\d+)?\<close> matched against a whole string.\<close>

definition version_digits :: "string \<Rightarrow> bool" where
  "version_digits r =
     (let d = takeWhile is_digit r; rest = drop (length d) r
      in d \<noteq> [] \<and> (rest = [] \<or> (hd rest = CHR ''.'' \<and> tl rest \<noteq> [] \<and> list_all is_digit (tl rest))))"

text \<open>\<open>version_pattern.fullmatch(name)\<close> for \<open>python\d+(?:\.\d+)?\<close>.\<close>

definition version_fullmatch :: "string \<Rightarrow> bool" where
  "version_fullmatch n \<longleftrightarrow> startswith n ''python'' \<and> version_digits (drop 6 n)"

text \<open>\<open>fnmatch\<close> of a name against \<open>python*.zip\<close>.\<close>

definition zip_glob_match :: "string \<Rightarrow> bool" where
  "zip_glob_match n \<longleftrightarrow> 10 \<le> length n \<and> startswith n ''python'' \<and> endswith n ''.zip''"

section \<open>The discovery\<close>

text \<open>\<open>_add(path)\<close> on the pair \<open>(guest_paths, seen)\<close>.\<close>

definition add_path :: "string \<Rightarrow> string list \<times> string list \<Rightarrow> string list \<times> string list" where
  "add_path p st = (if p \<in> set (snd st) then st else (fst st @ [p], p # snd st))"

text \<open>Lines 159--164: the first sorted entry that is a version directory.\<close>

definition find_version_dir :: "host \<Rightarrow> string \<Rightarrow> string option" where
  "find_version_dir h lib_root =
     find (\<lambda>n. h_is_dir h (path_join lib_root n) \<and> version_fullmatch n) (sort (h_listdir h lib_root))"

text \<open>Lines 177--185: the paths passed to \<open>_add\<close>, in the order of the calls.\<close>

definition stdlib_candidates :: "host \<Rightarrow> string \<Rightarrow> string \<Rightarrow> string \<Rightarrow> string list" where
  "stdlib_candidates h lib_root guest_prefix v =
     (let guest_base = guest_prefix @ ''/lib/'' @ v
      in [guest_base] @
         concat (map (\<lambda>sd. if h_is_dir h (path_join (path_join lib_root v) sd)
                          then [guest_base @ ''/'' @ sd] else [])
                     [''lib-dynload'', ''site-packages'']) @
         map (\<lambda>z. guest_prefix @ ''/lib/'' @ z) (sort (filter zip_glob_match (h_listdir h lib_root))))"

definition discover_stdlib_paths :: "host \<Rightarrow> string \<Rightarrow> string \<Rightarrow> string list" where
  "discover_stdlib_paths h python_root guest_prefix =
     (let lib_root = path_join python_root ''lib''
      in if \<not> h_is_dir h lib_root then []
         else (case find_version_dir h lib_root of
                 None \<Rightarrow> []
               | Some v \<Rightarrow> fst (fold add_path (stdlib_candidates h lib_root guest_prefix v) ([], []))))"

text \<open>A module directory \<open>/srv\<close> with a CPython 3.12 library, its \<open>site-packages\<close>
  and a zipped standard library.\<close>

definition demo_lib_host :: host where
  "demo_lib_host = demo_host
     \<lparr>h_is_dir := (\<lambda>p. p \<in> {''/srv/lib'', ''/srv/lib/python3.12'', ''/srv/lib/python3.12/site-packages''}),
      h_listdir := (\<lambda>p. if p = ''/srv/lib'' then [''python3.12'', ''python312.zip'', ''README''] else [])\<rparr>"

section \<open>The deduplication of \<open>_add\<close>\<close>

text \<open>While \<open>seen\<close> holds exactly the paths added so far, \<open>_add\<close> over a list appends
  the paths not yet present in their first-occurrence order, and \<open>seen\<close> keeps
  matching the list.\<close>

lemma fold_add_path:
  "set seen = set gp \<Longrightarrow>
   fst (fold add_path xs (gp, seen)) = gp @ rev (remdups (rev (filter (\<lambda>x. x \<notin> set gp) xs))) \<and>
   set (snd (fold add_path xs (gp, seen))) = set (fst (fold add_path xs (gp, seen)))"
proof (induction xs arbitrary: gp seen)
  case (Cons x xs)
  show ?case
  proof (cases "x \<in> set gp")
    case True
    then show ?thesis using Cons by (simp add: add_path_def)
  next
    case False
    have "set (x # seen) = set (gp @ [x])" using Cons.prems by simp
    note ih = Cons.IH [OF this]
    have "rev (remdups (rev (filter (\<lambda>y. y \<notin> set gp) xs) @ [x])) =
        x # rev (remdups (rev (filter (\<lambda>y. y \<noteq> x \<and> y \<notin> set gp) xs)))"
      by (simp add: remdups_snoc rev_filter filter_filter conj_commute)
    then show ?thesis using False Cons.prems ih by (simp add: add_path_def)
  qed
qed simp

lemma fold_add_path_Nil:
  "fst (fold add_path xs ([], [])) = rev (remdups (rev xs))"
  using fold_add_path [of "[]" "[]" xs] by simp

section \<open>Properties of the discovery\<close>

text \<open>C14: The stateful \<open>_add\<close> loop with its \<open>seen\<close> set computes the first-occurrence
  deduplication of the candidate paths: \<open>_discover_stdlib_paths\<close> is the candidate list
  of the first sorted version directory with repeats removed, or empty when there is no
  \<open>lib\<close> directory or no version directory.\<close>

theorem discover_stdlib_paths_spec:
  "discover_stdlib_paths h python_root guest_prefix =
     (let lib_root = path_join python_root ''lib''
      in if \<not> h_is_dir h lib_root then []
         else (case find_version_dir h lib_root of
                 None \<Rightarrow> []
               | Some v \<Rightarrow> rev (remdups (rev (stdlib_candidates h lib_root guest_prefix v)))))"
  by (simp add: discover_stdlib_paths_def fold_add_path_Nil Let_def split: option.split)

lemma find_version_dir_Some:
  "find_version_dir h lib_root = Some v \<Longrightarrow> startswith v ''python''"
  by (auto simp: find_version_dir_def find_Some_iff version_fullmatch_def)

lemma stdlib_candidates_prefix:
  assumes "startswith v ''python''" and "p \<in> set (stdlib_candidates h lib_root g v)"
  shows "startswith p (g @ ''/lib/python'')"
proof -
  obtain r where v: "v = ''python'' @ r" using assms(1) by (auto simp: startswith_iff)
  show ?thesis using assms(2)
    by (auto simp: stdlib_candidates_def Let_def v startswith_iff zip_glob_match_def split: if_splits)
qed

lemma discover_stdlib_paths_props:
  "distinct (discover_stdlib_paths h python_root g) \<and>
   (\<forall>p \<in> set (discover_stdlib_paths h python_root g). startswith p (g @ ''/lib/python''))"
proof (cases "find_version_dir h (path_join python_root ''lib'')")
  case (Some v)
  then have "startswith v ''python''" by (rule find_version_dir_Some)
  then show ?thesis
    using Some stdlib_candidates_prefix [of v _ h "path_join python_root ''lib''" g]
    by (simp add: discover_stdlib_paths_spec Let_def)
qed (simp add: discover_stdlib_paths_spec Let_def)

text \<open>C15: Every discovered path is distinct from the others and lies under
  \<open>GUEST_PREFIX/lib/python\<close>: the guest search path never gains an entry outside the
  mapped library.\<close>

theorem discover_stdlib_paths_under_prefix:
  "distinct (discover_stdlib_paths h python_root g) \<and>
   (\<forall>p \<in> set (discover_stdlib_paths h python_root g). startswith p (g @ ''/lib/python''))"
  by (rule discover_stdlib_paths_props)

lemma demo_lib_host_discover:
  "discover_stdlib_paths demo_lib_host ''/srv'' ''/python'' =
     [''/python/lib/python3.12'', ''/python/lib/python3.12/site-packages'', ''/python/lib/python312.zip'']"
  by (simp add: discover_stdlib_paths_spec demo_lib_host_def demo_host_def path_join_def
      find_version_dir_def version_fullmatch_def version_digits_def is_digit_def
      stdlib_candidates_def zip_glob_match_def endswith_def)

theorem discover_stdlib_paths_under_prefix_witness:
  "discover_stdlib_paths demo_lib_host ''/srv'' ''/python'' =
     [''/python/lib/python3.12'', ''/python/lib/python3.12/site-packages'', ''/python/lib/python312.zip''] \<and>
   list_all (\<lambda>p. startswith p ''/python/lib/python'') (discover_stdlib_paths demo_lib_host ''/srv'' ''/python'')"
  using discover_stdlib_paths_under_prefix [of demo_lib_host "''/srv''" "''/python''"] demo_lib_host_discover
  by (simp only: list_all_iff) simp

end
