(* ===== verification/Executor.thy ===== *)
theory Executor
  imports Bootstrap Stdlib Supervisor
begin

text \<open>
  \<open>execute_python\<close> of \<open>src/app/services/executor.py\<close> (lines 190--327) as the
  composition of the components: it resolves the runtime (\<open>Resolver\<close>), maps the module's
  directory and discovers the library (\<open>Assembler\<close>, \<open>Stdlib\<close>), encodes the code
  (\<open>Utf8\<close>, \<open>Base64\<close>), assembles the environment and the command (\<open>Assembler\<close>),
  installs the limits and supervises the child (\<open>Supervisor\<close>), and truncates the output
  (\<open>Sanitizer\<close>). One call runs in a world \<open>exec_world\<close> that fixes the host, the
  answers of \<open>setrlimit\<close>, the clock readings and what the guest program does with the
  stdin it receives. The result records the Python outcome (an exception as \<open>Inl\<close>),
  the arguments \<open>Popen\<close> was called with, if it was, and whether the child is still
  alive when the call returns. The lemmas show when a child is started, that a returning
  call leaves no live child except on the stdin encoding error, and that the code reaches
  the guest through both the command line and the environment.
\<close>

section \<open>Definitions\<close>

datatype exec_error =
    ExecResolveError resolve_error
  | ExecCodeEncodeError codec_error
  | ExecStdinEncodeError codec_error

text \<open>The arguments of \<open>subprocess.Popen\<close> (lines 291--300): the argument vector, the
  environment and the process attributes the \<open>preexec_fn\<close> leaves in the child.\<close>

record launch =
  l_cmd :: "string list"
  l_env :: env
  l_attrs :: child_attrs

text \<open>What one call depends on besides its arguments.\<close>

record exec_world =
  x_host :: host
  x_resource :: bool
  x_setrlimit_ok :: "rlimit \<Rightarrow> int \<Rightarrow> bool"
  x_attrs :: child_attrs
  x_start :: int
  x_spawn :: int
  x_child :: "byte list option \<Rightarrow> child_run"

record exec_trace =
  et_result :: "exec_error + execution_result"
  et_launch :: "launch option"
  et_child_alive :: bool

text \<open>Lines 207--288: everything up to \<open>Popen\<close>, given the resolved runtime, module
  and runtime arguments and the encoded code.\<close>

definition build_launch ::
  "exec_world \<Rightarrow> string \<Rightarrow> string \<Rightarrow> string list \<Rightarrow> byte list \<Rightarrow> int option \<Rightarrow> int option \<Rightarrow> launch" where
  "build_launch x runtime_path wasm_module runtime_args code_bytes cpu_time_limit_sec memory_limit_mb =
     (let h = x_host x;
          python_root = path_parent (h_resolve h wasm_module);
          args1 = add_mapping runtime_args python_root;
          stdlib_paths = discover_stdlib_paths h python_root guest_prefix;
          encoded_code = b64encode code_bytes;
          iso = use_isolated (h_environ h ''PYTHON_WASM_FORCE_ISOLATED'')
                             (h_environ h ''PYTHON_WASM_DISABLE_ISOLATED'');
          ups = env_updates encoded_code (py_join '':'' stdlib_paths);
          args2 = ensure_env_args args1 ups;
          limits = preexec_limits cpu_time_limit_sec memory_limit_mb
      in \<lparr>l_cmd = command runtime_path args2 wasm_module (python_args iso),
          l_env = child_env (h_environ h) ups,
          l_attrs = limit_preexec (x_resource x) (x_setrlimit_ok x) (fst limits) (snd limits)
                      (x_attrs x)\<rparr>)"

text \<open>Lines 302--327 once \<open>Popen\<close> has returned: the stdin is encoded inside the
  \<open>try\<close>, whose only handler is for \<open>TimeoutExpired\<close>, so an encoding error leaves
  the function with the child running.\<close>

definition run_child ::
  "exec_world \<Rightarrow> launch \<Rightarrow> pystr option \<Rightarrow> int \<Rightarrow> int \<Rightarrow> exec_trace" where
  "run_child x l stdin timeout_ms max_output_bytes =
     (let input = (case stdin of None \<Rightarrow> Inr None
                   | Some s \<Rightarrow> (case utf8_encode s of Inl e \<Rightarrow> Inl e | Inr b \<Rightarrow> Inr (Some b)))
      in case input of
           Inl e \<Rightarrow> \<lparr>et_result = Inl (ExecStdinEncodeError e), et_launch = Some l,
                     et_child_alive = True\<rparr>
         | Inr input_bytes \<Rightarrow>
             (let s = supervise timeout_ms (x_start x) (x_spawn x) (ca_session_leader (l_attrs l))
                        (x_child x input_bytes)
              in \<lparr>et_result = Inr (sv_result max_output_bytes s), et_launch = Some l,
                  et_child_alive = sv_alive s\<rparr>))"

text \<open>The whole call. The code is encoded (line 232) after the mapping and the library
  discovery and before any process exists.\<close>

definition execute_python ::
  "exec_world \<Rightarrow> pystr \<Rightarrow> pystr option \<Rightarrow> int \<Rightarrow> int \<Rightarrow> int option \<Rightarrow> int option \<Rightarrow> exec_trace" where
  "execute_python x code stdin timeout_ms max_output_bytes cpu_time_limit_sec memory_limit_mb =
     (case resolve_wasm_runtime (x_host x) of
        Inl e \<Rightarrow> \<lparr>et_result = Inl (ExecResolveError e), et_launch = None, et_child_alive = False\<rparr>
      | Inr (runtime_path, wasm_module, runtime_args) \<Rightarrow>
          (case utf8_encode code of
             Inl e \<Rightarrow> \<lparr>et_result = Inl (ExecCodeEncodeError e), et_launch = None,
                       et_child_alive = False\<rparr>
           | Inr code_bytes \<Rightarrow>
               run_child x (build_launch x runtime_path wasm_module runtime_args code_bytes
                              cpu_time_limit_sec memory_limit_mb)
                 stdin timeout_ms max_output_bytes))"

text \<open>A world in which resolution succeeds on \<open>demo_host\<close> and the guest prints \<open>hi\<close>
  and exits with status 0 whatever its stdin.\<close>

definition demo_world :: exec_world where
  "demo_world =
     \<lparr>x_host = demo_host, x_resource = True, x_setrlimit_ok = (\<lambda>r v. True),
      x_attrs = \<lparr>ca_limits = Map.empty, ca_session_leader = False\<rparr>,
      x_start = 0, x_spawn = 10, x_child = (\<lambda>input. demo_child)\<rparr>"

section \<open>Facts about the pieces\<close>

lemma supervise_final:
  "sv_phase (supervise T start t gl r) = Reaped \<and> \<not> sv_alive (supervise T start t gl r)"
  by (simp add: supervise_def sv_init_def Let_def split: option.split)

lemma execute_python_resolved:
  "resolve_wasm_runtime (x_host x) = Inr (rp, wm, args) \<Longrightarrow> utf8_encode code = Inr bs \<Longrightarrow>
   execute_python x code stdin T m cpu mem = run_child x (build_launch x rp wm args bs cpu mem) stdin T m"
  by (simp add: execute_python_def)

lemma run_child_Inr:
  assumes "et_result (run_child x l stdin T m) = Inr r"
  shows "\<exists>input. r = sv_result m (supervise T (x_start x) (x_spawn x) (ca_session_leader (l_attrs l))
                                 (x_child x input)) \<and>
                 \<not> et_child_alive (run_child x l stdin T m)"
  using assms supervise_final
  by (auto simp: run_child_def Let_def split: option.splits sum.splits)

lemma execute_python_Inr:
  "et_result (execute_python x code stdin T m cpu mem) = Inr r \<Longrightarrow> \<exists>s. r = sv_result m s"
  by (auto simp: execute_python_def split: sum.splits prod.splits dest!: run_child_Inr)

lemma build_launch_env_code:
  "l_env (build_launch x rp wm args bs cpu mem) ''PY_CODE_B64'' = Some (b64encode bs)"
  by (simp add: build_launch_def Let_def child_env_def env_updates_def)

section \<open>Properties of a call\<close>

text \<open>C22: Code holding a lone surrogate is rejected with the \<open>UnicodeEncodeError\<close> of
  line 232, at the index of the first surrogate, before any process is started.\<close>

theorem execute_code_surrogate:
  assumes "resolve_wasm_runtime (x_host x) = Inr r" and "\<exists>c \<in> set code. is_surrogate c"
  shows "et_result (execute_python x code stdin T m cpu mem) =
           Inl (ExecCodeEncodeError (UnicodeEncodeError (length (takeWhile (\<lambda>c. \<not> is_surrogate c) code)))) \<and>
         et_launch (execute_python x code stdin T m cpu mem) = None"
proof -
  obtain rp wm args where r: "r = (rp, wm, args)" by (cases r) auto
  have "utf8_encode code = Inl (UnicodeEncodeError (length (takeWhile (\<lambda>c. \<not> is_surrogate c) code)))"
    using assms(2) utf8_encode_Inl_surrogate by blast
  then show ?thesis using assms(1) r by (simp add: execute_python_def)
qed

text \<open>C23: A stdin holding a lone surrogate, with a runnable code, makes the call raise
  the \<open>UnicodeEncodeError\<close> of line 303 after \<open>Popen\<close>: the child has been started and
  is still running when the exception leaves \<open>execute_python\<close>, since the \<open>try\<close> only
  handles \<open>TimeoutExpired\<close>.\<close>

theorem execute_stdin_surrogate_leaks_child:
  assumes "resolve_wasm_runtime (x_host x) = Inr r" and "list_all (\<lambda>c. \<not> is_surrogate c) code"
    and "\<exists>c \<in> set st. is_surrogate c"
  shows "(\<exists>e. et_result (execute_python x code (Some st) T m cpu mem) = Inl (ExecStdinEncodeError e)) \<and>
         et_launch (execute_python x code (Some st) T m cpu mem) \<noteq> None \<and>
         et_child_alive (execute_python x code (Some st) T m cpu mem)"
proof -
  obtain rp wm args where r: "r = (rp, wm, args)" by (cases r) auto
  obtain e where "utf8_encode st = Inl e"
    using assms(3) utf8_encode_Inl_surrogate by blast
  moreover have "utf8_encode code = Inr (concat (map utf8_encode_cp code))"
    using assms(2) by (simp add: utf8_encode_def)
  ultimately show ?thesis
    using assms(1) r by (simp add: execute_python_def run_child_def)
qed

text \<open>C24: A call that returns a result leaves no live child, reports \<open>exit_code = None\<close>
  exactly when it timed out, never a negative duration, and, when it timed out, a
  duration of at least \<open>timeout_ms\<close>, provided the clock does not run backwards between
  \<open>start\<close> and \<open>Popen\<close>.\<close>

theorem execute_python_result:
  assumes "x_start x \<le> x_spawn x"
    and "et_result (execute_python x code stdin T m cpu mem) = Inr r"
  shows "\<not> et_child_alive (execute_python x code stdin T m cpu mem) \<and>
         (er_exit_code r = None \<longleftrightarrow> er_timed_out r) \<and> 0 \<le> er_duration_ms r \<and>
         (er_timed_out r \<longrightarrow> T \<le> er_duration_ms r)"
proof -
  obtain rp wm args bs where res: "resolve_wasm_runtime (x_host x) = Inr (rp, wm, args)"
      and enc: "utf8_encode code = Inr bs"
    using assms(2)
    by (auto simp: execute_python_def split: sum.splits prod.splits)
  let ?l = "build_launch x rp wm args bs cpu mem"
  have run: "et_result (run_child x ?l stdin T m) = Inr r"
    using assms(2) execute_python_resolved [OF res enc] by simp
  obtain input where r: "r = sv_result m (supervise T (x_start x) (x_spawn x)
                              (ca_session_leader (l_attrs ?l)) (x_child x input))"
      and alive: "\<not> et_child_alive (run_child x ?l stdin T m)"
    using run_child_Inr [OF run] by blast
  let ?s = "supervise T (x_start x) (x_spawn x) (ca_session_leader (l_attrs ?l)) (x_child x input)"
  have "(sv_step T)\<^sup>*\<^sup>* (sv_init (x_start x) (ca_session_leader (l_attrs ?l))) ?s"
    using assms(1) by (rule supervise_reachable)
  from sv_reaped_result [OF this, of m] supervise_final
  show ?thesis using alive r execute_python_resolved [OF res enc] by simp
qed


section \<open>Witnesses\<close>

lemma demo_world_resolve:
  "resolve_wasm_runtime (x_host demo_world) =
     Inr (''/usr/local/bin/wasmtime'', ''/srv/python.wasm'', [''--wasm'', ''max-wasm-stack=1048576''])"
  using demo_host_resolve by (simp add: demo_world_def)

theorem execute_code_surrogate_witness:
  "et_result (execute_python demo_world [0x68, 0xD800] None 1000 100 None None) =
     Inl (ExecCodeEncodeError (UnicodeEncodeError 1)) \<and>
   et_launch (execute_python demo_world [0x68, 0xD800] None 1000 100 None None) = None"
proof -
  have s: "\<exists>c \<in> set [0x68, 0xD800]. is_surrogate c" by (simp add: is_surrogate_def)
  show ?thesis
    using execute_code_surrogate [OF demo_world_resolve s, of None 1000 100 None None]
    by (simp add: is_surrogate_def)
qed

theorem execute_stdin_surrogate_leaks_child_witness:
  "et_result (execute_python demo_world [0x68] (Some [0xDC00]) 1000 100 None None) =
     Inl (ExecStdinEncodeError (UnicodeEncodeError 0)) \<and>
   et_child_alive (execute_python demo_world [0x68] (Some [0xDC00]) 1000 100 None None)"
proof -
  have c: "list_all (\<lambda>c. \<not> is_surrogate c) [0x68]" by (simp add: is_surrogate_def)
  have s: "\<exists>c \<in> set [0xDC00]. is_surrogate c" by (simp add: is_surrogate_def)
  have "et_result (execute_python demo_world [0x68] (Some [0xDC00]) 1000 100 None None) =
     Inl (ExecStdinEncodeError (UnicodeEncodeError 0))"
    using demo_world_resolve
    by (simp add: execute_python_def run_child_def utf8_encode_def is_surrogate_def)
  then show ?thesis
    using execute_stdin_surrogate_leaks_child [OF demo_world_resolve c s, of 1000 100 None None]
    by simp
qed

lemma demo_world_run:
  "et_result (execute_python demo_world [0x68, 0x69] None 1000 100 None None) =
     Inr \<lparr>er_stdout = [0x68, 0x69], er_stderr = [], er_exit_code = Some 0, er_timed_out = False,
          er_duration_ms = 0\<rparr>"
proof -
  have "utf8_decode_replace [0x68, 0x69] = [0x68, 0x69]"
    using utf8_decode_replicate_ascii [of "0x68 :: byte" 1] utf8_decode_replicate_ascii [of "0x69 :: byte" 1]
    by (simp add: utf8_next_def)
  then show ?thesis using demo_world_resolve
    by (simp add: execute_python_def run_child_def utf8_encode_def utf8_encode_cp_def is_surrogate_def
        supervise_def sv_init_def sv_result_def demo_world_def demo_child_def ns_per_ms_def
        Sanitizer.truncate_def Let_def)
qed

theorem execute_python_result_witness:
  "et_result (execute_python demo_world [0x68, 0x69] None 1000 100 None None) =
     Inr \<lparr>er_stdout = [0x68, 0x69], er_stderr = [], er_exit_code = Some 0, er_timed_out = False,
          er_duration_ms = 0\<rparr> \<and>
   \<not> et_child_alive (execute_python demo_world [0x68, 0x69] None 1000 100 None None)"
  using execute_python_result [OF _ demo_world_run] demo_world_run by (simp add: demo_world_def)


end
