(* ===== verification/Api.thy ===== *)
theory Api
  imports Executor
begin

text \<open>
  The HTTP layer of the service: \<open>src/app/core/config.py\<close> (the settings read from the
  environment with Python's \<open>int()\<close> and cached by \<open>lru_cache\<close>),
  \<open>src/app/models/schemas.py\<close> (the pydantic validation of the request body),
  \<open>src/app/api/routes.py\<close> (the timeout guard and the call of the executor) and
  \<open>src/app/main.py\<close> (the routes of the application and the port of \<open>run()\<close>). The
  executor is a parameter of the route, of type \<open>run_fn\<close>, so that the lemmas here hold
  for any executor; the root theory instantiates it with \<open>Executor.execute_python\<close>.
  Environment values are strings of 8-bit characters, each read as the code point it
  denotes.
\<close>

section \<open>Python's \<open>int()\<close> and \<open>str()\<close> on decimal strings\<close>

text \<open>\<open>str.isspace\<close> on the characters below 256: tab to carriage return, the four
  information separators, space, NEL and no-break space. \<open>int()\<close> ignores them around
  the number.\<close>

definition py_isspace :: "char \<Rightarrow> bool" where
  "py_isspace c \<longleftrightarrow>
     (let n = of_char c :: nat in (9 \<le> n \<and> n \<le> 13) \<or> (28 \<le> n \<and> n \<le> 32) \<or> n = 133 \<or> n = 160)"

definition py_strip :: "string \<Rightarrow> string" where
  "py_strip s = rev (dropWhile py_isspace (rev (dropWhile py_isspace s)))"

definition digit_value :: "char \<Rightarrow> int" where
  "digit_value c = int (of_char c) - 48"

text \<open>The digits of \<open>PyLong_FromString\<close> in base 10: one or more digits, a single
  underscore allowed between two digits. \<open>after_digit\<close> says whether the last
  character read was a digit.\<close>

fun parse_digits :: "int \<Rightarrow> bool \<Rightarrow> string \<Rightarrow> int option" where
  "parse_digits acc after_digit [] = (if after_digit then Some acc else None)"
| "parse_digits acc after_digit (c # cs) =
     (if is_digit c then parse_digits (acc * 10 + digit_value c) True cs
      else if c = CHR ''_'' \<and> after_digit then parse_digits acc False cs
      else None)"

text \<open>\<open>int(raw)\<close> for a \<open>str\<close>: \<open>None\<close> is the \<open>ValueError\<close>.\<close>

definition py_int :: "string \<Rightarrow> int option" where
  "py_int raw =
     (case py_strip raw of
        [] \<Rightarrow> None
      | c # cs \<Rightarrow>
          if c = CHR ''-'' then map_option uminus (parse_digits 0 False cs)
          else if c = CHR ''+'' then parse_digits 0 False cs
          else parse_digits 0 False (c # cs))"

definition digit_char :: "nat \<Rightarrow> char" where
  "digit_char d = char_of (48 + d)"

text \<open>The decimal digits of a natural number, most significant first, as the f-string of
  \<open>routes.py\<close> line 25 renders \<open>settings.max_exec_timeout_ms\<close>.\<close>

function nat_str :: "nat \<Rightarrow> string" where
  "nat_str n = (if n < 10 then [digit_char n] else nat_str (n div 10) @ [digit_char (n mod 10)])"
  by pat_completeness auto
termination
  by (relation "measure id") auto

declare nat_str.simps [simp del]

definition py_str_int :: "int \<Rightarrow> string" where
  "py_str_int i = (if i < 0 then CHR ''-'' # nat_str (nat (- i)) else nat_str (nat i))"

section \<open>Settings\<close>

text \<open>\<open>_int_from_env\<close> (config.py lines 8--15).\<close>

definition int_from_env :: "env \<Rightarrow> string \<Rightarrow> int \<Rightarrow> int" where
  "int_from_env environ name dflt =
     (case environ name of
        None \<Rightarrow> dflt
      | Some raw \<Rightarrow> (case py_int raw of Some v \<Rightarrow> v | None \<Rightarrow> dflt))"

text \<open>\<open>Settings\<close> (lines 18--23) and \<open>Settings.from_env\<close> (lines 25--32).\<close>

record settings =
  st_max_exec_timeout_ms :: int
  st_max_output_bytes :: int
  st_cpu_time_limit_sec :: int
  st_memory_limit_mb :: int

definition settings_from_env :: "env \<Rightarrow> settings" where
  "settings_from_env environ =
     \<lparr>st_max_exec_timeout_ms = int_from_env environ ''MAX_EXEC_TIMEOUT_MS'' 5000,
      st_max_output_bytes = int_from_env environ ''MAX_OUTPUT_BYTES'' 1000000,
      st_cpu_time_limit_sec = int_from_env environ ''CPU_TIME_LIMIT_SEC'' 2,
      st_memory_limit_mb = int_from_env environ ''MEMORY_LIMIT_MB'' 256\<rparr>"

text \<open>\<open>get_settings\<close> under \<open>lru_cache(maxsize=1)\<close> (lines 35--37): the cache is the
  state, empty until the first call, and the environment is read only on a miss.\<close>

definition get_settings :: "env \<Rightarrow> settings option \<Rightarrow> settings \<times> settings option" where
  "get_settings environ cache =
     (case cache of
        Some s \<Rightarrow> (s, cache)
      | None \<Rightarrow> (let s = settings_from_env environ in (s, Some s)))"

text \<open>Successive calls, each seeing the environment of its moment.\<close>

fun get_settings_calls :: "env list \<Rightarrow> settings option \<Rightarrow> settings list \<times> settings option" where
  "get_settings_calls [] cache = ([], cache)"
| "get_settings_calls (e # es) cache =
     (let (s, cache') = get_settings e cache;
          (ss, cache'') = get_settings_calls es cache'
      in (s # ss, cache''))"

section \<open>The request body\<close>

text \<open>A JSON value as \<open>json.loads\<close> returns it; a number with a fraction or an exponent
  is kept as its text.\<close>

datatype json =
    JNull
  | JBool bool
  | JInt int
  | JFloat pystr
  | JStr pystr
  | JArray "json list"
  | JObject "(pystr \<times> json) list"

text \<open>\<open>json.loads\<close> keeps the last of repeated keys.\<close>

definition json_lookup :: "(pystr \<times> json) list \<Rightarrow> string \<Rightarrow> json option" where
  "json_lookup kvs k = map_of (rev kvs) (pystr_lit k)"

text \<open>The errors of a request validation: pydantic's \<open>missing\<close>, type errors and
  \<open>greater_than_equal\<close> at a field, and FastAPI's \<open>json_invalid\<close> for a body that is not
  JSON (its position is not modelled).\<close>

datatype field_error = FieldMissing string | FieldType string | FieldTooSmall string | JsonInvalid

text \<open>\<open>ExecuteRequest\<close> (schemas.py lines 6--9).\<close>

record execute_request =
  rq_code :: pystr
  rq_stdin :: "pystr option"
  rq_timeout_ms :: int

text \<open>\<open>code: StrictStr = Field(...)\<close>: required, a string.\<close>

definition validate_code :: "json option \<Rightarrow> field_error list + pystr" where
  "validate_code f =
     (case f of None \<Rightarrow> Inl [FieldMissing ''code''] | Some (JStr s) \<Rightarrow> Inr s
      | Some _ \<Rightarrow> Inl [FieldType ''code''])"

text \<open>\<open>stdin: StrictStr | None = Field(None)\<close>.\<close>

definition validate_stdin :: "json option \<Rightarrow> field_error list + pystr option" where
  "validate_stdin f =
     (case f of None \<Rightarrow> Inr None | Some JNull \<Rightarrow> Inr None | Some (JStr s) \<Rightarrow> Inr (Some s)
      | Some _ \<Rightarrow> Inl [FieldType ''stdin''])"

text \<open>\<open>timeout_ms: StrictInt = Field(2000, ge=1)\<close>: strict mode refuses booleans,
  floats and numeric strings.\<close>

definition validate_timeout :: "json option \<Rightarrow> field_error list + int" where
  "validate_timeout f =
     (case f of None \<Rightarrow> Inr 2000
      | Some (JInt i) \<Rightarrow> if 1 \<le> i then Inr i else Inl [FieldTooSmall ''timeout_ms'']
      | Some _ \<Rightarrow> Inl [FieldType ''timeout_ms''])"

definition errors_of :: "field_error list + 'a \<Rightarrow> field_error list" where
  "errors_of r = (case r of Inl es \<Rightarrow> es | Inr _ \<Rightarrow> [])"

text \<open>The validation of the body: every field is checked and all errors are reported,
  in the order of the fields; unknown fields are ignored.\<close>

definition validate_request :: "json \<Rightarrow> field_error list + execute_request" where
  "validate_request body =
     (case body of
        JObject fs \<Rightarrow>
          (let c = validate_code (json_lookup fs ''code'');
               i = validate_stdin (json_lookup fs ''stdin'');
               t = validate_timeout (json_lookup fs ''timeout_ms'')
           in case (c, i, t) of
                (Inr code, Inr stdin, Inr timeout_ms) \<Rightarrow>
                  Inr \<lparr>rq_code = code, rq_stdin = stdin, rq_timeout_ms = timeout_ms\<rparr>
              | _ \<Rightarrow> Inl (errors_of c @ errors_of i @ errors_of t))
      | _ \<Rightarrow> Inl [FieldType ''body''])"

section \<open>The route and the application\<close>

datatype http_response =
    RespExecute execution_result
  | RespHealth
  | RespInvalid "field_error list"
  | RespError int string

text \<open>The executor as the route sees it: code, stdin, timeout, output cap, CPU and memory
  limits to an exception or a result.\<close>

type_synonym run_fn =
  "pystr \<Rightarrow> pystr option \<Rightarrow> int \<Rightarrow> int \<Rightarrow> int option \<Rightarrow> int option \<Rightarrow> exec_error + execution_result"

text \<open>\<open>execute\<close> of routes.py (lines 13--43) after \<open>get_settings()\<close>: the timeout guard,
  the call with the settings' limits, the response; an exception of the executor is the
  framework's 500.\<close>

definition execute_route :: "settings \<Rightarrow> run_fn \<Rightarrow> execute_request \<Rightarrow> http_response" where
  "execute_route s run req =
     (if st_max_exec_timeout_ms s < rq_timeout_ms req then
        RespError 422 (''timeout_ms exceeds maximum of '' @ py_str_int (st_max_exec_timeout_ms s) @ '' ms'')
      else
        (case run (rq_code req) (rq_stdin req) (rq_timeout_ms req) (st_max_output_bytes s)
                  (Some (st_cpu_time_limit_sec s)) (Some (st_memory_limit_mb s)) of
           Inl e \<Rightarrow> RespError 500 ''Internal Server Error''
         | Inr r \<Rightarrow> RespExecute r))"

datatype http_method = GET | POST | OtherMethod string

text \<open>The state the application keeps between requests: the settings cache.\<close>

record app_state =
  as_cache :: "settings option"

text \<open>The endpoint \<open>execute\<close> as the framework calls it: the body is validated against
  \<open>ExecuteRequest\<close> before the function runs (an invalid body never reaches it), then
  \<open>get_settings()\<close> with its cache, then the route.\<close>

definition execute_endpoint ::
  "env \<Rightarrow> run_fn \<Rightarrow> app_state \<Rightarrow> json \<Rightarrow> http_response \<times> app_state" where
  "execute_endpoint environ run st body =
     (case validate_request body of
        Inl errs \<Rightarrow> (RespInvalid errs, st)
      | Inr req \<Rightarrow>
          (let (s, cache') = get_settings environ (as_cache st)
           in (execute_route s run req, st\<lparr>as_cache := cache'\<rparr>)))"

text \<open>The routes of \<open>create_app\<close> (main.py lines 20--24) on their exact paths:
  \<open>GET /healthz\<close>, the router's \<open>POST /execute\<close> under \<open>/v1\<close>, the framework's 405 for
  a known path with another method and 404 otherwise. Theory \<open>App\<close> derives this
  dispatch from the framework's route table and router.\<close>

definition handle_request ::
  "env \<Rightarrow> run_fn \<Rightarrow> app_state \<Rightarrow> http_method \<Rightarrow> string \<Rightarrow> json \<Rightarrow> http_response \<times> app_state" where
  "handle_request environ run st m path body =
     (if path = ''/healthz'' then
        (if m = GET then (RespHealth, st) else (RespError 405 ''Method Not Allowed'', st))
      else if path = ''/v1/execute'' then
        (if m \<noteq> POST then (RespError 405 ''Method Not Allowed'', st)
         else execute_endpoint environ run st body)
      else (RespError 404 ''Not Found'', st))"

text \<open>\<open>run()\<close> (main.py lines 31--42): host and port of the server; a \<open>PORT\<close> that
  \<open>int()\<close> refuses raises \<open>ValueError\<close>, an empty one means 8000.\<close>

definition run_server_config :: "env \<Rightarrow> string + (string \<times> int)" where
  "run_server_config environ =
     (let host = (case environ ''HOST'' of Some h \<Rightarrow> h | None \<Rightarrow> ''127.0.0.1'')
      in case environ ''PORT'' of
           Some p \<Rightarrow>
             if p = [] then Inr (host, 8000)
             else (case py_int p of Some port \<Rightarrow> Inr (host, port) | None \<Rightarrow> Inl ''ValueError'')
         | None \<Rightarrow> Inr (host, 8000))"

text \<open>An executor that echoes the code as output and the timeout as duration.\<close>

definition demo_run :: run_fn where
  "demo_run c i t m cpu mem =
     Inr \<lparr>er_stdout = c, er_stderr = [], er_exit_code = Some 0, er_timed_out = False, er_duration_ms = t\<rparr>"

section \<open>Decimal strings\<close>

lemma digit_char_digit:
  "d < 10 \<Longrightarrow> is_digit (digit_char d) \<and> digit_value (digit_char d) = int d"
  by (simp add: digit_char_def is_digit_def digit_value_def less_eq_char_def)

lemma digit_not_space: "is_digit c \<Longrightarrow> \<not> py_isspace c \<and> c \<noteq> CHR ''-'' \<and> c \<noteq> CHR ''+''"
  by (auto simp: is_digit_def py_isspace_def less_eq_char_def)

lemma nat_str_small [simp]: "n < 10 \<Longrightarrow> nat_str n = [digit_char n]"
  by (subst nat_str.simps) simp

lemma nat_str_big: "\<not> n < 10 \<Longrightarrow> nat_str n = nat_str (n div 10) @ [digit_char (n mod 10)]"
  by (subst nat_str.simps) simp

lemma nat_str_digits: "nat_str n \<noteq> [] \<and> list_all is_digit (nat_str n)"
proof (induction n rule: nat_str.induct)
  case (1 n)
  then show ?case by (cases "n < 10") (simp_all add: nat_str_big digit_char_digit)
qed

lemma nat_str_value:
  "foldl (\<lambda>a c. a * 10 + digit_value c) acc (nat_str n) = acc * 10 ^ length (nat_str n) + int n"
proof (induction n arbitrary: acc rule: nat_str.induct)
  case (1 n)
  show ?case
  proof (cases "n < 10")
    case True
    then show ?thesis by (simp add: digit_char_digit)
  next
    case False
    have "n = n div 10 * 10 + n mod 10" by simp
    then have n: "int n = int (n div 10) * 10 + int (n mod 10)"
      by (metis of_nat_add of_nat_mult of_nat_numeral)
    show ?thesis using 1 [OF False, of acc] False
      by (simp add: nat_str_big digit_char_digit algebra_simps n)
  qed
qed

lemma parse_digits_digits:
  "list_all is_digit xs \<Longrightarrow> xs \<noteq> [] \<Longrightarrow>
   parse_digits acc b xs = Some (foldl (\<lambda>a c. a * 10 + digit_value c) acc xs)"
proof (induction xs arbitrary: acc b)
  case (Cons x xs)
  show ?case
  proof (cases "xs = []")
    case False
    then show ?thesis using Cons.prems Cons.IH [of "acc * 10 + digit_value x" True] by simp
  qed (use Cons.prems in simp)
qed simp

lemma dropWhile_none: "list_all (\<lambda>c. \<not> P c) xs \<Longrightarrow> dropWhile P xs = xs"
  by (cases xs) auto

lemma py_strip_plain: "list_all (\<lambda>c. \<not> py_isspace c) xs \<Longrightarrow> py_strip xs = xs"
  by (simp add: py_strip_def dropWhile_none)

lemma parse_nat_str: "parse_digits 0 False (nat_str n) = Some (int n)"
  using parse_digits_digits [of "nat_str n" 0 False] nat_str_digits [of n] nat_str_value [of 0 n]
  by simp

lemma py_strip_sign_nat_str:
  "py_strip (nat_str n) = nat_str n \<and> py_strip (CHR ''-'' # nat_str n) = CHR ''-'' # nat_str n"
proof -
  have "list_all (\<lambda>c. \<not> py_isspace c) (nat_str n)"
    using nat_str_digits [of n] digit_not_space by (simp add: list_all_iff)
  moreover have "\<not> py_isspace CHR ''-''" by (simp add: py_isspace_def)
  ultimately show ?thesis by (simp add: py_strip_plain)
qed

lemma nat_str_hd: "\<exists>c cs. nat_str n = c # cs \<and> c \<noteq> CHR ''-'' \<and> c \<noteq> CHR ''+''"
proof -
  obtain c cs where cs: "nat_str n = c # cs"
    using nat_str_digits [of n] by (cases "nat_str n") auto
  then have "is_digit c" using nat_str_digits [of n] by simp
  then show ?thesis using cs digit_not_space by blast
qed

section \<open>The settings cache\<close>

lemma get_settings_calls_Some:
  "get_settings_calls es (Some s) = (replicate (length es) s, Some s)"
  by (induction es) (simp_all add: get_settings_def)

section \<open>Validation and the route\<close>

lemma validate_request_Inr:
  "validate_request body = Inr req \<Longrightarrow>
   \<exists>kvs. body = JObject kvs \<and> validate_timeout (json_lookup kvs ''timeout_ms'') = Inr (rq_timeout_ms req)"
  by (auto simp: validate_request_def Let_def split: json.splits sum.splits)

lemma validate_timeout_ge_1: "validate_timeout f = Inr t \<Longrightarrow> 1 \<le> t"
  by (auto simp: validate_timeout_def split: option.splits json.splits if_splits)

lemma handle_request_RespExecute:
  assumes "handle_request environ run st meth path body = (RespExecute r, st')"
  shows "\<exists>req :: execute_request. run (rq_code req) (rq_stdin req) (rq_timeout_ms req)
             (st_max_output_bytes (fst (get_settings environ (as_cache st))))
             (Some (st_cpu_time_limit_sec (fst (get_settings environ (as_cache st)))))
             (Some (st_memory_limit_mb (fst (get_settings environ (as_cache st))))) = Inr r"
proof -
  obtain req where "execute_route (fst (get_settings environ (as_cache st))) run req = RespExecute r"
    using assms by (auto simp: handle_request_def execute_endpoint_def Let_def split: if_splits sum.splits prod.splits)
  then have "run (rq_code req) (rq_stdin req) (rq_timeout_ms req)
             (st_max_output_bytes (fst (get_settings environ (as_cache st))))
             (Some (st_cpu_time_limit_sec (fst (get_settings environ (as_cache st)))))
             (Some (st_memory_limit_mb (fst (get_settings environ (as_cache st))))) = Inr r"
    by (auto simp: execute_route_def split: if_splits sum.splits)
  then show ?thesis by blast
qed

section \<open>Properties of the settings and the decimal strings\<close>

text \<open>\<open>int()\<close> reads back every integer \<open>str()\<close> writes: the decimal rendering of
  the error message and the parser of the configuration agree on every \<open>int\<close>.\<close>

theorem py_int_py_str_int: "py_int (py_str_int i) = Some i"
proof (cases "i < 0")
  case True
  then show ?thesis using py_strip_sign_nat_str [of "nat (- i)"] parse_nat_str [of "nat (- i)"]
    by (simp add: py_str_int_def py_int_def)
next
  case False
  obtain c cs where cs: "nat_str (nat i) = c # cs" "c \<noteq> CHR ''-''" "c \<noteq> CHR ''+''"
    using nat_str_hd by blast
  then show ?thesis using False py_strip_sign_nat_str [of "nat i"] parse_nat_str [of "nat i"]
    by (simp add: py_str_int_def py_int_def)
qed

text \<open>C27: \<open>lru_cache\<close> freezes the settings at the first call: whatever the environment
  holds at later calls, every call returns the settings read from the environment of the
  first one, and the cache keeps them.\<close>

theorem get_settings_calls_frozen:
  "get_settings_calls (e # es) None =
     (replicate (Suc (length es)) (settings_from_env e), Some (settings_from_env e))"
  by (simp add: get_settings_def get_settings_calls_Some Let_def)

section \<open>Properties of the route and the application\<close>

text \<open>C28: A request whose timeout exceeds the configured maximum gets the 422 of line 22
  with the maximum in decimal, and the executor is not consulted: the response is the same
  for any executor.\<close>

theorem execute_route_guard:
  assumes "st_max_exec_timeout_ms s < rq_timeout_ms req"
  shows "execute_route s run req =
           RespError 422 (''timeout_ms exceeds maximum of '' @ py_str_int (st_max_exec_timeout_ms s) @ '' ms'') \<and>
         execute_route s run req = execute_route s run' req"
  using assms by (simp add: execute_route_def)

text \<open>C29: Whatever the request, the application only ever hands the executor a timeout
  between 1 and the configured maximum: two executors that agree on those timeouts give
  the same response and the same next state for every method, path and body.\<close>

theorem handle_request_timeout_range:
  assumes "\<forall>c i t m cpu mem. 1 \<le> t \<and> t \<le> st_max_exec_timeout_ms (fst (get_settings environ (as_cache st))) \<longrightarrow>
             run c i t m cpu mem = run' c i t m cpu mem"
  shows "handle_request environ run st meth path body = handle_request environ run' st meth path body"
proof (cases "validate_request body")
  case (Inr req)
  have "1 \<le> rq_timeout_ms req"
    using validate_request_Inr [OF Inr] validate_timeout_ge_1 by blast
  then show ?thesis using Inr assms
    by (auto simp: handle_request_def execute_endpoint_def execute_route_def Let_def split: prod.split)
qed (simp add: handle_request_def execute_endpoint_def)

text \<open>C30: A body that validates is an object whose timeout is a strict integer of at
  least 1 (2000 when absent); booleans, floats and numeric strings are refused.\<close>

theorem validate_request_timeout:
  assumes "validate_request body = Inr req"
  shows "\<exists>kvs. body = JObject kvs \<and> 1 \<le> rq_timeout_ms req \<and>
           (case json_lookup kvs ''timeout_ms'' of
              None \<Rightarrow> rq_timeout_ms req = 2000
            | Some v \<Rightarrow> v = JInt (rq_timeout_ms req))"
proof -
  obtain kvs where b: "body = JObject kvs"
      and t: "validate_timeout (json_lookup kvs ''timeout_ms'') = Inr (rq_timeout_ms req)"
    using validate_request_Inr [OF assms] by blast
  show ?thesis using b t validate_timeout_ge_1 [OF t]
    by (auto simp: validate_timeout_def split: option.splits json.splits if_splits)
qed


section \<open>Witnesses\<close>

lemma settings_default: "settings_from_env Map.empty =
  \<lparr>st_max_exec_timeout_ms = 5000, st_max_output_bytes = 1000000, st_cpu_time_limit_sec = 2,
   st_memory_limit_mb = 256\<rparr>"
  by (simp add: settings_from_env_def int_from_env_def)

theorem execute_route_guard_witness:
  "execute_route (settings_from_env Map.empty) demo_run
     \<lparr>rq_code = [0x61], rq_stdin = None, rq_timeout_ms = 6000\<rparr> =
   RespError 422 (''timeout_ms exceeds maximum of '' @ py_str_int 5000 @ '' ms'')"
  using execute_route_guard [of "settings_from_env Map.empty" "\<lparr>rq_code = [0x61], rq_stdin = None, rq_timeout_ms = 6000\<rparr>"
      demo_run demo_run]
  by (simp add: settings_default)

theorem handle_request_timeout_range_witness:
  "handle_request Map.empty demo_run \<lparr>as_cache = None\<rparr> POST ''/v1/execute''
     (JObject [(pystr_lit ''code'', JStr [0x61]), (pystr_lit ''timeout_ms'', JInt 9000)]) =
   handle_request Map.empty (\<lambda>c i t m cpu mem. if t \<le> 5000 then demo_run c i t m cpu mem
                                              else Inl (ExecResolveError RuntimeNotFound))
     \<lparr>as_cache = None\<rparr> POST ''/v1/execute'' (JObject [(pystr_lit ''code'', JStr [0x61]), (pystr_lit ''timeout_ms'', JInt 9000)])"
proof -
  have "\<forall>c i t m cpu mem. 1 \<le> t \<and> t \<le> st_max_exec_timeout_ms (fst (get_settings Map.empty (as_cache \<lparr>as_cache = None\<rparr>))) \<longrightarrow>
          demo_run c i t m cpu mem =
          (\<lambda>c i t m cpu mem. if t \<le> 5000 then demo_run c i t m cpu mem
                             else Inl (ExecResolveError RuntimeNotFound)) c i t m cpu mem"
    by (simp add: get_settings_def settings_default Let_def)
  then show ?thesis by (rule handle_request_timeout_range)
qed

theorem validate_request_timeout_witness:
  "validate_request (JObject [(pystr_lit ''code'', JStr [0x61]), (pystr_lit ''timeout_ms'', JInt 1500), (pystr_lit ''timeout_ms'', JInt 3)]) =
     Inr \<lparr>rq_code = [0x61], rq_stdin = None, rq_timeout_ms = 3\<rparr> \<and>
   1 \<le> rq_timeout_ms \<lparr>rq_code = [0x61], rq_stdin = None, rq_timeout_ms = 3\<rparr>"
proof -
  have v: "validate_request (JObject [(pystr_lit ''code'', JStr [0x61]), (pystr_lit ''timeout_ms'', JInt 1500), (pystr_lit ''timeout_ms'', JInt 3)]) =
     Inr \<lparr>rq_code = [0x61], rq_stdin = None, rq_timeout_ms = 3\<rparr>"
    by (simp add: validate_request_def json_lookup_def validate_code_def validate_stdin_def
        validate_timeout_def)
  show ?thesis using validate_request_timeout [OF v] v by auto
qed


end
