(* ===== verification/App.thy ===== *)
theory App
  imports Api
begin

text \<open>
  The application object of \<open>src/app/main.py\<close> as the framework builds and serves it.
  \<open>create_app\<close> (lines 11--25) constructs \<open>FastAPI(...)\<close>, whose set-up registers the
  documentation routes (\<open>/openapi.json\<close>, \<open>/docs\<close> with its OAuth2 redirect page,
  \<open>/redoc\<close>) before any route of the program; then \<open>/healthz\<close> and the router of
  \<open>routes.py\<close> under the prefix \<open>/v1\<close>. The module-level \<open>app\<close> (line 28) is this route
  list. A request is dispatched by Starlette's router: the first route whose path pattern
  matches with an allowed method handles it; otherwise the first route whose pattern
  matches answers 405; otherwise the path with its trailing slashes removed (or with one
  added) is tried and, if some route's pattern matches it, the answer is a 307 redirect;
  otherwise 404. A path pattern \<open>^/p$\<close> is applied with Python's \<open>re.match\<close>, whose
  \<open>$\<close> also matches before a final newline.

  The lemmas show that on the program's two paths the framework's dispatch is exactly
  \<open>handle_request\<close> of theory \<open>Api\<close>, that the executor is reached only by \<open>POST\<close> on
  \<open>/v1/execute\<close> (or that path followed by a newline), and what the framework adds around
  the program's routes: documentation pages, slash redirects, and the newline variants.
\<close>

section \<open>Definitions\<close>

text \<open>The arguments of \<open>FastAPI(...)\<close> (main.py lines 12--18), with the framework's
  default \<open>swagger_ui_oauth2_redirect_url\<close>.\<close>

record fastapi_config =
  fc_title :: string
  fc_version :: string
  fc_docs_url :: "string option"
  fc_redoc_url :: "string option"
  fc_openapi_url :: "string option"
  fc_oauth2_redirect_url :: "string option"

definition app_config :: fastapi_config where
  "app_config =
     \<lparr>fc_title = ''Code Interpreter API'', fc_version = ''0.1.0'', fc_docs_url = Some ''/docs'',
      fc_redoc_url = Some ''/redoc'', fc_openapi_url = Some ''/openapi.json'',
      fc_oauth2_redirect_url = Some ''/docs/oauth2-redirect''\<rparr>"

text \<open>The endpoints of the routes: the framework's pages and the program's two functions.\<close>

datatype endpoint = OpenApiPage | SwaggerUiPage | SwaggerRedirectPage | RedocPage
  | HealthzEndpoint | ExecuteEndpoint

record route =
  rt_path :: string
  rt_methods :: "http_method list"
  rt_endpoint :: endpoint

text \<open>A route added with \<open>add_route\<close> for a plain function: Starlette gives it the methods
  \<open>GET\<close> and \<open>HEAD\<close>.\<close>

definition page_route :: "string \<Rightarrow> endpoint \<Rightarrow> route" where
  "page_route p e = \<lparr>rt_path = p, rt_methods = [GET, OtherMethod ''HEAD''], rt_endpoint = e\<rparr>"

text \<open>Python's truth value of an optional URL: \<open>None\<close> and the empty string are false.\<close>

definition url_on :: "string option \<Rightarrow> bool" where
  "url_on u = (case u of None \<Rightarrow> False | Some p \<Rightarrow> p \<noteq> [])"

text \<open>\<open>FastAPI.setup()\<close>, run by the constructor: the OpenAPI schema, then the Swagger UI
  page and its OAuth2 redirect page, then ReDoc, each only when its URL and the schema's
  URL are set.\<close>

definition setup_routes :: "fastapi_config \<Rightarrow> route list" where
  "setup_routes c =
     (if url_on (fc_openapi_url c) then [page_route (the (fc_openapi_url c)) OpenApiPage] else []) @
     (if url_on (fc_openapi_url c) \<and> url_on (fc_docs_url c) then
        [page_route (the (fc_docs_url c)) SwaggerUiPage] @
        (if url_on (fc_oauth2_redirect_url c)
         then [page_route (the (fc_oauth2_redirect_url c)) SwaggerRedirectPage] else [])
      else []) @
     (if url_on (fc_openapi_url c) \<and> url_on (fc_redoc_url c)
      then [page_route (the (fc_redoc_url c)) RedocPage] else [])"

text \<open>The router of routes.py (lines 10 and 13): \<open>POST /execute\<close>. A FastAPI route
  keeps exactly the methods it is declared with.\<close>

definition api_router :: "route list" where
  "api_router = [\<lparr>rt_path = ''/execute'', rt_methods = [POST], rt_endpoint = ExecuteEndpoint\<rparr>]"

text \<open>\<open>include_router(router, prefix=...)\<close> (main.py line 24): every route of the router,
  its path prefixed, appended in order.\<close>

definition include_router :: "string \<Rightarrow> route list \<Rightarrow> route list" where
  "include_router pfx rs = map (\<lambda>r. r\<lparr>rt_path := pfx @ rt_path r\<rparr>) rs"

text \<open>\<open>create_app\<close> (main.py lines 11--25): the route list of the application.\<close>

definition create_app :: "fastapi_config \<Rightarrow> route list" where
  "create_app c =
     setup_routes c @
     [\<lparr>rt_path = ''/healthz'', rt_methods = [GET], rt_endpoint = HealthzEndpoint\<rparr>] @
     include_router ''/v1'' api_router"

text \<open>The module-level \<open>app = create_app()\<close> (main.py line 28).\<close>

definition app :: "route list" where
  "app = create_app app_config"

text \<open>\<open>re.match\<close> of the compiled pattern \<open>^p$\<close> of a path without parameters: the
  path itself, or the path followed by one newline.\<close>

definition path_matches :: "string \<Rightarrow> string \<Rightarrow> bool" where
  "path_matches p s \<longleftrightarrow> s = p \<or> s = p @ [CHR 0x0A]"

text \<open>Starlette's \<open>Match\<close>: \<open>NONE\<close>, \<open>PARTIAL\<close> (the path matches, the method is not
  allowed), \<open>FULL\<close>.\<close>

datatype route_match = MatchNone | MatchPartial | MatchFull

definition route_matches :: "route \<Rightarrow> http_method \<Rightarrow> string \<Rightarrow> route_match" where
  "route_matches r m s =
     (if \<not> path_matches (rt_path r) s then MatchNone
      else if m \<in> set (rt_methods r) then MatchFull else MatchPartial)"

text \<open>What the router does with a request.\<close>

datatype dispatch = Handle route | NotAllowed route | RedirectTo string | NotFound

text \<open>The loop of \<open>Router.app\<close>: the first full match is handled at once; the first
  partial match is remembered and answers 405 when no route matches fully.\<close>

fun router_scan :: "route list \<Rightarrow> http_method \<Rightarrow> string \<Rightarrow> route option \<Rightarrow> dispatch option" where
  "router_scan [] m s partial = map_option NotAllowed partial"
| "router_scan (r # rs) m s partial =
     (case route_matches r m s of
        MatchFull \<Rightarrow> Some (Handle r)
      | MatchPartial \<Rightarrow> router_scan rs m s (case partial of None \<Rightarrow> Some r | Some p \<Rightarrow> Some p)
      | MatchNone \<Rightarrow> router_scan rs m s partial)"

text \<open>\<open>redirect_slashes\<close>: a path ending in \<open>/\<close> loses all its trailing slashes
  (\<open>rstrip("/")\<close>), any other gains one.\<close>

definition redirect_path :: "string \<Rightarrow> string" where
  "redirect_path s =
     (if s \<noteq> [] \<and> last s = CHR ''/'' then rev (dropWhile (\<lambda>c. c = CHR ''/'') (rev s))
      else s @ ''/'')"

definition router_dispatch :: "route list \<Rightarrow> http_method \<Rightarrow> string \<Rightarrow> dispatch" where
  "router_dispatch rs m s =
     (case router_scan rs m s None of
        Some d \<Rightarrow> d
      | None \<Rightarrow>
          if s \<noteq> ''/'' \<and> list_ex (\<lambda>r. route_matches r m (redirect_path s) \<noteq> MatchNone) rs
          then RedirectTo (redirect_path s) else NotFound)"

text \<open>The answers of the served application: the program's responses, the framework's
  documentation pages, and the 307 redirect to another path.\<close>

datatype app_response = ApiResponse http_response | PageResponse endpoint | Redirect307 string

text \<open>The served \<open>app\<close>: the router's decision, then the endpoint. The endpoint of
  \<open>/v1/execute\<close> is a parameter, a function of the settings cache, so that the request
  body can be taken as a parsed value here and as bytes in theory \<open>Http\<close>.\<close>

definition app_serve ::
  "(app_state \<Rightarrow> http_response \<times> app_state) \<Rightarrow> app_state \<Rightarrow> http_method \<Rightarrow> string \<Rightarrow>
   app_response \<times> app_state" where
  "app_serve execute st m s =
     (case router_dispatch app m s of
        Handle r \<Rightarrow>
          (case rt_endpoint r of
             HealthzEndpoint \<Rightarrow> (ApiResponse RespHealth, st)
           | ExecuteEndpoint \<Rightarrow> apfst ApiResponse (execute st)
           | e \<Rightarrow> (PageResponse e, st))
      | NotAllowed r \<Rightarrow> (ApiResponse (RespError 405 ''Method Not Allowed''), st)
      | RedirectTo s' \<Rightarrow> (Redirect307 s', st)
      | NotFound \<Rightarrow> (ApiResponse (RespError 404 ''Not Found''), st))"

text \<open>A request to the served \<open>app\<close> with its body parsed as JSON.\<close>

definition app_call ::
  "env \<Rightarrow> run_fn \<Rightarrow> app_state \<Rightarrow> http_method \<Rightarrow> string \<Rightarrow> json \<Rightarrow> app_response \<times> app_state" where
  "app_call environ run st m s body = app_serve (\<lambda>st. execute_endpoint environ run st body) st m s"

section \<open>The route table\<close>

lemma app_routes:
  "app =
     [page_route ''/openapi.json'' OpenApiPage, page_route ''/docs'' SwaggerUiPage,
      page_route ''/docs/oauth2-redirect'' SwaggerRedirectPage, page_route ''/redoc'' RedocPage,
      \<lparr>rt_path = ''/healthz'', rt_methods = [GET], rt_endpoint = HealthzEndpoint\<rparr>,
      \<lparr>rt_path = ''/v1/execute'', rt_methods = [POST], rt_endpoint = ExecuteEndpoint\<rparr>]"
  by (simp add: app_def create_app_def setup_routes_def app_config_def url_on_def
      include_router_def api_router_def)

lemma app_execute_route:
  assumes "r \<in> set app" "rt_endpoint r = ExecuteEndpoint"
  shows "rt_path r = ''/v1/execute'' \<and> rt_methods r = [POST]"
  using assms by (auto simp: app_routes page_route_def)

section \<open>The router\<close>

text \<open>What the router handles is a route of the list that matches fully.\<close>

lemma router_scan_Handle:
  "router_scan rs m s p = Some (Handle r) \<Longrightarrow> r \<in> set rs \<and> route_matches r m s = MatchFull"
  by (induction rs m s p rule: router_scan.induct)
    (auto split: route_match.splits option.splits if_splits)

lemma router_dispatch_Handle:
  "router_dispatch rs m s = Handle r \<Longrightarrow> r \<in> set rs \<and> route_matches r m s = MatchFull"
  by (auto simp: router_dispatch_def dest: router_scan_Handle split: option.splits if_splits)

text \<open>The executor's endpoint is only reached by \<open>POST\<close> on \<open>/v1/execute\<close>, with or
  without a final newline.\<close>

lemma app_dispatch_execute:
  assumes "router_dispatch app m s = Handle r" "rt_endpoint r = ExecuteEndpoint"
  shows "m = POST \<and> (s = ''/v1/execute'' \<or> s = ''/v1/execute'' @ [CHR 0x0A])"
proof -
  have "r \<in> set app" "route_matches r m s = MatchFull"
    using router_dispatch_Handle [OF assms(1)] by auto
  with app_execute_route [OF _ assms(2)] show ?thesis
    by (auto simp: route_matches_def path_matches_def split: if_splits)
qed

lemma app_call_not_execute:
  assumes "\<forall>r. router_dispatch app m s = Handle r \<longrightarrow> rt_endpoint r \<noteq> ExecuteEndpoint"
  shows "app_call environ run st m s body = app_call environ' run' st m s body' \<and>
         snd (app_call environ run st m s body) = st"
  using assms by (auto simp: app_call_def app_serve_def split: dispatch.splits endpoint.splits)

text \<open>The router on the program's two paths, with or without a final newline: the
  documentation routes come first but do not match them.\<close>

lemma app_dispatch_at_healthz:
  "path_matches ''/healthz'' s \<Longrightarrow> router_dispatch app m s =
     (if m = GET then Handle \<lparr>rt_path = ''/healthz'', rt_methods = [GET], rt_endpoint = HealthzEndpoint\<rparr>
      else NotAllowed \<lparr>rt_path = ''/healthz'', rt_methods = [GET], rt_endpoint = HealthzEndpoint\<rparr>)"
  unfolding path_matches_def
  by (elim disjE) (simp_all add: router_dispatch_def app_routes page_route_def route_matches_def path_matches_def)

lemma app_dispatch_at_execute:
  "path_matches ''/v1/execute'' s \<Longrightarrow> router_dispatch app m s =
     (if m = POST then Handle \<lparr>rt_path = ''/v1/execute'', rt_methods = [POST], rt_endpoint = ExecuteEndpoint\<rparr>
      else NotAllowed \<lparr>rt_path = ''/v1/execute'', rt_methods = [POST], rt_endpoint = ExecuteEndpoint\<rparr>)"
  unfolding path_matches_def
  by (elim disjE) (simp_all add: router_dispatch_def app_routes page_route_def route_matches_def path_matches_def)

text \<open>\<open>POST /v1/execute\<close> is answered by the endpoint.\<close>

lemma app_serve_execute: "app_serve e st POST ''/v1/execute'' = apfst ApiResponse (e st)"
  using app_dispatch_at_execute [of "''/v1/execute''" POST] by (simp add: app_serve_def path_matches_def)

section \<open>Properties\<close>

text \<open>C35: The framework's routing refines the program's dispatch: on \<open>/healthz\<close> and
  \<open>/v1/execute\<close>, and on each of them followed by a newline, the served application answers
  every method and body exactly as \<open>handle_request\<close> does on the path, and leaves the same
  settings cache.\<close>

theorem app_call_refines_handle_request:
  assumes "p = ''/healthz'' \<or> p = ''/v1/execute''" and "path_matches p s"
  shows "app_call environ run st m s body = apfst ApiResponse (handle_request environ run st m p body)"
  using assms by (auto simp: app_call_def app_serve_def app_dispatch_at_healthz app_dispatch_at_execute handle_request_def)

text \<open>C4: The executor is reached only through \<open>POST\<close> on \<open>/v1/execute\<close> (or that path
  followed by a newline): for every other method or path the answer depends neither on
  the environment, nor on the executor, nor on the body, and the settings cache is left
  as it was.\<close>

theorem app_call_executor_only_post_execute:
  assumes "m \<noteq> POST \<or> \<not> path_matches ''/v1/execute'' s"
  shows "app_call environ run st m s body = app_call environ' run' st m s body' \<and>
         snd (app_call environ run st m s body) = st"
proof (rule app_call_not_execute, intro allI impI)
  fix r assume "router_dispatch app m s = Handle r"
  then show "rt_endpoint r \<noteq> ExecuteEndpoint"
    using app_dispatch_execute assms by (auto simp: path_matches_def)
qed

text \<open>What the framework adds around the program's routes: \<open>POST /v1/execute/\<close> is
  redirected to \<open>/v1/execute\<close> (307, method and body kept), \<open>HEAD /healthz\<close> is refused while
  \<open>HEAD /docs\<close> serves the page, and \<open>/\<close> is not found.\<close>

lemma app_framework_answers:
  "app_call Map.empty demo_run \<lparr>as_cache = None\<rparr> POST ''/v1/execute/'' JNull =
     (Redirect307 ''/v1/execute'', \<lparr>as_cache = None\<rparr>) \<and>
   app_call Map.empty demo_run \<lparr>as_cache = None\<rparr> (OtherMethod ''HEAD'') ''/healthz'' JNull =
     (ApiResponse (RespError 405 ''Method Not Allowed''), \<lparr>as_cache = None\<rparr>) \<and>
   app_call Map.empty demo_run \<lparr>as_cache = None\<rparr> (OtherMethod ''HEAD'') ''/docs'' JNull =
     (PageResponse SwaggerUiPage, \<lparr>as_cache = None\<rparr>) \<and>
   app_call Map.empty demo_run \<lparr>as_cache = None\<rparr> GET ''/'' JNull =
     (ApiResponse (RespError 404 ''Not Found''), \<lparr>as_cache = None\<rparr>)"
  by (simp add: app_call_def app_serve_def router_dispatch_def app_routes page_route_def route_matches_def
      path_matches_def redirect_path_def)

theorem app_call_refines_handle_request_witness:
  "(''/v1/execute'' = ''/healthz'' \<or> ''/v1/execute'' = ''/v1/execute'') \<and>
   path_matches ''/v1/execute'' (''/v1/execute'' @ [CHR 0x0A]) \<and>
   app_call Map.empty demo_run \<lparr>as_cache = None\<rparr> POST (''/v1/execute'' @ [CHR 0x0A])
     (JObject [(pystr_lit ''code'', JStr [97])]) =
   apfst ApiResponse (handle_request Map.empty demo_run \<lparr>as_cache = None\<rparr> POST ''/v1/execute''
     (JObject [(pystr_lit ''code'', JStr [97])]))"
  using app_call_refines_handle_request [of "''/v1/execute''" "''/v1/execute'' @ [CHR 0x0A]"]
  by (simp add: path_matches_def)

theorem app_call_executor_only_post_execute_witness:
  "GET \<noteq> POST \<and>
   app_call Map.empty demo_run \<lparr>as_cache = None\<rparr> GET ''/v1/execute'' JNull =
     app_call (map_of [(''MAX_EXEC_TIMEOUT_MS'', ''1'')]) (\<lambda>c i t m cpu mem. demo_run [] i t m cpu mem)
       \<lparr>as_cache = None\<rparr> GET ''/v1/execute'' (JObject [(pystr_lit ''code'', JStr [97])]) \<and>
   snd (app_call Map.empty demo_run \<lparr>as_cache = None\<rparr> GET ''/v1/execute'' JNull) = \<lparr>as_cache = None\<rparr>"
proof -
  have h: "GET \<noteq> POST \<or> \<not> path_matches ''/v1/execute'' ''/v1/execute''" by simp
  show ?thesis
    using h app_call_executor_only_post_execute [OF h, where environ = Map.empty and run = demo_run
        and st = "\<lparr>as_cache = None\<rparr>" and body = JNull
        and environ' = "map_of [(''MAX_EXEC_TIMEOUT_MS'', ''1'')]"
        and run' = "\<lambda>c i t m cpu mem. demo_run [] i t m cpu mem"
        and body' = "JObject [(pystr_lit ''code'', JStr [97])]"]
    by blast
qed

end
