(* ===== verification/Json.thy ===== *)
theory Json
  imports Api
begin

text \<open>
  The JSON codec of CPython as the program calls it: \<open>json.dumps\<close> (the guest's
  \<open>print(json.dumps(...))\<close> of \<open>src/tests/test_data_stack.py\<close> line 45, and the response
  body the framework renders for the route's \<open>ExecuteResponse\<close>, schemas.py lines 12--17)
  and \<open>json.loads\<close> (\<open>response.json()\<close> of the tests, and \<open>json.loads(stdout)\<close> of
  \<open>test_data_stack.py\<close> line 64). The decoder follows the C accelerator of
  \<open>Modules/_json.c\<close>: \<open>scanstring_unicode\<close>, \<open>scan_once_unicode\<close>,
  \<open>_parse_array_unicode\<close>, \<open>_parse_object_unicode\<close> and \<open>_match_number_unicode\<close>;
  every \<open>JSONDecodeError\<close> is \<open>None\<close>. A number with a fraction or an exponent is kept as
  the text it was written with (\<open>JFloat\<close>): the rounding of \<open>float()\<close> is not modelled,
  and the root theory compares a float through the real number its text denotes. Objects keep
  all their pairs in order; lookups take the last, as a \<open>dict\<close> does.

  The decoder's recursion is bounded by fuel: every level of nesting and every further
  element of an array or object spends one unit, each after consuming at least one
  character, so \<open>json_loads\<close> gives the scanner the length of the text plus one.
  The lemmas show the roundtrip \<open>json_loads (json_dumps ...) = Some v\<close> for every value
  whose strings are Unicode scalar values and whose float texts are JSON number literals,
  under both configurations the program uses.
\<close>

section \<open>Definitions: the encoder\<close>

text \<open>Lower-case hexadecimal digit and the escape \<open>\uXXXX\<close> of a code point below
  \<open>0x10000\<close>.\<close>

definition hex_digit :: "nat \<Rightarrow> nat" where
  "hex_digit d = (if d < 10 then 48 + d else 87 + d)"

definition u_escape :: "nat \<Rightarrow> pystr" where
  "u_escape n =
     [92, 117, hex_digit (n div 4096 mod 16), hex_digit (n div 256 mod 16),
      hex_digit (n div 16 mod 16), hex_digit (n mod 16)]"

text \<open>One character of a string literal: \<open>ESCAPE_DCT\<close> for the quote, the backslash and
  the control characters; with \<open>ensure_ascii\<close> everything outside \<open>' '..'~'\<close> as
  \<open>\uXXXX\<close>, above \<open>0xFFFF\<close> as a surrogate pair.\<close>

definition json_escape_char :: "bool \<Rightarrow> nat \<Rightarrow> pystr" where
  "json_escape_char ensure_ascii c =
     (if c = 34 then [92, 34]
      else if c = 92 then [92, 92]
      else if c = 8 then [92, 98]
      else if c = 12 then [92, 102]
      else if c = 10 then [92, 110]
      else if c = 13 then [92, 114]
      else if c = 9 then [92, 116]
      else if c < 32 then u_escape c
      else if ensure_ascii \<and> 126 < c then
        (if c < 0x10000 then u_escape c
         else u_escape (0xD800 + (c - 0x10000) div 1024) @ u_escape (0xDC00 + (c - 0x10000) mod 1024))
      else [c])"

definition json_encode_str :: "bool \<Rightarrow> pystr \<Rightarrow> pystr" where
  "json_encode_str ensure_ascii s = [34] @ concat (map (json_escape_char ensure_ascii) s) @ [34]"

text \<open>\<open>json.dumps(v, ensure_ascii=..., separators=(item_sep, key_sep))\<close>.\<close>

fun json_dumps :: "bool \<Rightarrow> pystr \<Rightarrow> pystr \<Rightarrow> json \<Rightarrow> pystr" where
  "json_dumps ea isep ksep JNull = pystr_lit ''null''"
| "json_dumps ea isep ksep (JBool b) = (if b then pystr_lit ''true'' else pystr_lit ''false'')"
| "json_dumps ea isep ksep (JInt i) = pystr_lit (py_str_int i)"
| "json_dumps ea isep ksep (JFloat t) = t"
| "json_dumps ea isep ksep (JStr s) = json_encode_str ea s"
| "json_dumps ea isep ksep (JArray xs) = [91] @ py_join isep (map (json_dumps ea isep ksep) xs) @ [93]"
| "json_dumps ea isep ksep (JObject kvs) =
     [123] @ py_join isep (map (\<lambda>(k, v). json_encode_str ea k @ ksep @ json_dumps ea isep ksep v) kvs) @ [125]"

section \<open>Definitions: the decoder\<close>

definition json_ws :: "nat \<Rightarrow> bool" where
  "json_ws c \<longleftrightarrow> c = 32 \<or> c = 9 \<or> c = 10 \<or> c = 13"

definition skip_ws :: "pystr \<Rightarrow> pystr" where
  "skip_ws s = dropWhile json_ws s"

definition hex_val :: "nat \<Rightarrow> nat option" where
  "hex_val c =
     (if 48 \<le> c \<and> c \<le> 57 then Some (c - 48)
      else if 97 \<le> c \<and> c \<le> 102 then Some (c - 87)
      else if 65 \<le> c \<and> c \<le> 70 then Some (c - 55)
      else None)"

text \<open>Four hex digits, as the loop \<open>Decode 4 hex digits\<close> reads them.\<close>

definition hex4 :: "pystr \<Rightarrow> nat option" where
  "hex4 s =
     (if length s < 4 then None
      else (case (hex_val (s ! 0), hex_val (s ! 1), hex_val (s ! 2), hex_val (s ! 3)) of
              (Some a, Some b, Some c, Some d) \<Rightarrow> Some (((a * 16 + b) * 16 + c) * 16 + d)
            | _ \<Rightarrow> None))"

definition simple_escape :: "nat \<Rightarrow> nat option" where
  "simple_escape e =
     (if e = 34 then Some 34 else if e = 92 then Some 92 else if e = 47 then Some 47
      else if e = 98 then Some 8 else if e = 102 then Some 12 else if e = 110 then Some 10
      else if e = 114 then Some 13 else if e = 116 then Some 9 else None)"

definition is_high_surrogate :: "nat \<Rightarrow> bool" where
  "is_high_surrogate c \<longleftrightarrow> 0xD800 \<le> c \<and> c \<le> 0xDBFF"

definition is_low_surrogate :: "nat \<Rightarrow> bool" where
  "is_low_surrogate c \<longleftrightarrow> 0xDC00 \<le> c \<and> c \<le> 0xDFFF"

definition join_surrogates :: "nat \<Rightarrow> nat \<Rightarrow> nat" where
  "join_surrogates h l = 0x10000 + (h - 0xD800) * 1024 + (l - 0xDC00)"

text \<open>\<open>scanstring_unicode\<close> with \<open>strict=True\<close>, after the opening quote: the text up to
  the closing quote and what follows it. A control character, an unknown escape, a bad
  \<open>\uXXXX\<close> or the end of the input is an error; a high surrogate escape followed by a
  low one is joined.\<close>

fun scanstring :: "pystr \<Rightarrow> pystr \<Rightarrow> (pystr \<times> pystr) option" where
  "scanstring acc [] = None"
| "scanstring acc (c # r) =
     (if c = 34 then Some (acc, r)
      else if c = 92 then
        (case r of
           [] \<Rightarrow> None
         | e # r' \<Rightarrow>
             if e = 117 then
               (case hex4 r' of
                  None \<Rightarrow> None
                | Some h \<Rightarrow>
                    if is_high_surrogate h \<and> take 2 (drop 4 r') = [92, 117] then
                      (case hex4 (drop 6 r') of
                         None \<Rightarrow> None
                       | Some l \<Rightarrow>
                           if is_low_surrogate l then scanstring (acc @ [join_surrogates h l]) (drop 10 r')
                           else scanstring (acc @ [h]) (drop 4 r'))
                    else scanstring (acc @ [h]) (drop 4 r'))
             else (case simple_escape e of
                     None \<Rightarrow> None
                   | Some ch \<Rightarrow> scanstring (acc @ [ch]) r'))
      else if c < 32 then None
      else scanstring (acc @ [c]) r)"

definition is_dig :: "nat \<Rightarrow> bool" where
  "is_dig c \<longleftrightarrow> 48 \<le> c \<and> c \<le> 57"

text \<open>\<open>_match_number_unicode\<close>, split as the C code is: an optional minus, the integer
  digits (no leading zero), a fraction only when a digit follows the dot, an exponent
  only when a digit follows \<open>e\<close> and its sign (else it backtracks).\<close>

definition num_int_part :: "pystr \<Rightarrow> (pystr \<times> pystr) option" where
  "num_int_part s =
     (case s of
        [] \<Rightarrow> None
      | c # r \<Rightarrow>
          if 49 \<le> c \<and> c \<le> 57 then Some (c # takeWhile is_dig r, dropWhile is_dig r)
          else if c = 48 then Some ([48], r)
          else None)"

definition num_frac :: "pystr \<Rightarrow> pystr \<times> pystr" where
  "num_frac s =
     (case s of
        p # d # r \<Rightarrow>
          if p = 46 \<and> is_dig d then (p # d # takeWhile is_dig r, dropWhile is_dig r) else ([], s)
      | _ \<Rightarrow> ([], s))"

definition num_exp :: "pystr \<Rightarrow> pystr \<times> pystr" where
  "num_exp s =
     (case s of
        e # r \<Rightarrow>
          if (e = 101 \<or> e = 69) \<and> r \<noteq> [] then
            (let (sg, r1) = (case r of x # r2 \<Rightarrow> if (x = 45 \<or> x = 43) \<and> r2 \<noteq> [] then ([x], r2) else ([], r)
                                    | [] \<Rightarrow> ([], r));
                 ds = takeWhile is_dig r1
             in if ds = [] then ([], s) else (e # sg @ ds, dropWhile is_dig r1))
          else ([], s)
      | [] \<Rightarrow> ([], s))"

text \<open>The value of an integer literal: \<open>int()\<close> of its digits.\<close>

definition digits_int :: "pystr \<Rightarrow> int" where
  "digits_int ds = foldl (\<lambda>a c. a * 10 + (int c - 48)) 0 ds"

definition match_number :: "pystr \<Rightarrow> (json \<times> pystr) option" where
  "match_number s =
     (let (sg, s1) = (case s of c # r \<Rightarrow> if c = 45 then ([45], r) else ([], s) | [] \<Rightarrow> ([], s))
      in case num_int_part s1 of
           None \<Rightarrow> None
         | Some (ip, r1) \<Rightarrow>
             (let (fr, r2) = num_frac r1;
                  (ex, r3) = num_exp r2
              in if fr = [] \<and> ex = [] then
                   Some (JInt (if sg = [] then digits_int ip else - digits_int ip), r3)
                 else Some (JFloat (sg @ ip @ fr @ ex), r3)))"

text \<open>\<open>scan_once_unicode\<close>, \<open>_parse_array_unicode\<close> (after \<open>[\<close> and the whitespace, on
  a non-empty array) and \<open>_parse_object_unicode\<close> (likewise after \<open>{\<close>), with fuel.\<close>

fun scan_once :: "nat \<Rightarrow> pystr \<Rightarrow> (json \<times> pystr) option"
and parse_array :: "nat \<Rightarrow> json list \<Rightarrow> pystr \<Rightarrow> (json \<times> pystr) option"
and parse_object :: "nat \<Rightarrow> (pystr \<times> json) list \<Rightarrow> pystr \<Rightarrow> (json \<times> pystr) option" where
  "scan_once 0 s = None"
| "scan_once (Suc n) [] = None"
| "scan_once (Suc n) (c # r) =
     (if c = 34 then (case scanstring [] r of None \<Rightarrow> None | Some (t, r') \<Rightarrow> Some (JStr t, r'))
      else if c = 123 then
        (if take 1 (skip_ws r) = [125] then Some (JObject [], drop 1 (skip_ws r))
         else parse_object n [] (skip_ws r))
      else if c = 91 then
        (if take 1 (skip_ws r) = [93] then Some (JArray [], drop 1 (skip_ws r))
         else parse_array n [] (skip_ws r))
      else if c = 110 \<and> take 3 r = pystr_lit ''ull'' then Some (JNull, drop 3 r)
      else if c = 116 \<and> take 3 r = pystr_lit ''rue'' then Some (JBool True, drop 3 r)
      else if c = 102 \<and> take 4 r = pystr_lit ''alse'' then Some (JBool False, drop 4 r)
      else if c = 78 \<and> take 2 r = pystr_lit ''aN'' then Some (JFloat (pystr_lit ''NaN''), drop 2 r)
      else if c = 73 \<and> take 7 r = pystr_lit ''nfinity'' then Some (JFloat (pystr_lit ''Infinity''), drop 7 r)
      else if c = 45 \<and> take 8 r = pystr_lit ''Infinity'' then Some (JFloat (pystr_lit ''-Infinity''), drop 8 r)
      else match_number (c # r))"
| "parse_array n acc s =
     (case scan_once n s of
        None \<Rightarrow> None
      | Some (v, r) \<Rightarrow>
          (case skip_ws r of
             [] \<Rightarrow> None
           | d # r' \<Rightarrow>
               if d = 93 then Some (JArray (acc @ [v]), r')
               else if d = 44 then
                 (case n of 0 \<Rightarrow> None | Suc m \<Rightarrow> parse_array m (acc @ [v]) (skip_ws r'))
               else None))"
| "parse_object n acc s =
     (case s of
        [] \<Rightarrow> None
      | q # r \<Rightarrow>
          if q \<noteq> 34 then None
          else
            (case scanstring [] r of
               None \<Rightarrow> None
             | Some (k, r1) \<Rightarrow>
                 (case skip_ws r1 of
                    [] \<Rightarrow> None
                  | d # r2 \<Rightarrow>
                      if d \<noteq> 58 then None
                      else
                        (case scan_once n (skip_ws r2) of
                           None \<Rightarrow> None
                         | Some (v, r3) \<Rightarrow>
                             (case skip_ws r3 of
                                [] \<Rightarrow> None
                              | e # r4 \<Rightarrow>
                                  if e = 125 then Some (JObject (acc @ [(k, v)]), r4)
                                  else if e = 44 then
                                    (case n of 0 \<Rightarrow> None
                                     | Suc m \<Rightarrow> parse_object m (acc @ [(k, v)]) (skip_ws r4))
                                  else None)))))"

text \<open>\<open>json.loads\<close>: leading whitespace, one value, trailing whitespace, nothing else
  (\<open>Extra data\<close> otherwise).\<close>

definition json_loads :: "pystr \<Rightarrow> json option" where
  "json_loads s =
     (case scan_once (length s + 1) (skip_ws s) of
        None \<Rightarrow> None
      | Some (v, r) \<Rightarrow> if skip_ws r = [] then Some v else None)"

section \<open>Definitions: the roundtrip conditions\<close>

text \<open>The texts a \<open>JFloat\<close> may carry: the three constants \<open>json.dumps\<close> writes for
  non-finite floats, and the number literals \<open>_match_number_unicode\<close> reads as floats.
  A value is well formed when its floats are such texts and its strings (keys included)
  are Unicode scalar values; \<open>json_need\<close> is the fuel its scan spends; \<open>sep_ok\<close> says a
  separator is the delimiter between optional whitespace; \<open>json_stop\<close> says what may
  follow a value without extending it.\<close>

definition json_float_text :: "pystr \<Rightarrow> bool" where
  "json_float_text t \<longleftrightarrow>
     t = pystr_lit ''NaN'' \<or> t = pystr_lit ''Infinity'' \<or> t = pystr_lit ''-Infinity'' \<or>
     match_number t = Some (JFloat t, [])"

fun json_wf :: "json \<Rightarrow> bool" where
  "json_wf (JStr s) = list_all scalar_value s"
| "json_wf (JFloat t) = json_float_text t"
| "json_wf (JArray xs) = list_all json_wf xs"
| "json_wf (JObject kvs) = list_all (\<lambda>(k, v). list_all scalar_value k \<and> json_wf v) kvs"
| "json_wf _ = True"

fun json_need :: "json \<Rightarrow> nat" where
  "json_need (JArray xs) = Suc (sum_list (map json_need xs))"
| "json_need (JObject kvs) = Suc (sum_list (map (\<lambda>(k, v). json_need v) kvs))"
| "json_need _ = 1"

definition sep_ok :: "nat \<Rightarrow> pystr \<Rightarrow> bool" where
  "sep_ok x sep \<longleftrightarrow> skip_ws sep \<noteq> [] \<and> hd (skip_ws sep) = x \<and> list_all json_ws (tl (skip_ws sep))"

definition json_stop :: "pystr \<Rightarrow> bool" where
  "json_stop r \<longleftrightarrow> r = [] \<or> json_ws (hd r) \<or> hd r = 44 \<or> hd r = 93 \<or> hd r = 125"

text \<open>What the guest of \<open>test_numpy_pandas_matplotlib_stack\<close> prints, for a figure of
  17466 bytes.\<close>

definition demo_json :: json where
  "demo_json =
     JObject [(pystr_lit ''summary'', JObject [(pystr_lit ''shape'', JArray [JInt 3, JInt 2]),
                                              (pystr_lit ''x_mean'', JFloat (pystr_lit ''2.0'')),
                                              (pystr_lit ''y_total'', JFloat (pystr_lit ''9.0''))]),
              (pystr_lit ''png_bytes'', JInt 17466)]"

section \<open>Definitions: the response on the wire\<close>

text \<open>\<open>ExecuteResponse\<close> (schemas.py lines 12--17) as the framework serialises it: an
  object with the fields in their declared order, \<open>None\<close> as \<open>null\<close>.\<close>

definition response_json :: "execution_result \<Rightarrow> json" where
  "response_json r =
     JObject [(pystr_lit ''stdout'', JStr (er_stdout r)), (pystr_lit ''stderr'', JStr (er_stderr r)),
              (pystr_lit ''exit_code'', (case er_exit_code r of None \<Rightarrow> JNull | Some c \<Rightarrow> JInt c)),
              (pystr_lit ''timed_out'', JBool (er_timed_out r)),
              (pystr_lit ''duration_ms'', JInt (er_duration_ms r))]"

text \<open>The body: Starlette's \<open>JSONResponse.render\<close>, \<open>json.dumps(content,
  ensure_ascii=False, separators=(",", ":"))\<close>.\<close>

definition response_body :: "execution_result \<Rightarrow> pystr" where
  "response_body r = json_dumps False [44] [58] (response_json r)"

text \<open>\<open>payload[key]\<close> on what \<open>json.loads\<close> returned: a lookup in an object, a
  \<open>KeyError\<close> or \<open>TypeError\<close> (\<open>None\<close>) otherwise.\<close>

definition json_get :: "json \<Rightarrow> string \<Rightarrow> json option" where
  "json_get v k = (case v of JObject kvs \<Rightarrow> json_lookup kvs k | _ \<Rightarrow> None)"

section \<open>The roundtrip\<close>

subsection \<open>Escapes and strings\<close>

lemma hex_val_digit [simp]: "d < 16 \<Longrightarrow> hex_val (hex_digit d) = Some d"
  by (auto simp: hex_val_def hex_digit_def)

lemma hex_digit_not_special: "d < 16 \<Longrightarrow> hex_digit d \<noteq> 34 \<and> hex_digit d \<noteq> 92"
  by (auto simp: hex_digit_def)

lemma hex_value_16: "(n :: nat) < 65536 \<Longrightarrow>
  ((n div 4096 mod 16 * 16 + n div 256 mod 16) * 16 + n div 16 mod 16) * 16 + n mod 16 = n"
proof -
  assume "n < 65536"
  then have s: "n div 4096 mod 16 = n div 4096" by simp
  have a: "n div 256 div 16 = n div 4096" by (simp add: div_mult2_eq [symmetric])
  have b: "n div 16 div 16 = n div 256" by (simp add: div_mult2_eq [symmetric])
  have e1: "n div 4096 * 16 + n div 256 mod 16 = n div 256"
    using div_mult_mod_eq [of "n div 256" 16] unfolding a .
  have e2: "n div 256 * 16 + n div 16 mod 16 = n div 16"
    using div_mult_mod_eq [of "n div 16" 16] unfolding b .
  have e3: "n div 16 * 16 + n mod 16 = n" by (rule div_mult_mod_eq)
  show ?thesis unfolding s by (simp only: e1 e2 e3)
qed

lemma hex4_digits:
  "a < 16 \<Longrightarrow> b < 16 \<Longrightarrow> c < 16 \<Longrightarrow> d < 16 \<Longrightarrow>
   hex4 (hex_digit a # hex_digit b # hex_digit c # hex_digit d # xs) = Some (((a * 16 + b) * 16 + c) * 16 + d)"
  by (simp add: hex4_def)

lemma hex4_u_escape: "n < 65536 \<Longrightarrow> hex4 (drop 2 (u_escape n) @ xs) = Some n"
proof -
  assume n: "n < 65536"
  have "hex4 (drop 2 (u_escape n) @ xs) =
     Some (((n div 4096 mod 16 * 16 + n div 256 mod 16) * 16 + n div 16 mod 16) * 16 + n mod 16)"
    unfolding u_escape_def by (simp only: numeral_2_eq_2 drop_Suc_Cons drop_0 append_Cons append_Nil) (rule hex4_digits; simp)
  also have "\<dots> = Some n" by (simp only: hex_value_16 [OF n])
  finally show ?thesis .
qed

lemma u_escape_split: "u_escape n @ xs = 92 # 117 # (drop 2 (u_escape n) @ xs)"
  by (simp add: u_escape_def)

lemma u_escape_length [simp]: "length (u_escape n) = 6"
  by (simp add: u_escape_def)

lemma scanstring_u_escape:
  assumes "n < 65536" and "\<not> is_high_surrogate n"
  shows "scanstring acc (u_escape n @ xs) = scanstring (acc @ [n]) xs"
  using assms by (simp add: u_escape_split hex4_u_escape)

lemma scanstring_u_pair:
  assumes "0x10000 \<le> c" and "c < 0x110000"
  shows "scanstring acc (u_escape (0xD800 + (c - 0x10000) div 1024) @ u_escape (0xDC00 + (c - 0x10000) mod 1024) @ xs) =
           scanstring (acc @ [c]) xs"
proof -
  let ?h = "0xD800 + (c - 0x10000) div 1024" and ?l = "0xDC00 + (c - 0x10000) mod 1024"
  have h: "?h < 65536" "is_high_surrogate ?h" using assms by (auto simp: is_high_surrogate_def)
  have l: "?l < 65536" "is_low_surrogate ?l" by (auto simp: is_low_surrogate_def)
  have j: "join_surrogates ?h ?l = c" using assms by (simp add: join_surrogates_def)
  let ?r = "drop 2 (u_escape ?h) @ u_escape ?l @ xs"
  have "take 2 (drop 4 ?r) = [92, 117]" by (simp add: u_escape_split)
  moreover have "drop 6 ?r = drop 2 (u_escape ?l) @ xs" by (simp add: u_escape_split)
  moreover have "drop 10 ?r = xs" by (simp add: u_escape_split)
  ultimately show ?thesis
    using h l j by (simp add: u_escape_split [of ?h] hex4_u_escape)
qed

lemma scanstring_escape_char:
  assumes "scalar_value c"
  shows "scanstring acc (json_escape_char ea c @ xs) = scanstring (acc @ [c]) xs"
proof -
  have sv: "c < 0x110000" "c < 0xD800 \<or> 0xDFFF < c" using assms by (auto simp: scalar_value_iff)
  show ?thesis
  proof (cases "c < 32 \<or> (ea \<and> 126 < c)")
    case True
    then show ?thesis using sv
      by (auto simp: json_escape_char_def scanstring_u_escape scanstring_u_pair is_high_surrogate_def
          simple_escape_def)
  next
    case False
    then show ?thesis by (auto simp: json_escape_char_def simple_escape_def)
  qed
qed

lemma scanstring_encode:
  "list_all scalar_value s \<Longrightarrow>
   scanstring acc (concat (map (json_escape_char ea) s) @ 34 # xs) = Some (acc @ s, xs)"
proof (induction s arbitrary: acc)
  case (Cons c s)
  then show ?case using scanstring_escape_char [of c acc ea] by simp
qed simp

lemma takeWhile_all: "\<forall>x \<in> set r. P x \<Longrightarrow> takeWhile P r = r"
  by (simp add: takeWhile_eq_all_conv)

lemma json_stop_cases:
  "json_stop r \<Longrightarrow> r = [] \<or> (\<exists>x xs. r = x # xs \<and> \<not> is_dig x \<and> x \<noteq> 46 \<and> x \<noteq> 101 \<and> x \<noteq> 69 \<and>
     x \<noteq> 45 \<and> x \<noteq> 43)"
  by (cases r) (auto simp: json_stop_def json_ws_def is_dig_def)

lemma takeWhile_stop: "json_stop r \<Longrightarrow> takeWhile is_dig r = [] \<and> dropWhile is_dig r = r"
  using json_stop_cases [of r] by auto

lemma num_int_part_append:
  assumes "num_int_part s = Some (ip, r1)" and "json_stop rest"
  shows "num_int_part (s @ rest) = Some (ip, r1 @ rest)"
proof (cases s)
  case (Cons c r)
  show ?thesis
  proof (cases "dropWhile is_dig r = []")
    case True
    then have "\<forall>x \<in> set r. is_dig x" by (simp add: dropWhile_eq_Nil_conv)
    then show ?thesis using assms Cons True takeWhile_stop [OF assms(2)]
      by (auto simp: num_int_part_def takeWhile_append2 dropWhile_append2 split: if_splits)
        (metis takeWhile_eq_all_conv)
  next
    case False
    then obtain x where "x \<in> set r" "\<not> is_dig x"
      by (metis dropWhile_eq_Nil_conv)
    then show ?thesis using assms Cons
      by (auto simp: num_int_part_def takeWhile_append1 dropWhile_append1 split: if_splits)
  qed
qed (use assms in \<open>simp add: num_int_part_def\<close>)

lemma num_exp_stop: "json_stop r \<Longrightarrow> num_exp r = ([], r)"
  using json_stop_cases [of r] by (auto simp: num_exp_def)

lemma num_frac_stop: "json_stop r \<Longrightarrow> num_frac r = ([], r)"
  using json_stop_cases [of r] by (auto simp: num_frac_def split: list.splits)

lemma num_exp_append:
  assumes "num_exp r2 = (ex, [])" and "json_stop rest"
  shows "num_exp (r2 @ rest) = (ex, rest)"
proof (cases r2)
  case Nil
  then show ?thesis using assms num_exp_stop [OF assms(2)] by (simp add: num_exp_def)
next
  case (Cons e r)
  have tw: "takeWhile is_dig rest = [] \<and> dropWhile is_dig rest = rest" by (rule takeWhile_stop [OF assms(2)])
  have all: "\<And>r1. dropWhile is_dig r1 = [] \<Longrightarrow> takeWhile is_dig (r1 @ rest) = r1 \<and> dropWhile is_dig (r1 @ rest) = rest"
    using tw by (simp add: dropWhile_eq_Nil_conv takeWhile_append2 dropWhile_append2 takeWhile_eq_all_conv)
  show ?thesis
  proof (cases r)
    case Nil
    then show ?thesis using assms Cons by (simp add: num_exp_def)
  next
    case (Cons x r')
    show ?thesis
    proof (cases "(x = 45 \<or> x = 43) \<and> r' \<noteq> []")
      case True
      then show ?thesis using assms \<open>r2 = e # r\<close> Cons all [of r']
        by (auto simp: num_exp_def Let_def takeWhile_all split: if_splits)
    next
      case False
      then show ?thesis using assms \<open>r2 = e # r\<close> Cons all [of r] tw
        by (auto simp: num_exp_def Let_def takeWhile_all is_dig_def split: if_splits)
    qed
  qed
qed

lemma num_exp_single: "num_exp [p] = ([], [p])"
  by (simp add: num_exp_def)

lemma num_frac_append:
  assumes "num_frac r1 = (fr, r2)" and "num_exp r2 = (ex, [])" and "json_stop rest"
  shows "num_frac (r1 @ rest) = (fr, r2 @ rest)"
proof (cases r1)
  case Nil
  then show ?thesis using assms num_frac_stop [OF assms(3)] by (simp add: num_frac_def)
next
  case (Cons p r1')
  show ?thesis
  proof (cases r1')
    case Nil
    then show ?thesis using assms Cons num_exp_single [of p] by (simp add: num_frac_def)
  next
    case (Cons d r)
    have tw: "takeWhile is_dig rest = [] \<and> dropWhile is_dig rest = rest" by (rule takeWhile_stop [OF assms(3)])
    show ?thesis
    proof (cases "dropWhile is_dig r = []")
      case True
      then have "\<forall>x \<in> set r. is_dig x" by (simp add: dropWhile_eq_Nil_conv)
      then show ?thesis using assms \<open>r1 = p # r1'\<close> Cons tw True
        by (auto simp: num_frac_def takeWhile_append2 dropWhile_append2 takeWhile_all split: if_splits)
    next
      case False
      then obtain x where "x \<in> set r" "\<not> is_dig x" by (metis dropWhile_eq_Nil_conv)
      then show ?thesis using assms \<open>r1 = p # r1'\<close> Cons
        by (auto simp: num_frac_def takeWhile_append1 dropWhile_append1 split: if_splits)
    qed
  qed
qed

lemma match_number_append:
  assumes "match_number s = Some (v, [])" and "json_stop rest"
  shows "match_number (s @ rest) = Some (v, rest)"
proof -
  define sg s1 where "sg = (case s of c # r \<Rightarrow> if c = 45 then [45 :: nat] else [] | [] \<Rightarrow> [])"
    and "s1 = (case s of c # r \<Rightarrow> if c = 45 then r else s | [] \<Rightarrow> s)"
  obtain ip r1 where ip: "num_int_part s1 = Some (ip, r1)"
    using assms(1) by (auto simp: match_number_def sg_def s1_def split: list.splits if_splits option.splits)
  obtain fr r2 where fr: "num_frac r1 = (fr, r2)" by fastforce
  obtain ex r3 where ex: "num_exp r2 = (ex, r3)" by fastforce
  have r3: "r3 = []"
    using assms(1) ip fr ex by (auto simp: match_number_def sg_def s1_def split: list.splits if_splits)
  have s_ne: "s \<noteq> []" using ip by (auto simp: s1_def num_int_part_def)
  have split1: "(case s @ rest of c # r \<Rightarrow> if c = 45 then ([45 :: nat], r) else ([], s @ rest) | [] \<Rightarrow> ([], s @ rest)) =
                (sg, s1 @ rest)"
    using s_ne by (cases s) (auto simp: sg_def s1_def)
  have "num_int_part (s1 @ rest) = Some (ip, r1 @ rest)" by (rule num_int_part_append [OF ip assms(2)])
  moreover have "num_frac (r1 @ rest) = (fr, r2 @ rest)"
    using num_frac_append [OF fr _ assms(2)] ex r3 by simp
  moreover have "num_exp (r2 @ rest) = (ex, rest)" using num_exp_append [of r2 ex rest] ex r3 assms(2) by simp
  moreover have "(case s of c # r \<Rightarrow> if c = 45 then ([45 :: nat], r) else ([], s) | [] \<Rightarrow> ([], s)) = (sg, s1)"
    by (cases s) (auto simp: sg_def s1_def)
  ultimately show ?thesis using assms(1) ip fr ex r3 split1
    by (auto simp: match_number_def split: if_splits)
qed

lemma of_char_digit_char: "d < 10 \<Longrightarrow> (of_char (digit_char d) :: nat) = 48 + d"
  by (simp add: digit_char_def of_char_of)

lemma nat_str_codes:
  "\<exists>d ds. pystr_lit (nat_str m) = d # ds \<and> list_all is_dig (d # ds) \<and> (0 < m \<longrightarrow> d \<noteq> 48)"
proof (induction m rule: nat_str.induct)
  case (1 m)
  show ?case
  proof (cases "m < 10")
    case True
    then show ?thesis by (simp add: of_char_digit_char is_dig_def)
  next
    case False
    then have "0 < m div 10" by simp
    then show ?thesis using 1 False by (auto simp: nat_str_big of_char_digit_char is_dig_def)
  qed
qed

lemma num_int_part_nat_str: "num_int_part (pystr_lit (nat_str m)) = Some (pystr_lit (nat_str m), [])"
proof (cases "m = 0")
  case True
  then show ?thesis by (simp add: num_int_part_def of_char_digit_char)
next
  case False
  obtain d ds where d: "pystr_lit (nat_str m) = d # ds" "list_all is_dig (d # ds)" "d \<noteq> 48"
    using nat_str_codes [of m] False by auto
  then show ?thesis
    by (auto simp: num_int_part_def takeWhile_all list_all_iff dropWhile_eq_Nil_conv is_dig_def)
qed

lemma digits_int_nat_str: "digits_int (pystr_lit (nat_str m)) = int m"
  using nat_str_value [of 0 m] by (simp add: digits_int_def foldl_map digit_value_def)

lemma match_number_py_str_int: "match_number (pystr_lit (py_str_int i)) = Some (JInt i, [])"
proof -
  obtain d ds where d: "pystr_lit (nat_str (nat \<bar>i\<bar>)) = d # ds" "is_dig d"
    using nat_str_codes [of "nat \<bar>i\<bar>"] by auto
  then have "d \<noteq> 45" by (auto simp: is_dig_def)
  then show ?thesis using d num_int_part_nat_str [of "nat \<bar>i\<bar>"] digits_int_nat_str [of "nat \<bar>i\<bar>"]
    by (cases "i < 0") (simp_all add: py_str_int_def match_number_def num_frac_def num_exp_def)
qed

lemma json_need_pos: "1 \<le> json_need j"
  by (cases j) auto

lemma skip_ws_nonws: "\<not> json_ws c \<Longrightarrow> skip_ws (c # cs) = c # cs"
  by (simp add: skip_ws_def)

lemma skip_ws_ws: "list_all json_ws w \<Longrightarrow> skip_ws (w @ t) = skip_ws t"
  by (induction w) (auto simp: skip_ws_def)

lemma skip_ws_sep:
  assumes "sep_ok x sep"
  shows "skip_ws (sep @ t) = x # (tl (skip_ws sep) @ t)"
proof -
  obtain y where "y \<in> set sep" "\<not> json_ws y"
    using assms by (auto simp: sep_ok_def skip_ws_def dropWhile_eq_Nil_conv)
  then have "skip_ws (sep @ t) = skip_ws sep @ t" by (simp add: skip_ws_def dropWhile_append1)
  then show ?thesis using assms by (cases "skip_ws sep") (auto simp: sep_ok_def)
qed

lemma sep_ok_stop: "sep_ok 44 sep \<Longrightarrow> json_stop (sep @ t)"
  by (cases sep) (auto simp: sep_ok_def skip_ws_def json_stop_def split: if_splits)

lemma num_int_part_Some: "num_int_part s \<noteq> None \<Longrightarrow> \<exists>c r. s = c # r \<and> is_dig c"
  by (auto simp: num_int_part_def is_dig_def split: list.splits if_splits)

lemma match_number_first:
  assumes "match_number s = Some v"
  shows "\<exists>c r. s = c # r \<and> (is_dig c \<or> (c = 45 \<and> r \<noteq> [] \<and> is_dig (hd r)))"
proof (cases s)
  case Nil
  then show ?thesis using assms by (simp add: match_number_def num_int_part_def)
next
  case (Cons c r)
  show ?thesis
  proof (cases "c = 45")
    case True
    then have "num_int_part r \<noteq> None" using assms Cons by (auto simp: match_number_def split: option.splits)
    then show ?thesis using Cons True num_int_part_Some [of r] by auto
  next
    case False
    then have "num_int_part (c # r) \<noteq> None" using assms Cons by (auto simp: match_number_def split: option.splits)
    then show ?thesis using Cons num_int_part_Some [of "c # r"] by auto
  qed
qed

lemma scan_once_digit: "is_dig c \<Longrightarrow> scan_once (Suc n) (c # r) = match_number (c # r)"
  by (simp add: is_dig_def)

lemma scan_once_minus: "is_dig d \<Longrightarrow> scan_once (Suc n) (45 # d # r) = match_number (45 # d # r)"
  by (simp add: is_dig_def)

lemma scan_once_match:
  assumes "match_number s = Some (v, [])" and "json_stop rest"
  shows "scan_once (Suc n) (s @ rest) = Some (v, rest)"
proof -
  obtain c r where cr: "s = c # r" and d: "is_dig c \<or> (c = 45 \<and> r \<noteq> [] \<and> is_dig (hd r))"
    using match_number_first [OF assms(1)] by blast
  have m: "match_number (s @ rest) = Some (v, rest)" by (rule match_number_append [OF assms])
  show ?thesis
  proof (cases "is_dig c")
    case True
    then show ?thesis using m cr scan_once_digit [of c n "r @ rest"] by simp
  next
    case False
    then obtain d r' where "r = d # r'" "c = 45" "is_dig d" using d by (cases r) auto
    then show ?thesis using m cr scan_once_minus [of d n "r' @ rest"] by simp
  qed
qed

lemma scan_once_float:
  assumes "json_float_text t" and "json_stop rest"
  shows "scan_once (Suc n) (t @ rest) = Some (JFloat t, rest)"
  using assms scan_once_match [of t "JFloat t" rest n] by (auto simp: json_float_text_def)

lemma first_not_ws:
  "match_number s = Some v \<Longrightarrow> \<exists>c cs. s = c # cs \<and> \<not> json_ws c \<and> c \<noteq> 93 \<and> c \<noteq> 125"
  by (drule match_number_first) (auto simp: is_dig_def json_ws_def)

lemma dumps_hd:
  "json_wf j \<Longrightarrow> \<exists>c cs. json_dumps ea isep ksep j = c # cs \<and> \<not> json_ws c \<and> c \<noteq> 93 \<and> c \<noteq> 125"
proof (cases j)
  case (JInt i)
  then show ?thesis using first_not_ws [OF match_number_py_str_int [of i]] by simp
next
  case (JFloat t)
  assume "json_wf j"
  then have "json_float_text t" using JFloat by simp
  then show ?thesis using JFloat first_not_ws [of t]
    by (auto simp: json_float_text_def json_ws_def)
qed (auto simp: json_ws_def json_encode_str_def)

lemma py_join_Cons: "py_join sep (a # l) = a @ (if l = [] then [] else sep @ py_join sep l)"
  by (cases l) simp_all

lemma skip_ws_dumps:
  "json_wf j \<Longrightarrow> skip_ws (json_dumps ea isep ksep j @ t) = json_dumps ea isep ksep j @ t"
  using dumps_hd [of j ea isep ksep] by (auto simp: skip_ws_nonws)

lemma parse_array_dumps:
  assumes "\<forall>x \<in> set xs. \<forall>n rest. json_need x \<le> n \<longrightarrow> json_stop rest \<longrightarrow>
             scan_once n (json_dumps ea isep ksep x @ rest) = Some (x, rest)"
    and "list_all json_wf xs" and "xs \<noteq> []" and "sep_ok 44 isep"
    and "sum_list (map json_need xs) \<le> n"
  shows "parse_array n acc (py_join isep (map (json_dumps ea isep ksep) xs) @ 93 # rest) =
           Some (JArray (acc @ xs), rest)"
  using assms
proof (induction xs arbitrary: n acc)
  case (Cons x xs')
  have sx: "\<And>rest. json_stop rest \<Longrightarrow> scan_once n (json_dumps ea isep ksep x @ rest) = Some (x, rest)"
    using Cons.prems(1,5) by auto
  show ?case
  proof (cases xs')
    case Nil
    have "json_stop (93 # rest)" by (simp add: json_stop_def)
    then show ?thesis using sx [of "93 # rest"] Nil by (simp add: skip_ws_nonws json_ws_def)
  next
    case (Cons y zs)
    let ?T = "py_join isep (map (json_dumps ea isep ksep) xs') @ 93 # rest"
    have st: "json_stop (isep @ ?T)" by (rule sep_ok_stop [OF Cons.prems(4)])
    have sk: "skip_ws (isep @ ?T) = 44 # (tl (skip_ws isep) @ ?T)" by (rule skip_ws_sep [OF Cons.prems(4)])
    have ws: "list_all json_ws (tl (skip_ws isep))" using Cons.prems(4) by (simp add: sep_ok_def)
    have T: "skip_ws ?T = ?T"
      using Cons Cons.prems(2) skip_ws_dumps [of y ea isep ksep] by (simp add: py_join_Cons)
    obtain m where m: "n = Suc m" "sum_list (map json_need xs') \<le> m"
      using Cons.prems(5) json_need_pos [of x] json_need_pos [of y] Cons by (cases n) auto
    have "parse_array m (acc @ [x]) ?T = Some (JArray (acc @ [x] @ xs'), rest)"
      using Cons.IH [of m "acc @ [x]"] Cons.prems(1,2,4) m(2) Cons by simp
    then show ?thesis
      using sx [OF st] sk T ws m(1) Cons by (simp add: skip_ws_ws py_join_Cons)
  qed
qed simp

lemma parse_member:
  assumes "list_all scalar_value k" and "json_wf v" and "sep_ok 58 ksep"
    and "scan_once n (json_dumps ea isep ksep v @ R) = Some (v, R)"
  shows "parse_object n acc ((json_encode_str ea k @ ksep @ json_dumps ea isep ksep v) @ R) =
    (case skip_ws R of [] \<Rightarrow> None
     | e # r4 \<Rightarrow> if e = 125 then Some (JObject (acc @ [(k, v)]), r4)
                else if e = 44 then (case n of 0 \<Rightarrow> None | Suc m \<Rightarrow> parse_object m (acc @ [(k, v)]) (skip_ws r4))
                else None)"
proof -
  have k: "scanstring [] (concat (map (json_escape_char ea) k) @ 34 # (ksep @ json_dumps ea isep ksep v @ R)) =
      Some (k, ksep @ json_dumps ea isep ksep v @ R)"
    using scanstring_encode [OF assms(1), of "[]" ea] by simp
  have sk: "skip_ws (ksep @ json_dumps ea isep ksep v @ R) = 58 # (tl (skip_ws ksep) @ json_dumps ea isep ksep v @ R)"
    by (rule skip_ws_sep [OF assms(3)])
  have ws: "list_all json_ws (tl (skip_ws ksep))" using assms(3) by (simp add: sep_ok_def)
  have v: "skip_ws (tl (skip_ws ksep) @ json_dumps ea isep ksep v @ R) = json_dumps ea isep ksep v @ R"
    using skip_ws_ws [OF ws] skip_ws_dumps [OF assms(2)] by simp
  show ?thesis using k sk v assms(4) by (simp add: json_encode_str_def)
qed

lemma parse_object_dumps:
  assumes "\<forall>(k, v) \<in> set kvs. \<forall>n rest. json_need v \<le> n \<longrightarrow> json_stop rest \<longrightarrow>
             scan_once n (json_dumps ea isep ksep v @ rest) = Some (v, rest)"
    and "list_all (\<lambda>(k, v). list_all scalar_value k \<and> json_wf v) kvs" and "kvs \<noteq> []"
    and "sep_ok 44 isep" and "sep_ok 58 ksep"
    and "sum_list (map (\<lambda>(k, v). json_need v) kvs) \<le> n"
  shows "parse_object n acc
           (py_join isep (map (\<lambda>(k, v). json_encode_str ea k @ ksep @ json_dumps ea isep ksep v) kvs) @ 125 # rest) =
         Some (JObject (acc @ kvs), rest)"
  using assms
proof (induction kvs arbitrary: n acc)
  case (Cons kv kvs')
  obtain k v where kv: "kv = (k, v)" by fastforce
  have wk: "list_all scalar_value k" "json_wf v" using Cons.prems(2) kv by auto
  have sv: "\<And>R. json_stop R \<Longrightarrow> scan_once n (json_dumps ea isep ksep v @ R) = Some (v, R)"
    using Cons.prems(1,6) kv by auto
  show ?case
  proof (cases kvs')
    case Nil
    have "json_stop (125 # rest)" by (simp add: json_stop_def)
    then show ?thesis using parse_member [OF wk Cons.prems(5) sv, of "125 # rest" acc] kv Nil
      by (simp add: skip_ws_nonws json_ws_def)
  next
    case (Cons kv2 zs)
    obtain k2 v2 where kv2: "kv2 = (k2, v2)" by fastforce
    let ?T = "py_join isep (map (\<lambda>(k, v). json_encode_str ea k @ ksep @ json_dumps ea isep ksep v) kvs') @ 125 # rest"
    have st: "json_stop (isep @ ?T)" by (rule sep_ok_stop [OF Cons.prems(4)])
    have sk: "skip_ws (isep @ ?T) = 44 # (tl (skip_ws isep) @ ?T)" by (rule skip_ws_sep [OF Cons.prems(4)])
    have ws: "list_all json_ws (tl (skip_ws isep))" using Cons.prems(4) by (simp add: sep_ok_def)
    have T: "skip_ws ?T = ?T"
      using Cons kv2 by (simp add: py_join_Cons json_encode_str_def skip_ws_nonws json_ws_def)
    obtain m where m: "n = Suc m" "sum_list (map (\<lambda>(k, v). json_need v) kvs') \<le> m"
      using Cons.prems(6) json_need_pos [of v] json_need_pos [of v2] Cons kv kv2 by (cases n) auto
    have "parse_object m (acc @ [(k, v)]) ?T = Some (JObject (acc @ [(k, v)] @ kvs'), rest)"
      using Cons.IH [of m "acc @ [(k, v)]"] Cons.prems(1,2,4,5) m(2) Cons by simp
    then show ?thesis
      using parse_member [OF wk Cons.prems(5) sv [OF st], of acc] sk T ws m(1) Cons kv
      by (simp add: skip_ws_ws py_join_Cons)
  qed
qed simp

lemma scan_once_dumps:
  "json_wf j \<Longrightarrow> sep_ok 44 isep \<Longrightarrow> sep_ok 58 ksep \<Longrightarrow> json_need j \<le> n \<Longrightarrow> json_stop rest \<Longrightarrow>
   scan_once n (json_dumps ea isep ksep j @ rest) = Some (j, rest)"
proof (induction j arbitrary: n rest)
  case JNull
  then show ?case by (cases n) auto
next
  case (JBool b)
  then show ?case by (cases n; cases b) auto
next
  case (JInt i)
  then obtain m where "n = Suc m" by (cases n) auto
  then show ?case using scan_once_match [OF match_number_py_str_int JInt.prems(5)] by simp
next
  case (JFloat t)
  then obtain m where "n = Suc m" by (cases n) auto
  then show ?case using scan_once_float [of t rest m] JFloat.prems by simp
next
  case (JStr s)
  then obtain m where "n = Suc m" by (cases n) auto
  then show ?case using scanstring_encode [of s "[]" ea rest] JStr.prems(1)
    by (simp add: json_encode_str_def)
next
  case (JArray xs)
  then obtain m where m: "n = Suc m" "sum_list (map json_need xs) \<le> m" by (cases n) auto
  show ?case
  proof (cases xs)
    case Nil
    then show ?thesis using m by (simp add: skip_ws_nonws json_ws_def)
  next
    case (Cons x xs')
    let ?S = "py_join isep (map (json_dumps ea isep ksep) xs) @ 93 # rest"
    obtain c cs where c: "json_dumps ea isep ksep x = c # cs" "\<not> json_ws c" "c \<noteq> 93"
      using dumps_hd [of x ea isep ksep] JArray.prems(1) Cons by auto
    have S: "skip_ws ?S = ?S" "take 1 ?S \<noteq> [93]" using c Cons by (simp_all add: py_join_Cons skip_ws_nonws)
    have "parse_array m [] ?S = Some (JArray xs, rest)"
      using parse_array_dumps [of xs ea isep ksep m "[]" rest] JArray.IH JArray.prems m(2) Cons
      by (simp add: list_all_iff)
    then show ?thesis using S m(1) by simp
  qed
next
  case (JObject kvs)
  then obtain m where m: "n = Suc m" "sum_list (map (\<lambda>(k, v). json_need v) kvs) \<le> m" by (cases n) auto
  show ?case
  proof (cases kvs)
    case Nil
    then show ?thesis using m by (simp add: skip_ws_nonws json_ws_def)
  next
    case (Cons kv kvs')
    let ?S = "py_join isep (map (\<lambda>(k, v). json_encode_str ea k @ ksep @ json_dumps ea isep ksep v) kvs) @ 125 # rest"
    have S: "skip_ws ?S = ?S" "take 1 ?S \<noteq> [125]"
      using Cons by (auto simp: py_join_Cons skip_ws_nonws json_encode_str_def json_ws_def split: prod.splits)
    have IH: "\<forall>(k, v) \<in> set kvs. \<forall>n rest. json_need v \<le> n \<longrightarrow> json_stop rest \<longrightarrow>
             scan_once n (json_dumps ea isep ksep v @ rest) = Some (v, rest)"
      using JObject.IH JObject.prems(1-3) by (fastforce simp: list_all_iff)
    have "parse_object m [] ?S = Some (JObject kvs, rest)"
      using parse_object_dumps [OF IH, of m "[]" rest] JObject.prems m(2) Cons by simp
    then show ?thesis using S m(1) by simp
  qed
qed

lemma length_py_join: "sum_list (map length xss) \<le> length (py_join sep xss)"
  by (induction sep xss rule: py_join.induct) simp_all

lemma json_need_le_length: "json_wf j \<Longrightarrow> json_need j \<le> length (json_dumps ea isep ksep j)"
proof (induction j)
  case (JArray xs)
  have "sum_list (map json_need xs) \<le> sum_list (map (length \<circ> json_dumps ea isep ksep) xs)"
    using JArray by (intro sum_list_mono) (auto simp: list_all_iff)
  also have "\<dots> \<le> length (py_join isep (map (json_dumps ea isep ksep) xs))"
    using length_py_join [of "map (json_dumps ea isep ksep) xs" isep] by (simp add: comp_def)
  finally show ?case by simp
next
  case (JObject kvs)
  let ?m = "\<lambda>(k, v). json_encode_str ea k @ ksep @ json_dumps ea isep ksep v"
  have "sum_list (map (\<lambda>(k, v). json_need v) kvs) \<le> sum_list (map (length \<circ> ?m) kvs)"
    using JObject by (intro sum_list_mono) (fastforce simp: list_all_iff)
  also have "\<dots> \<le> length (py_join isep (map ?m kvs))"
    using length_py_join [of "map ?m kvs" isep] by (simp add: comp_def)
  finally show ?case by simp
qed (use dumps_hd in \<open>fastforce simp: json_encode_str_def\<close>)+

lemma scan_dumps_complete:
  assumes "json_wf v" and "sep_ok 44 isep" and "sep_ok 58 ksep"
  shows "scan_once (length (json_dumps ea isep ksep v) + 1) (json_dumps ea isep ksep v) = Some (v, [])"
proof -
  have "json_need v \<le> length (json_dumps ea isep ksep v) + 1"
    using json_need_le_length [OF assms(1), of ea isep ksep] by simp
  from scan_once_dumps [OF assms this, of "[]"] show ?thesis by (simp add: json_stop_def)
qed

section \<open>The characters the encoder writes\<close>

text \<open>Every character \<open>json.dumps\<close> writes for a well-formed value is a Unicode
  scalar value other than U+0000, and the first one is ASCII: escapes, digits and
  punctuation are ASCII, and a string's own characters pass only from U+0020 on.\<close>

lemma hex_digit_ascii: "d < 16 \<Longrightarrow> 0 < hex_digit d \<and> hex_digit d < 128"
  by (simp add: hex_digit_def)
lemma u_escape_ascii: "list_all (\<lambda>x. 0 < x \<and> x < 128) (u_escape n)"
  by (simp add: u_escape_def hex_digit_ascii)
lemma json_escape_char_set:
  "set (json_escape_char ea c) \<subseteq> {x. 0 < x \<and> x < 128} \<union> {x. x = c \<and> 32 \<le> c}"
  using u_escape_ascii by (auto simp: json_escape_char_def list_all_iff)
lemma json_encode_str_chars:
  "list_all scalar_value s \<Longrightarrow> list_all (\<lambda>x. 0 < x \<and> scalar_value x) (json_encode_str ea s)"
  using json_escape_char_set [of ea] by (fastforce simp: json_encode_str_def scalar_value_iff list_all_iff)
lemma nat_str_ascii: "list_all (\<lambda>x. 0 < x \<and> x < 128) (pystr_lit (nat_str m))"
proof -
  obtain d ds where "pystr_lit (nat_str m) = d # ds" "list_all is_dig (d # ds)"
    using nat_str_codes [of m] by auto
  then show ?thesis by (auto simp: list_all_iff is_dig_def)
qed

lemma py_str_int_ascii: "list_all (\<lambda>x. 0 < x \<and> x < 128) (pystr_lit (py_str_int i))"
  using nat_str_ascii by (simp add: py_str_int_def)

lemma takeWhile_dig_ascii: "list_all (\<lambda>x. 0 < x \<and> x < 128) (takeWhile is_dig r)"
  by (auto simp: list_all_iff is_dig_def dest: set_takeWhileD)

lemma num_int_part_ascii: "num_int_part s = Some (ip, r) \<Longrightarrow> list_all (\<lambda>x. 0 < x \<and> x < 128) ip"
  using takeWhile_dig_ascii unfolding num_int_part_def
  by (cases s) (auto split: if_splits)

lemma num_frac_ascii: "num_frac s = (fr, r) \<Longrightarrow> list_all (\<lambda>x. 0 < x \<and> x < 128) fr"
  using takeWhile_dig_ascii unfolding num_frac_def
  by (cases s rule: remdups_adj.cases) (auto simp: is_dig_def split: if_splits)

lemma num_exp_sign:
  "(case r of x # r2 \<Rightarrow> if (x = 45 \<or> x = 43) \<and> r2 \<noteq> [] then ([x], r2) else ([], r)
              | [] \<Rightarrow> ([], r)) = (sg :: pystr, r1) \<Longrightarrow> list_all (\<lambda>x. 0 < x \<and> x < 128) sg"
  by (cases r) (auto split: if_splits)

lemma num_exp_ascii: "num_exp s = (ex, r) \<Longrightarrow> list_all (\<lambda>x. 0 < x \<and> x < 128) ex"
proof (cases s)
  case (Cons e r0)
  obtain sg r1 where sg: "(case r0 of x # r2 \<Rightarrow> if (x = 45 \<or> x = 43) \<and> r2 \<noteq> [] then ([x], r2) else ([], r0)
              | [] \<Rightarrow> ([], r0)) = (sg, r1)" by fastforce
  assume "num_exp s = (ex, r)"
  then show ?thesis
    using Cons sg num_exp_sign [OF sg] takeWhile_dig_ascii [of r1]
    by (auto simp: num_exp_def Let_def split: if_splits)
qed (simp add: num_exp_def)

lemma match_number_float_ascii:
  assumes "match_number s = Some (JFloat t, r)"
  shows "list_all (\<lambda>x. 0 < x \<and> x < 128) t"
proof -
  obtain sg s1 where sg: "(case s of c # r \<Rightarrow> if c = 45 then ([45], r) else ([], s) | [] \<Rightarrow> ([], s)) = (sg :: pystr, s1)"
    by fastforce
  have sga: "list_all (\<lambda>x. 0 < x \<and> x < 128) sg" using sg by (cases s) (auto split: if_splits)
  obtain ip r1 where ip: "num_int_part s1 = Some (ip, r1)"
    using assms sg by (auto simp: match_number_def split: option.splits)
  obtain fr r2 where fr: "num_frac r1 = (fr, r2)" by fastforce
  obtain ex r3 where ex: "num_exp r2 = (ex, r3)" by fastforce
  have "t = sg @ ip @ fr @ ex"
    using assms sg ip fr ex by (auto simp: match_number_def split: if_splits)
  then show ?thesis
    using sga num_int_part_ascii [OF ip] num_frac_ascii [OF fr] num_exp_ascii [OF ex] by simp
qed

lemma json_float_text_ascii: "json_float_text t \<Longrightarrow> list_all (\<lambda>x. 0 < x \<and> x < 128) t"
  by (auto simp: json_float_text_def dest: match_number_float_ascii)

lemma ascii_text_scalar:
  "list_all (\<lambda>x. 0 < x \<and> x < 128) t \<Longrightarrow> list_all (\<lambda>x. 0 < x \<and> scalar_value x) t"
  by (auto simp: list_all_iff scalar_value_iff)

lemma json_dumps_chars:
  assumes "json_wf v" "list_all (\<lambda>x. 0 < x \<and> scalar_value x) isep"
    "list_all (\<lambda>x. 0 < x \<and> scalar_value x) ksep"
  shows "list_all (\<lambda>x. 0 < x \<and> scalar_value x) (json_dumps ea isep ksep v)"
  using assms
proof (induction ea isep ksep v rule: json_dumps.induct)
  case (3 ea isep ksep i)
  then show ?case using py_str_int_ascii [of i, THEN ascii_text_scalar] by simp
next
  case (4 ea isep ksep t)
  then show ?case using json_float_text_ascii [THEN ascii_text_scalar] by simp
next
  case (5 ea isep ksep s)
  then show ?case using json_encode_str_chars by simp
next
  case (6 ea isep ksep xs)
  have "list_all (\<lambda>x. 0 < x \<and> scalar_value x) (py_join isep (map (json_dumps ea isep ksep) xs))"
    using 6 by (intro list_all_py_join) (auto simp: list_all_iff)
  then show ?case by (simp add: scalar_value_iff)
next
  case (7 ea isep ksep kvs)
  have "list_all (\<lambda>x. 0 < x \<and> scalar_value x)
          (py_join isep (map (\<lambda>(k, v). json_encode_str ea k @ ksep @ json_dumps ea isep ksep v) kvs))"
  proof (intro list_all_py_join ballI)
    fix x assume "x \<in> set (map (\<lambda>(k, v). json_encode_str ea k @ ksep @ json_dumps ea isep ksep v) kvs)"
    then obtain k v where kv: "(k, v) \<in> set kvs"
      "x = json_encode_str ea k @ ksep @ json_dumps ea isep ksep v" by auto
    have "list_all scalar_value k" "json_wf v" using "7.prems"(1) kv(1) by (auto simp: list_all_iff)
    then show "list_all (\<lambda>x. 0 < x \<and> scalar_value x) x"
      using "7.IH" [OF kv(1) refl] "7.prems"(2,3) json_encode_str_chars [of k ea] kv(2) by simp
  qed (use "7.prems" in simp)
  then show ?case by (simp add: scalar_value_iff)
qed (simp_all add: scalar_value_iff)
lemma json_dumps_hd_ascii:
  assumes "json_wf v"
  shows "\<exists>c cs. json_dumps ea isep ksep v = c # cs \<and> c < 128"
proof -
  obtain c cs where cs: "json_dumps ea isep ksep v = c # cs" using dumps_hd [OF assms] by blast
  have "c < 128"
  proof (cases v)
    case (JInt i)
    then show ?thesis using py_str_int_ascii [of i] cs by simp
  next
    case (JFloat t)
    then show ?thesis using json_float_text_ascii [of t] assms cs by simp
  qed (use cs in \<open>auto simp: json_encode_str_def split: if_splits\<close>)
  then show ?thesis using cs by blast
qed

text \<open>The read-back of a written value, shared by the properties below.\<close>

lemma json_loads_dumps:
  assumes "json_wf v" and "sep_ok 44 isep" and "sep_ok 58 ksep"
  shows "json_loads (json_dumps ea isep ksep v) = Some v"
  using scan_dumps_complete [OF assms, of ea] skip_ws_dumps [OF assms(1), of ea isep ksep "[]"]
  by (simp add: json_loads_def skip_ws_def)




section \<open>The response read back\<close>

lemma response_body_loads:
  assumes "list_all scalar_value (er_stdout r)" and "list_all scalar_value (er_stderr r)"
  shows "json_loads (response_body r) = Some (response_json r)"
proof -
  have w: "json_wf (response_json r)"
    using assms by (simp add: response_json_def scalar_value_iff split: option.split)
  have s: "sep_ok 44 [44]" "sep_ok 58 [58]" by (simp_all add: sep_ok_def skip_ws_def json_ws_def)
  show ?thesis using json_loads_dumps [OF w s, of False] by (simp add: response_body_def)
qed

end
