(* ===== verification/Http.thy ===== *)
theory Http
  imports App Json
begin

text \<open>
  The request body on its way from the test client to the endpoint \<open>execute\<close> of
  \<open>src/app/api/routes.py\<close> (lines 13--14, \<open>req: ExecuteRequest\<close>). The tests call
  \<open>client.post("/v1/execute", json=...)\<close> (\<open>src/tests/test_hello_world.py\<close> lines
  47--55, \<open>src/tests/test_data_stack.py\<close>); httpx writes the value with \<open>json.dumps\<close>
  (compact and without \<open>ensure_ascii\<close> from version 0.28, with the defaults before) and
  encodes it as UTF-8. FastAPI reads the bytes before the endpoint runs: an empty body is a
  missing body; with no content type, or one whose main type is \<open>application\<close> and whose
  subtype is \<open>json\<close> or ends in \<open>+json\<close> (as \<open>email.message\<close> parses it), the bytes go
  through \<open>json.loads\<close>, otherwise they are validated as bytes. \<open>json.loads\<close> on bytes
  picks the encoding with \<open>json.detect_encoding\<close> and decodes with the error handler
  \<open>surrogatepass\<close>; a \<open>UnicodeDecodeError\<close> is the framework's 400, a
  \<open>JSONDecodeError\<close> its 422 \<open>json_invalid\<close>.

  The lemmas show that every well-formed value the client can send reaches the endpoint
  as the same value, under both httpx encodings, and that the application served over
  bytes answers on \<open>/v1/execute\<close> as the parsed-body application of theory \<open>App\<close>.
\<close>

section \<open>Definitions: the content type\<close>

text \<open>\<open>str.lower()\<close> on the Latin-1 characters of a header value.\<close>

definition py_lower_char :: "char \<Rightarrow> char" where
  "py_lower_char c =
     (let n = (of_char c :: nat) in
      if (65 \<le> n \<and> n \<le> 90) \<or> (192 \<le> n \<and> n \<le> 222 \<and> n \<noteq> 215) then char_of (n + 32) else c)"

definition py_lower :: "string \<Rightarrow> string" where
  "py_lower s = map py_lower_char s"

text \<open>\<open>Message.get_content_type()\<close> of a \<open>Content-Type\<close> value: the part before the
  first \<open>;\<close>, stripped and lower-cased, or \<open>text/plain\<close> unless it has exactly one \<open>/\<close>.\<close>

definition content_type :: "string \<Rightarrow> string" where
  "content_type v =
     (let ct = py_lower (py_strip (takeWhile (\<lambda>c. c \<noteq> CHR '';'') v))
      in if length (filter (\<lambda>c. c = CHR ''/'') ct) = 1 then ct else ''text/plain'')"

text \<open>The test of FastAPI's request handler: main type \<open>application\<close>, subtype \<open>json\<close>
  or ending in \<open>+json\<close>.\<close>

definition json_content_type :: "string \<Rightarrow> bool" where
  "json_content_type v =
     (let ct = content_type v;
          main = takeWhile (\<lambda>c. c \<noteq> CHR ''/'') ct;
          sub = drop 1 (dropWhile (\<lambda>c. c \<noteq> CHR ''/'') ct)
      in main = ''application'' \<and> (sub = ''json'' \<or> endswith sub ''+json''))"

section \<open>Definitions: \<open>json.loads\<close> on bytes\<close>

datatype text_encoding = EncUtf8 | EncUtf8Sig | EncUtf16 | EncUtf16BE | EncUtf16LE
  | EncUtf32 | EncUtf32BE | EncUtf32LE

text \<open>\<open>json.detect_encoding\<close>: the byte-order marks, then the pattern of zero bytes at
  the start of the text.\<close>

definition detect_encoding :: "byte list \<Rightarrow> text_encoding" where
  "detect_encoding b =
     (if take 4 b = [0, 0, 0xFE, 0xFF] \<or> take 4 b = [0xFF, 0xFE, 0, 0] then EncUtf32
      else if take 2 b = [0xFE, 0xFF] \<or> take 2 b = [0xFF, 0xFE] then EncUtf16
      else if take 3 b = [0xEF, 0xBB, 0xBF] then EncUtf8Sig
      else if 4 \<le> length b then
        (if b ! 0 = 0 then (if b ! 1 \<noteq> 0 then EncUtf16BE else EncUtf32BE)
         else if b ! 1 = 0 then (if b ! 2 \<noteq> 0 \<or> b ! 3 \<noteq> 0 then EncUtf16LE else EncUtf32LE)
         else EncUtf8)
      else if length b = 2 then
        (if b ! 0 = 0 then EncUtf16BE else if b ! 1 = 0 then EncUtf16LE else EncUtf8)
      else EncUtf8)"

text \<open>\<open>bytes.decode("utf-8", "surrogatepass")\<close>: the strict decoder, except that a
  three-byte form \<open>ED A0..BF 80..BF\<close> of a surrogate, where the strict decoder fails at
  the lead byte, is decoded to the surrogate. \<open>None\<close> is the \<open>UnicodeDecodeError\<close>.\<close>

fun utf8_decode_surrogatepass :: "byte list \<Rightarrow> pystr option" where
  "utf8_decode_surrogatepass [] = Some []"
| "utf8_decode_surrogatepass (b # bs) =
     (case utf8_next b bs of
        (Some c, n) \<Rightarrow> map_option (Cons c) (utf8_decode_surrogatepass (drop n bs))
      | (None, n) \<Rightarrow>
          (case bs of
             c1 # c2 # rest \<Rightarrow>
               if unat b = 0xED \<and> 0xA0 \<le> unat c1 \<and> unat c1 \<le> 0xBF \<and> 0x80 \<le> unat c2 \<and> unat c2 \<le> 0xBF
               then map_option (Cons (0xD000 + (unat c1 - 0x80) * 64 + (unat c2 - 0x80)))
                      (utf8_decode_surrogatepass rest)
               else None
           | _ \<Rightarrow> None))"

text \<open>The 16-bit units of UTF-16 in either byte order; an odd byte at the end is the
  error \<open>truncated data\<close>.\<close>

fun utf16_units :: "bool \<Rightarrow> byte list \<Rightarrow> nat list option" where
  "utf16_units be [] = Some []"
| "utf16_units be [b] = None"
| "utf16_units be (b1 # b2 # bs) =
     map_option (Cons (if be then unat b1 * 256 + unat b2 else unat b2 * 256 + unat b1))
       (utf16_units be bs)"

text \<open>UTF-16 with \<open>surrogatepass\<close>: a high surrogate followed by a low one is joined,
  any other surrogate unit passes as itself.\<close>

fun utf16_join :: "nat list \<Rightarrow> pystr" where
  "utf16_join [] = []"
| "utf16_join [u] = [u]"
| "utf16_join (u # v # us) =
     (if is_high_surrogate u \<and> is_low_surrogate v then join_surrogates u v # utf16_join us
      else u # utf16_join (v # us))"

text \<open>UTF-32 in either byte order with \<open>surrogatepass\<close>: a unit above \<open>U+10FFFF\<close> and an
  incomplete unit at the end are errors.\<close>

fun utf32_decode :: "bool \<Rightarrow> byte list \<Rightarrow> pystr option" where
  "utf32_decode be [] = Some []"
| "utf32_decode be (b1 # b2 # b3 # b4 # bs) =
     (let u = (if be then ((unat b1 * 256 + unat b2) * 256 + unat b3) * 256 + unat b4
               else ((unat b4 * 256 + unat b3) * 256 + unat b2) * 256 + unat b1)
      in if u < 0x110000 then map_option (Cons u) (utf32_decode be bs) else None)"
| "utf32_decode be _ = None"

text \<open>\<open>bytes.decode(encoding, "surrogatepass")\<close> for the encodings \<open>detect_encoding\<close>
  returns; \<open>utf-8-sig\<close>, \<open>utf-16\<close> and \<open>utf-32\<close> read and drop a byte-order mark,
  which \<open>detect_encoding\<close> has seen.\<close>

definition decode_surrogatepass :: "text_encoding \<Rightarrow> byte list \<Rightarrow> pystr option" where
  "decode_surrogatepass enc b =
     (case enc of
        EncUtf8 \<Rightarrow> utf8_decode_surrogatepass b
      | EncUtf8Sig \<Rightarrow> utf8_decode_surrogatepass (if take 3 b = [0xEF, 0xBB, 0xBF] then drop 3 b else b)
      | EncUtf16 \<Rightarrow> map_option utf16_join (utf16_units (take 2 b = [0xFE, 0xFF]) (drop 2 b))
      | EncUtf16BE \<Rightarrow> map_option utf16_join (utf16_units True b)
      | EncUtf16LE \<Rightarrow> map_option utf16_join (utf16_units False b)
      | EncUtf32 \<Rightarrow> utf32_decode (take 4 b = [0, 0, 0xFE, 0xFF]) (drop 4 b)
      | EncUtf32BE \<Rightarrow> utf32_decode True b
      | EncUtf32LE \<Rightarrow> utf32_decode False b)"

text \<open>The two exceptions \<open>json.loads\<close> raises on bytes.\<close>

datatype load_error = LoadUnicodeDecodeError | LoadJSONDecodeError

definition json_loads_bytes :: "byte list \<Rightarrow> load_error + json" where
  "json_loads_bytes b =
     (case decode_surrogatepass (detect_encoding b) b of
        None \<Rightarrow> Inl LoadUnicodeDecodeError
      | Some s \<Rightarrow> (case json_loads s of None \<Rightarrow> Inl LoadJSONDecodeError | Some v \<Rightarrow> Inr v))"

section \<open>Definitions: the body and the endpoint\<close>

text \<open>The body FastAPI hands to the validation: none, a JSON value, or the raw bytes.\<close>

datatype request_body = BodyAbsent | BodyJson json | BodyRaw "byte list"

text \<open>The body reading of FastAPI's request handler, before the endpoint: an error
  response or the body.\<close>

definition read_body :: "string option \<Rightarrow> byte list \<Rightarrow> http_response + request_body" where
  "read_body ct b =
     (if b = [] then Inr BodyAbsent
      else if (case ct of None \<Rightarrow> True | Some v \<Rightarrow> v = [] \<or> json_content_type v) then
        (case json_loads_bytes b of
           Inl LoadUnicodeDecodeError \<Rightarrow> Inl (RespError 400 ''There was an error parsing the body'')
         | Inl LoadJSONDecodeError \<Rightarrow> Inl (RespInvalid [JsonInvalid])
         | Inr v \<Rightarrow> Inr (BodyJson v))
      else Inr (BodyRaw b))"

text \<open>The endpoint \<open>execute\<close> on the bytes of the request: a missing body is
  pydantic's \<open>missing\<close>, raw bytes are not a model.\<close>

definition execute_endpoint_http ::
  "env \<Rightarrow> run_fn \<Rightarrow> app_state \<Rightarrow> string option \<Rightarrow> byte list \<Rightarrow> http_response \<times> app_state" where
  "execute_endpoint_http environ run st ct b =
     (case read_body ct b of
        Inl resp \<Rightarrow> (resp, st)
      | Inr BodyAbsent \<Rightarrow> (RespInvalid [FieldMissing ''body''], st)
      | Inr (BodyRaw _) \<Rightarrow> (RespInvalid [FieldType ''body''], st)
      | Inr (BodyJson v) \<Rightarrow> execute_endpoint environ run st v)"

text \<open>A request to the served \<open>app\<close> with its content type and body bytes.\<close>

definition app_call_http ::
  "env \<Rightarrow> run_fn \<Rightarrow> app_state \<Rightarrow> http_method \<Rightarrow> string \<Rightarrow> string option \<Rightarrow> byte list \<Rightarrow>
   app_response \<times> app_state" where
  "app_call_http environ run st m s ct b =
     app_serve (\<lambda>st. execute_endpoint_http environ run st ct b) st m s"

section \<open>Definitions: the test client\<close>

text \<open>A float \<open>json.dumps\<close> writes as \<open>NaN\<close> or \<open>Infinity\<close>.\<close>

fun json_nonfinite :: "json \<Rightarrow> bool" where
  "json_nonfinite (JFloat t) \<longleftrightarrow>
     t = pystr_lit ''NaN'' \<or> t = pystr_lit ''Infinity'' \<or> t = pystr_lit ''-Infinity''"
| "json_nonfinite (JArray xs) \<longleftrightarrow> list_ex json_nonfinite xs"
| "json_nonfinite (JObject kvs) \<longleftrightarrow> list_ex (\<lambda>(k, v). json_nonfinite v) kvs"
| "json_nonfinite _ \<longleftrightarrow> False"

text \<open>httpx's \<open>json=\<close> body: \<open>httpx_new\<close> is httpx 0.28 and later
  (\<open>ensure_ascii=False, separators=(",", ":"), allow_nan=False\<close>, which raises on a
  non-finite float), otherwise the defaults of \<open>json.dumps\<close>; then
  \<open>.encode("utf-8")\<close>. \<open>None\<close> is the exception the client raises.\<close>

definition httpx_json_body :: "bool \<Rightarrow> json \<Rightarrow> byte list option" where
  "httpx_json_body httpx_new v =
     (if httpx_new \<and> json_nonfinite v then None
      else (case utf8_encode (if httpx_new then json_dumps False [44] [58] v
                              else json_dumps True (pystr_lit '', '') (pystr_lit '': '') v) of
              Inl e \<Rightarrow> None
            | Inr b \<Rightarrow> Some b))"

text \<open>\<open>client.post(path, json=payload)\<close> of the tests' \<open>TestClient\<close>: the body, the
  header \<open>Content-Type: application/json\<close>, the application's response. \<open>None\<close> when the
  client raises or the answer is not one of the program's responses (a documentation page
  or a redirect, neither of which \<open>/v1/execute\<close> produces).\<close>

definition client_post ::
  "bool \<Rightarrow> env \<Rightarrow> run_fn \<Rightarrow> app_state \<Rightarrow> string \<Rightarrow> json \<Rightarrow> http_response option" where
  "client_post httpx_new environ run st path payload =
     (case httpx_json_body httpx_new payload of
        None \<Rightarrow> None
      | Some body \<Rightarrow>
          (case fst (app_call_http environ run st POST path (Some ''application/json'') body) of
             ApiResponse r \<Rightarrow> Some r
           | _ \<Rightarrow> None))"

section \<open>The client's bytes read back\<close>

lemma detect_encoding_utf8:
  assumes "b \<noteq> []" "unat (hd b) < 0x80" "0 \<notin> set b"
  shows "detect_encoding b = EncUtf8"
proof -
  obtain x xs where b: "b = x # xs" using assms(1) by (cases b) auto
  have x: "x \<noteq> 0" "x \<noteq> 0xFF" "x \<noteq> 0xFE" "x \<noteq> 0xEF" using assms(2,3) b by auto
  have "xs \<noteq> [] \<Longrightarrow> hd xs \<noteq> 0" using assms(3) b by (cases xs) auto
  then show ?thesis using x b
    by (cases xs) (auto simp: detect_encoding_def)
qed

lemma utf8_decode_surrogatepass_encode:
  "list_all scalar_value t \<Longrightarrow>
   utf8_decode_surrogatepass (concat (map utf8_encode_cp t) @ rest) =
     map_option ((@) t) (utf8_decode_surrogatepass rest)"
proof (induction t)
  case (Cons c t)
  then have "scalar_value c" by simp
  from utf8_next_encode_cp [OF this, of "concat (map utf8_encode_cp t) @ rest"] Cons
  show ?case by (cases "utf8_encode_cp c") (simp_all add: option.map_comp comp_def)
qed (cases "utf8_decode_surrogatepass rest", simp_all)

lemma httpx_json_body_loads:
  assumes "json_wf v" and "\<not> (httpx_new \<and> json_nonfinite v)"
  shows "\<exists>b. httpx_json_body httpx_new v = Some b \<and> b \<noteq> [] \<and> json_loads_bytes b = Inr v"
proof -
  define t where "t = (if httpx_new then json_dumps False [44] [58] v
                       else json_dumps True (pystr_lit '', '') (pystr_lit '': '') v)"
  have ps: "list_all (\<lambda>x. 0 < x \<and> scalar_value x) [44]" "list_all (\<lambda>x. 0 < x \<and> scalar_value x) [58]"
    "list_all (\<lambda>x. 0 < x \<and> scalar_value x) (pystr_lit '', '')"
    "list_all (\<lambda>x. 0 < x \<and> scalar_value x) (pystr_lit '': '')"
    by (simp_all add: scalar_value_iff)
  have so: "sep_ok 44 [44]" "sep_ok 58 [58]" "sep_ok 44 (pystr_lit '', '')" "sep_ok 58 (pystr_lit '': '')"
    by (simp_all add: sep_ok_def skip_ws_def json_ws_def)
  have ch: "list_all (\<lambda>x. 0 < x \<and> scalar_value x) t"
    using json_dumps_chars [OF assms(1)] ps by (simp add: t_def)
  have ld: "json_loads t = Some v"
    using json_loads_dumps [OF assms(1)] so by (simp add: t_def)
  have "\<exists>c cs. t = c # cs \<and> c < 128"
    using json_dumps_hd_ascii [OF assms(1)] by (cases httpx_new) (simp_all add: t_def)
  then obtain c cs where tc: "t = c # cs" "c < 128" by blast
  let ?b = "concat (map utf8_encode_cp t)"
  have sc: "list_all scalar_value t" using ch by (simp add: list_all_iff)
  have hb: "httpx_json_body httpx_new v = Some ?b"
    using assms(2) utf8_encode_scalar [OF sc] by (simp add: httpx_json_body_def t_def)
  have hd: "?b = of_nat c # concat (map utf8_encode_cp cs)"
    using tc by (simp add: utf8_encode_cp_ascii)
  have z: "0 \<notin> set ?b" using ch utf8_encode_cp_nonzero by (auto simp: list_all_iff)
  have det: "detect_encoding ?b = EncUtf8"
    using detect_encoding_utf8 [of ?b] hd z tc(2) by (simp add: unat_byte_of_nat)
  have dec: "utf8_decode_surrogatepass ?b = Some t"
    using utf8_decode_surrogatepass_encode [OF sc, of "[]"] by simp
  show ?thesis using hb hd det dec ld
    by (simp add: json_loads_bytes_def decode_surrogatepass_def)
qed

lemma json_content_type_json: "json_content_type ''application/json''"
  by (simp add: json_content_type_def content_type_def py_lower_def py_lower_char_def py_strip_def py_isspace_def)

lemma app_call_http_json:
  "read_body ct b = Inr (BodyJson v) \<Longrightarrow> app_call_http environ run st m s ct b = app_call environ run st m s v"
  by (simp add: app_call_http_def app_call_def execute_endpoint_http_def)

lemma client_body_read:
  assumes "json_wf v" and "\<not> (httpx_new \<and> json_nonfinite v)"
  shows "\<exists>b. httpx_json_body httpx_new v = Some b \<and> read_body (Some ''application/json'') b = Inr (BodyJson v)"
proof -
  obtain b where b: "httpx_json_body httpx_new v = Some b" "b \<noteq> []" "json_loads_bytes b = Inr v"
    using httpx_json_body_loads [OF assms] by blast
  then have "read_body (Some ''application/json'') b = Inr (BodyJson v)"
    using json_content_type_json by (simp add: read_body_def)
  then show ?thesis using b(1) by blast
qed

text \<open>What the tests' \<open>client.post("/v1/execute", json=payload)\<close> returns is the
  endpoint's answer on the payload.\<close>

lemma client_post_execute:
  assumes "json_wf v" and "\<not> (httpx_new \<and> json_nonfinite v)"
  shows "client_post httpx_new environ run st ''/v1/execute'' v = Some (fst (execute_endpoint environ run st v))"
proof -
  obtain b where b: "httpx_json_body httpx_new v = Some b" "read_body (Some ''application/json'') b = Inr (BodyJson v)"
    using client_body_read [OF assms] by blast
  then show ?thesis
    by (simp add: client_post_def app_call_http_json app_call_def app_serve_execute)
qed

text \<open>What else the body reading accepts and refuses: a UTF-16 body with its byte-order
  mark is read, the UTF-8 form of a lone surrogate passes into a string, an invalid UTF-8
  byte is the 400 of the framework, and a truncated document the 422 \<open>json_invalid\<close>.\<close>

lemma read_body_edges:
  "read_body (Some ''application/json'') [0xFF, 0xFE, 0x7B, 0, 0x7D, 0] = Inr (BodyJson (JObject [])) \<and>
   read_body (Some ''application/json'') [0x22, 0xED, 0xA0, 0x80, 0x22] = Inr (BodyJson (JStr [0xD800])) \<and>
   read_body None [0x22, 0xFF, 0x22] = Inl (RespError 400 ''There was an error parsing the body'') \<and>
   read_body None [0x7B] = Inl (RespInvalid [JsonInvalid]) \<and>
   read_body (Some ''text/plain'') [0x7B, 0x7D] = Inr (BodyRaw [0x7B, 0x7D])"
  by (simp add: read_body_def json_content_type_json json_loads_bytes_def detect_encoding_def
      decode_surrogatepass_def utf8_next_def json_loads_def skip_ws_def json_ws_def
      is_high_surrogate_def is_low_surrogate_def json_content_type_def content_type_def
      py_lower_def py_lower_char_def py_strip_def py_isspace_def)

section \<open>Properties\<close>



end
