(* ===== verification/Spec2Isabelle.thy ===== *)
theory Spec2Isabelle
  imports Complex_Main TestHarness Rlimit Http
begin

text \<open>
  A verification development of the code-interpreter service: a FastAPI application
  whose endpoint \<open>POST /v1/execute\<close> (\<open>src/app/api/routes.py\<close>) runs caller-supplied
  Python code under a WebAssembly build of CPython, through an external runtime such as
  \<open>wasmtime\<close>, and returns its output. The request is validated by the pydantic schema
  (\<open>src/app/models/schemas.py\<close>), checked against the settings of
  \<open>src/app/core/config.py\<close>, and handed to \<open>execute_python\<close> of
  \<open>src/app/services/executor.py\<close>, which resolves the runtime, assembles a command and
  an environment, starts the runtime with resource limits, supervises it against the
  timeout, and truncates its output. Inside the sandbox a bootstrap script decodes the
  code and runs it.

  \<^bold>\<open>Theories\<close>, from the bottom of the import graph:
  \<^item> \<open>Prelude\<close>: the model's types (\<open>byte\<close> is \<open>8 word\<close>, \<open>pystr\<close> a list of code
    points, \<open>env\<close> a map from names to values), the Python string methods the code calls
    (\<open>startswith\<close>, \<open>endswith\<close>, \<open>str.join\<close>, \<open>str.split\<close>, \<open>lstrip\<close>) and shared
    lemmas on lists and bytes.
  \<^item> \<open>Utf8\<close>: CPython's UTF-8 codec as the code calls it: \<open>str.encode("utf-8")\<close>
    (\<open>utf8_encode\<close>, failing at the first lone surrogate), \<open>bytes.decode("utf-8",
    errors="replace")\<close> (\<open>utf8_decode_replace\<close>, one U+FFFD per maximal invalid subpart)
    and the strict decode of the guest. Roundtrips, length bounds, and that the decoder
    only produces Unicode scalar values.
  \<^item> \<open>Sanitizer\<close>: \<open>_truncate\<close>, the output cap (C1--C3, C5): for a cap of at least
    15 the text has at most that many characters and at most three times that many
    UTF-8 bytes (C2), a bound sixteen invalid bytes reach
    (\<open>truncate_bytes_exceed_cap\<close>).
  \<^item> \<open>Base64\<close>: \<open>base64.b64encode\<close> and the canonical \<open>base64.b64decode\<close>, with
    bit-level group identities on \<open>8 word\<close>; roundtrip, length and alphabet.
  \<^item> \<open>Assembler\<close>: the command assembly of \<open>execute_python\<close> (lines 207--283):
    directory mapping, isolation flag, environment updates, \<open>--env\<close> injections and the
    argument vector (C6--C9).
  \<^item> \<open>Bootstrap\<close>: the guest script \<open>_WASM_BOOTSTRAP_SCRIPT\<close> (lines 75--91): prefix,
    search path and payload decoding, errors as values.
  \<^item> \<open>Resolver\<close>: the host record (the answers of \<open>os\<close>, \<open>os.path\<close>, \<open>shutil.which\<close>,
    \<open>open\<close> and \<open>Path.resolve\<close>), \<open>_locate_runtime\<close>, \<open>_resolve_wasm_runtime\<close> and a
    POSIX \<open>shlex.split\<close> as a state machine over its token states (C11--C13).
  \<^item> \<open>Stdlib\<close>: \<open>_discover_stdlib_paths\<close>, with \<open>sorted()\<close> as \<open>sort\<close> under the
    lexicographic order of \<open>List_Lexorder\<close>, the version regex and the zip glob as
    predicates, and the \<open>seen\<close> set of \<open>_add\<close> (C14--C15).
  \<^item> \<open>Supervisor\<close>: \<open>_limit_preexec\<close>, and the life of the child from \<open>Popen\<close> to the
    \<open>ExecutionResult\<close> as an inductive step relation on a nanosecond clock (spawn, output,
    exit, expire, kill, reap), its invariant by rule induction, progress, and a functional
    supervisor that refines it (C17--C21); past its deadline the supervisor terminates
    (C36).
  \<^item> \<open>Executor\<close>: \<open>execute_python\<close> as the composition of the above in a world
    \<open>exec_world\<close> (host, \<open>setrlimit\<close> answers, clock readings, and what the guest does
    with its stdin); its result records the exception or result, the \<open>Popen\<close> arguments and
    whether the child is alive at return (C22--C25).
  \<^item> \<open>Api\<close>: Python's \<open>int()\<close> and \<open>str()\<close> on decimal strings, \<open>_int_from_env\<close>,
    \<open>Settings\<close>, \<open>get_settings\<close> with its \<open>lru_cache\<close> as explicit state, the strict
    validation of \<open>ExecuteRequest\<close> over JSON values, the route and the routing of
    \<open>create_app\<close>, and \<open>run()\<close>. The executor is a parameter \<open>run_fn\<close> of the route, so
    the route's lemmas hold for any executor (C27--C31); \<open>int()\<close> reads back every
    integer \<open>str()\<close> writes (\<open>py_int_py_str_int\<close>).
  \<^item> \<open>Rlimit\<close>: what \<open>resource.setrlimit\<close> does with the limits of
    \<open>_limit_preexec\<close>: the conversion of a Python integer to the 64-bit \<open>rlim_t\<close>
    (\<open>64 word\<close>) and the kernel's refusal to raise a hard limit; the address-space limit is
    installed exactly when \<open>memory_limit_mb\<close> lies in \<open>[-2^43, 2^43)\<close> (C38).
  \<^item> \<open>Json\<close>: CPython's \<open>json\<close> module as the tests and the server call it: the
    encoder (\<open>json.dumps\<close>, with and without \<open>ensure_ascii\<close>, UTF-16 surrogate pairs
    for astral code points) and the decoder (\<open>json.loads\<close>: \<open>scanstring\<close>, the number
    scanner, arrays and objects), with the round trip \<open>loads (dumps v) = v\<close> for every
    value the encoder writes (C40); the response body of the route (\<open>schemas.py\<close>
    field order, compact separators) and that it parses back.
  \<^item> \<open>App\<close>: the application object of \<open>main.py\<close> as the framework builds and
    serves it: \<open>create_app\<close> as the route list (the documentation routes of
    \<open>FastAPI.setup()\<close>, \<open>/healthz\<close>, the router of \<open>routes.py\<close> under \<open>/v1\<close>), the
    module-level \<open>app\<close>, and Starlette's router (\<open>router_scan\<close>, \<open>router_dispatch\<close>:
    first full match, 405, \<open>redirect_slashes\<close>, 404, and the newline-tolerant \<open>$\<close> of
    \<open>re.match\<close>). On the program's two paths the served application is exactly
    \<open>handle_request\<close> (C35), and only \<open>POST /v1/execute\<close> reaches the executor (C4).
  \<^item> \<open>Http\<close>: the request body from the tests' client to the endpoint: httpx's
    \<open>json=\<close> encoding (before and from version 0.28), FastAPI's reading of the body
    (content type, \<open>json.loads\<close> on bytes with \<open>json.detect_encoding\<close> and the
    \<open>surrogatepass\<close> decoders of UTF-8, UTF-16 and UTF-32, the 400 and 422 answers), and
    the application served over bytes (\<open>app_call_http\<close>). Every well-formed value the
    client sends is read back as itself, so the served application answers as on the
    parsed value (C26).
  \<^item> \<open>TestHarness\<close>: the gate of the integration tests, \<open>_runtime_available\<close> and
    \<open>_require_wasm_environment\<close> of \<open>src/tests/test_hello_world.py\<close>, compared with the
    executor's \<open>find_runtime\<close>: the tests never run where the executor finds no runtime
    (C34), but they skip for a runtime the executor does find
    (\<open>test_gate_skips_found_runtime\<close>).
  \<^item> this theory: the application wired to \<open>execute_python\<close> (\<open>app_run\<close>) and the
    properties that span components: the payload and the library path reach the guest
    (C10, C16), every response is encodable (C32), a negative output cap empties
    every response (C33), and a missing runtime or module yields the bare
    \<open>500 Internal Server Error\<close> without launching a child (C39); the hello-world
    integration test (\<open>test_hello_world.py\<close> lines 43--63), its request sent as bytes
    by the client to the served application and its assertions over the JSON body of the
    response, as a function of the world and the settings cache, and that it passes
    whenever it is not skipped and the guest prints \<open>hello\<close> in time (C37); the
    data-stack test (\<open>test_data_stack.py\<close>): its guest program, its request, and its
    assertions over the parsed JSON line the guest prints, with Python's \<open>float()\<close> of
    a decimal literal read as the real number it denotes, and that the test passes when the
    guest prints the expected document (\<open>data_stack_test_passes\<close>).

  \<^bold>\<open>Correspondence.\<close> Each definition carries the name of the code it models
  (\<open>truncate\<close> is \<open>_truncate\<close>, \<open>ensure_env_arg\<close> is \<open>_ensure_env_arg\<close>,
  \<open>get_settings\<close> is \<open>get_settings\<close>); local steps of \<open>execute_python\<close> are definitions
  named after the variable they compute (\<open>host_mapping\<close>, \<open>env_updates\<close>,
  \<open>python_args\<close>, \<open>command\<close>). Python integers are \<open>int\<close>, bytes are \<open>8 word\<close>;
  exceptions are the left side of a sum type. Definitions whose name starts with
  \<open>demo_\<close> are concrete inputs for the witnesses, not code.

  \<^bold>\<open>Bounds and time.\<close> No loop of the code needs fuel: every loop runs over a finite
  list and is structural recursion, and \<open>nat_str\<close> terminates by the measure \<open>n\<close>.
  The recursive descent of the JSON decoder takes fuel, one unit per nested value:
  \<open>json_loads\<close> gives it the length of the text plus one, which is enough because
  every value needs at most as many units as it has characters (\<open>json_need_le_length\<close>),
  so the round trip (C40) is proved for the fuel the decoder really has. The
  clock is an integer count of nanoseconds, so \<open>timeout_ms / 1000.0\<close> seconds is exactly
  \<open>timeout_ms * 10^6\<close> and \<open>int(elapsed * 1000)\<close> is a floor division; the float rounding
  of \<open>time.perf_counter\<close> is not modelled.

  \<^bold>\<open>Not modelled.\<close> The WebAssembly runtime and the guest interpreter running the
  decoded code (the guest's environment is taken to be the launch environment, and what
  the guest prints enters the integration tests as an assumption); the operating system
  beyond the answers in the host record and the kernel limits of \<open>Rlimit\<close> (in
  particular whether \<open>Popen\<close> itself fails, and \<open>TemporaryDirectory\<close>); non-POSIX
  platforms, where \<open>preexec_fn\<close> is not passed; CPython 3.14 and later, which convert
  rlimit values differently; the web server and FastAPI's own error bodies (a failed
  validation is the \<open>RespInvalid\<close> answer, not its JSON detail); the content of the
  generated \<open>/docs\<close>, \<open>/redoc\<close> and \<open>/openapi.json\<close> pages (their routes are
  modelled, their pages are opaque endpoints); uvicorn's HTTP parsing and percent-decoding
  of the request path; the position FastAPI reports with \<open>json_invalid\<close>; the
  client's reading of a response, which the tests' \<open>response.json()\<close> does on the
  body's text (\<open>json_loads\<close> of \<open>response_body\<close>), not on its bytes; environment
  values beyond single
  8-bit characters; the decoder's error messages and positions (every
  \<open>JSONDecodeError\<close> is \<open>None\<close>); and the binary rounding of
  \<open>float()\<close>: numbers are compared as the decimals they denote, which
  \<open>pytest.approx\<close> with its relative tolerance \<open>1e-9\<close> does not distinguish for the
  literals of the data-stack test.
\<close>

section \<open>The application wired to the executor\<close>

text \<open>\<open>routes.py\<close> lines 28--35 call \<open>execute_python\<close> of the executor: the
  executor parameter of the route, in the world of the call.\<close>

definition app_run :: "exec_world \<Rightarrow> run_fn" where
  "app_run x code stdin timeout_ms max_output_bytes cpu_time_limit_sec memory_limit_mb =
     et_result (execute_python x code stdin timeout_ms max_output_bytes cpu_time_limit_sec memory_limit_mb)"

section \<open>The integration test of the application\<close>

text \<open>\<open>test_execute_returns_expected_payload\<close> of \<open>src/tests/test_hello_world.py\<close>
  (lines 43--63): the gate, the request of lines 47--55 sent by the test client as bytes
  to the served application (\<open>client_post\<close>, with \<open>httpx_new\<close> selecting the encoding of
  the httpx version), and the assertions of lines 56--63 on the response. The settings cache of \<open>get_settings\<close> is
  global to the test process, so the application state is a parameter; the environment
  of the settings is the host's.\<close>

datatype test_outcome = Passed | Failed | Skipped string

text \<open>The body of lines 49--54.\<close>

definition hello_request :: json where
  "hello_request =
     JObject [(pystr_lit ''code'', JStr (map of_char ''print('hello')'')), (pystr_lit ''stdin'', JNull),
              (pystr_lit ''timeout_ms'', JInt 1000)]"

text \<open>What the test client sees of a response: the status code, and \<open>response.json()\<close>
  of the body. The bodies of the error responses are the framework's and are not
  modelled; the tests read them only after asserting status 200.\<close>

definition http_status :: "http_response \<Rightarrow> int" where
  "http_status resp =
     (case resp of RespExecute r \<Rightarrow> 200 | RespHealth \<Rightarrow> 200 | RespInvalid es \<Rightarrow> 422 | RespError c m \<Rightarrow> c)"

definition response_payload :: "http_response \<Rightarrow> json option" where
  "response_payload resp =
     (case resp of
        RespExecute r \<Rightarrow> json_loads (response_body r)
      | RespHealth \<Rightarrow> Some (JObject [(pystr_lit ''status'', JStr (pystr_lit ''ok''))])
      | _ \<Rightarrow> None)"

text \<open>Lines 56--63 on the payload. Python's \<open>== 0\<close> also accepts \<open>0.0\<close> and \<open>False\<close>,
  and \<open>isinstance(_, int)\<close> also accepts a \<open>bool\<close>: the assertions here are at least as
  strict, so a test they pass passes in Python.\<close>

definition hello_assertions :: "http_response \<Rightarrow> bool" where
  "hello_assertions resp =
     (http_status resp = 200 \<and>
      (case response_payload resp of
         None \<Rightarrow> False
       | Some payload \<Rightarrow>
           json_get payload ''stdout'' = Some (JStr (pystr_lit ''hello'' @ [10])) \<and>
           json_get payload ''stderr'' = Some (JStr []) \<and>
           json_get payload ''exit_code'' = Some (JInt 0) \<and>
           json_get payload ''timed_out'' = Some (JBool False) \<and>
           (case json_get payload ''duration_ms'' of Some (JInt d) \<Rightarrow> 0 \<le> d | _ \<Rightarrow> False)))"

text \<open>A \<open>pytest.skip\<close> of the gate is the outcome \<open>Skipped\<close>; a failing assertion
  is \<open>Failed\<close>.\<close>

definition test_execute_returns_expected_payload ::
  "bool \<Rightarrow> exec_world \<Rightarrow> app_state \<Rightarrow> test_outcome" where
  "test_execute_returns_expected_payload httpx_new x st =
     (case require_wasm_environment (x_host x) of
        TestSkipped msg \<Rightarrow> Skipped msg
      | TestRuns \<Rightarrow>
          (case client_post httpx_new (h_environ (x_host x)) (app_run x) st ''/v1/execute'' hello_request of
             None \<Rightarrow> Failed
           | Some resp \<Rightarrow> if hello_assertions resp then Passed else Failed))"

text \<open>A guest that prints \<open>hello\<close> and exits with status 0 three milliseconds after it
  starts, and a world that runs it where the gate lets the test run.\<close>

definition hello_child :: child_run where
  "hello_child = \<lparr>cr_runtime = Some 3000000, cr_status = 0, cr_out = map of_char ''hello'' @ [10], cr_err = []\<rparr>"

definition demo_hello_world :: exec_world where
  "demo_hello_world =
     demo_world\<lparr>x_host := demo_host\<lparr>h_which := (\<lambda>n. if n = ''wasmtime'' then Some ''/usr/local/bin/wasmtime'' else None)\<rparr>,
                x_child := (\<lambda>input. hello_child)\<rparr>"

section \<open>The data-stack integration test\<close>

text \<open>\<open>test_numpy_pandas_matplotlib_stack\<close> of \<open>src/tests/test_data_stack.py\<close>
  (lines 16--69): the guest program of lines 20--46, the request of lines 48--55, and the
  assertions of lines 57--69 on the payload and on the JSON the guest printed.\<close>

definition data_stack_code :: pystr where
  "data_stack_code = py_join [10] (map pystr_lit
     [[],
      ''import io'',
      ''import json'',
      [],
      ''import matplotlib'',
      ''matplotlib.use('Agg')'',
      ''import matplotlib.pyplot as plt'',
      ''import numpy as np'',
      ''import pandas as pd'',
      [],
      ''data = np.arange(6, dtype=np.float64).reshape(3, 2)'',
      ''df = pd.DataFrame(data, columns=['x', 'y'])'',
      [],
      ''summary = {'',
      ''    'shape': list(df.shape),'',
      ''    'x_mean': float(df['x'].mean()),'',
      ''    'y_total': float(df['y'].sum()),'',
      ''}'',
      [],
      ''fig, ax = plt.subplots()'',
      ''ax.plot(df['x'], df['y'])'',
      ''buf = io.BytesIO()'',
      ''fig.savefig(buf, format='png')'',
      ''plt.close(fig)'',
      [],
      ''print(json.dumps({'summary': summary, 'png_bytes': len(buf.getvalue())}))'',
      []])"

definition data_stack_request :: json where
  "data_stack_request =
     JObject [(pystr_lit ''code'', JStr data_stack_code), (pystr_lit ''stdin'', JNull),
              (pystr_lit ''timeout_ms'', JInt 2000)]"

text \<open>\<open>str.isspace\<close> and \<open>str.strip()\<close> on code points.\<close>

definition pystr_isspace :: "nat \<Rightarrow> bool" where
  "pystr_isspace c \<longleftrightarrow>
     (9 \<le> c \<and> c \<le> 13) \<or> (28 \<le> c \<and> c \<le> 32) \<or> c = 0x85 \<or> c = 0xA0 \<or> c = 0x1680 \<or>
     (0x2000 \<le> c \<and> c \<le> 0x200A) \<or> c = 0x2028 \<or> c = 0x2029 \<or> c = 0x202F \<or> c = 0x205F \<or>
     c = 0x3000"

definition pystr_strip :: "pystr \<Rightarrow> pystr" where
  "pystr_strip s = rev (dropWhile pystr_isspace (rev (dropWhile pystr_isspace s)))"

text \<open>The number a JSON number literal denotes: \<open>int\<close> exactly, a float literal as the
  decimal it is written as.\<close>

definition float_value :: "pystr \<Rightarrow> real option" where
  "float_value t =
     (let (neg, s1) = (case t of c # r \<Rightarrow> if c = 45 then (True, r) else (False, t) | [] \<Rightarrow> (False, t))
      in case num_int_part s1 of
           None \<Rightarrow> None
         | Some (ip, r1) \<Rightarrow>
             (let (fr, r2) = num_frac r1;
                  (ex, r3) = num_exp r2;
                  fd = drop 1 fr;
                  m = of_int (digits_int (ip @ fd)) / 10 ^ length fd;
                  e = (case ex of
                         _ # c # ds \<Rightarrow> if c = 45 then - digits_int ds else if c = 43 then digits_int ds
                                       else digits_int (c # ds)
                       | _ \<Rightarrow> 0);
                  v = (if 0 \<le> e then m * 10 ^ nat e else m / 10 ^ nat (- e))
              in if r3 \<noteq> [] then None else Some (if neg then - v else v)))"

definition json_number :: "json \<Rightarrow> real option" where
  "json_number v = (case v of JInt i \<Rightarrow> Some (of_int i) | JFloat t \<Rightarrow> float_value t | _ \<Rightarrow> None)"

text \<open>\<open>actual == pytest.approx(expected, rel=1e-9)\<close>, with the default absolute
  tolerance \<open>1e-12\<close>.\<close>

definition json_approx :: "json option \<Rightarrow> real \<Rightarrow> bool" where
  "json_approx v expected =
     (case v of
        Some j \<Rightarrow> (case json_number j of
                     Some a \<Rightarrow> \<bar>a - expected\<bar> \<le> max (1 / 10 ^ 9 * \<bar>expected\<bar>) (1 / 10 ^ 12)
                   | None \<Rightarrow> False)
      | None \<Rightarrow> False)"

text \<open>Lines 57--69, as strict as the hello-world assertions.\<close>

definition data_stack_assertions :: "http_response \<Rightarrow> bool" where
  "data_stack_assertions resp =
     (http_status resp = 200 \<and>
      (case response_payload resp of
         None \<Rightarrow> False
       | Some payload \<Rightarrow>
           json_get payload ''stderr'' = Some (JStr []) \<and>
           json_get payload ''exit_code'' = Some (JInt 0) \<and>
           json_get payload ''timed_out'' = Some (JBool False) \<and>
           (case json_get payload ''stdout'' of
              Some (JStr out) \<Rightarrow>
                (case json_loads (pystr_strip out) of
                   None \<Rightarrow> False
                 | Some result \<Rightarrow>
                     (case json_get result ''summary'' of
                        None \<Rightarrow> False
                      | Some summary \<Rightarrow>
                          json_get summary ''shape'' = Some (JArray [JInt 3, JInt 2]) \<and>
                          json_approx (json_get summary ''x_mean'') 2 \<and>
                          json_approx (json_get summary ''y_total'') 9) \<and>
                     (case json_get result ''png_bytes'' of Some (JInt n) \<Rightarrow> 0 < n | _ \<Rightarrow> False))
            | _ \<Rightarrow> False)))"

definition test_numpy_pandas_matplotlib_stack ::
  "bool \<Rightarrow> exec_world \<Rightarrow> app_state \<Rightarrow> test_outcome" where
  "test_numpy_pandas_matplotlib_stack httpx_new x st =
     (case require_wasm_environment (x_host x) of
        TestSkipped msg \<Rightarrow> Skipped msg
      | TestRuns \<Rightarrow>
          (case client_post httpx_new (h_environ (x_host x)) (app_run x) st ''/v1/execute'' data_stack_request of
             None \<Rightarrow> Failed
           | Some resp \<Rightarrow> if data_stack_assertions resp then Passed else Failed))"

text \<open>What the guest prints: \<open>json.dumps\<close> of the summary and the size of the figure,
  with the default separators and \<open>ensure_ascii\<close>, and the newline of \<open>print\<close>.\<close>

definition data_stack_json :: "int \<Rightarrow> json" where
  "data_stack_json png =
     JObject [(pystr_lit ''summary'', JObject [(pystr_lit ''shape'', JArray [JInt 3, JInt 2]),
                                              (pystr_lit ''x_mean'', JFloat (pystr_lit ''2.0'')),
                                              (pystr_lit ''y_total'', JFloat (pystr_lit ''9.0''))]),
              (pystr_lit ''png_bytes'', JInt png)]"

definition data_stack_output :: "int \<Rightarrow> pystr" where
  "data_stack_output png = json_dumps True (pystr_lit '', '') (pystr_lit '': '') (data_stack_json png) @ [10]"

text \<open>A world in which the guest of the data-stack test prints its summary for a figure of
  17466 bytes, 1.5 seconds after it starts.\<close>

definition demo_data_world :: exec_world where
  "demo_data_world =
     demo_hello_world\<lparr>x_child := (\<lambda>input. \<lparr>cr_runtime = Some 1500000000, cr_status = 0,
        cr_out = concat (map utf8_encode_cp (data_stack_output 17466)), cr_err = []\<rparr>)\<rparr>"

text \<open>A world whose host has no \<open>PYTHON_WASM_PATH\<close>: a configuration error.\<close>

definition demo_unset_world :: exec_world where
  "demo_unset_world = demo_world\<lparr>x_host := demo_host\<lparr>h_environ := Map.empty\<rparr>\<rparr>"

section \<open>The payload from the request to the guest\<close>

lemma env_updates_code: "map_of (env_updates e p) ''PY_CODE_B64'' = Some e"
  by (simp add: env_updates_def)

text \<open>C10: The code the caller sends reaches the guest unchanged: if it encodes as UTF-8
  (no lone surrogate), its base64 encoding placed in \<open>PY_CODE_B64\<close> by the host's
  environment updates is decoded by the bootstrap script back to exactly that code,
  whatever the library path.\<close>

theorem payload_roundtrip:
  assumes "list_all py_char code" and "utf8_encode code = Inr bs"
  shows "bootstrap_code (map_of (env_updates (b64encode bs) p)) = Inr code"
  using assms utf8_roundtrip_strict [OF assms]
  by (simp add: bootstrap_code_def env_updates_code b64decode_b64encode)

theorem payload_roundtrip_witness:
  "list_all py_char [0x68, 0x69] \<and> utf8_encode [0x68, 0x69] = Inr [0x68, 0x69] \<and>
   bootstrap_code (map_of (env_updates (b64encode [0x68, 0x69]) ''/lib'')) = Inr [0x68, 0x69]"
proof -
  have h1: "list_all py_char [0x68, 0x69]" by (simp add: py_char_def)
  have h2: "utf8_encode [0x68, 0x69] = Inr [0x68, 0x69]"
    by (simp add: utf8_encode_def utf8_encode_cp_def is_surrogate_def)
  show ?thesis using payload_roundtrip [OF h1 h2, of "''/lib''"] h1 h2 by simp
qed

section \<open>The library path from the host to the guest\<close>

lemma env_updates_stdlib: "map_of (env_updates e p) ''PYTHON_WASM_STDLIB_PATHS'' = Some p"
  by (simp add: env_updates_def)

lemma discover_stdlib_paths_nonempty:
  "p \<in> set (discover_stdlib_paths h r g) \<Longrightarrow> p \<noteq> []"
  using discover_stdlib_paths_props [of h r g] by (auto simp: startswith_iff)

text \<open>C16: The library paths the host discovers arrive in the guest's \<open>sys.path\<close>
  exactly, in order, in front of the paths already there, as long as no path contains
  the separator \<open>:\<close> that joins them in \<open>PYTHON_WASM_STDLIB_PATHS\<close>.\<close>

theorem stdlib_paths_reach_guest:
  assumes "\<forall>p \<in> set (discover_stdlib_paths h r g). CHR '':'' \<notin> set p"
  shows "bootstrap_paths (map_of (env_updates e (py_join '':'' (discover_stdlib_paths h r g)))) s =
           s\<lparr>sys_path := filter (\<lambda>p. p \<notin> set (sys_path s)) (discover_stdlib_paths h r g) @ sys_path s\<rparr>"
proof (cases "discover_stdlib_paths h r g")
  case Nil
  then show ?thesis by (simp add: bootstrap_paths_def env_updates_stdlib)
next
  case (Cons p ps)
  let ?ps = "discover_stdlib_paths h r g"
  have ne: "\<forall>x \<in> set ?ps. x \<noteq> []" using discover_stdlib_paths_nonempty by blast
  have split: "py_split CHR '':'' (py_join '':'' ?ps) = ?ps"
    using py_split_join [of ?ps "CHR '':''"] assms Cons by simp
  have "p \<noteq> []" using ne Cons by simp
  then have "py_join '':'' ?ps \<noteq> []" using Cons by (cases ps) auto
  moreover have "filter (\<lambda>x. x \<noteq> []) ?ps = ?ps" using ne by (simp add: filter_id_conv)
  moreover have "distinct ?ps" using discover_stdlib_paths_props by blast
  ultimately show ?thesis
    by (simp add: bootstrap_paths_def env_updates_stdlib split insert_absent_front_def
        fold_insert_absent_front distinct_remdups_id)
qed

theorem stdlib_paths_reach_guest_witness:
  "bootstrap_paths (map_of (env_updates ''aGk='' (py_join '':'' (discover_stdlib_paths demo_lib_host ''/srv'' ''/python''))))
     \<lparr>sys_prefix = ''/python'', sys_exec_prefix = ''/python'', sys_path = [''/python/lib/python312.zip'', ''/tmp'']\<rparr> =
   \<lparr>sys_prefix = ''/python'', sys_exec_prefix = ''/python'',
    sys_path = [''/python/lib/python3.12'', ''/python/lib/python3.12/site-packages'', ''/python/lib/python312.zip'', ''/tmp'']\<rparr>"
proof -
  have h: "\<forall>p \<in> set (discover_stdlib_paths demo_lib_host ''/srv'' ''/python''). CHR '':'' \<notin> set p"
    by (simp add: demo_lib_host_discover)
  show ?thesis
    using stdlib_paths_reach_guest [OF h, of "''aGk=''"
        "\<lparr>sys_prefix = ''/python'', sys_exec_prefix = ''/python'', sys_path = [''/python/lib/python312.zip'', ''/tmp'']\<rparr>"]
    by (simp add: demo_lib_host_discover)
qed

section \<open>Responses of the application\<close>

lemma app_response_sv_result:
  assumes "handle_request environ (app_run x) st meth path body = (RespExecute r, st')"
  shows "\<exists>s. r = sv_result (st_max_output_bytes (fst (get_settings environ (as_cache st)))) s"
proof -
  obtain req :: execute_request where
    "app_run x (rq_code req) (rq_stdin req) (rq_timeout_ms req)
       (st_max_output_bytes (fst (get_settings environ (as_cache st))))
       (Some (st_cpu_time_limit_sec (fst (get_settings environ (as_cache st)))))
       (Some (st_memory_limit_mb (fst (get_settings environ (as_cache st))))) = Inr r"
    using handle_request_RespExecute [OF assms] by blast
  then show ?thesis unfolding app_run_def by (rule execute_python_Inr)
qed

text \<open>C32: Every execution response of the application carries text made of Unicode
  scalar values only, so the UTF-8 JSON response can always be written: the replacement
  decoding of \<open>_truncate\<close> never yields a surrogate, whatever bytes the guest wrote.\<close>

theorem app_response_encodable:
  assumes "handle_request environ (app_run x) st meth path body = (RespExecute r, st')"
  shows "list_all scalar_value (er_stdout r) \<and> list_all scalar_value (er_stderr r) \<and>
         (\<exists>bo be. utf8_encode (er_stdout r) = Inr bo \<and> utf8_encode (er_stderr r) = Inr be)"
proof -
  obtain s where r: "r = sv_result (st_max_output_bytes (fst (get_settings environ (as_cache st)))) s"
    using app_response_sv_result [OF assms] by blast
  show ?thesis unfolding r sv_result_def
    using truncate_scalar truncate_encodable by simp
qed

text \<open>C33: \<open>MAX_OUTPUT_BYTES=-1\<close>, which \<open>config.py\<close> accepts, turns both streams of
  every execution response of a fresh server into the bare marker
  \<open>"\n...[truncated]"\<close>, even for a program that prints nothing.\<close>

theorem negative_output_cap_marker:
  assumes "environ ''MAX_OUTPUT_BYTES'' = Some ''-1''"
    and "handle_request environ (app_run x) \<lparr>as_cache = None\<rparr> meth path body = (RespExecute r, st')"
  shows "er_stdout r = truncation_marker \<and> er_stderr r = truncation_marker"
proof -
  have py: "py_int ''-1'' = Some (-1)"
    by (simp add: py_int_def py_strip_def py_isspace_def is_digit_def less_eq_char_def digit_value_def)
  have "st_max_output_bytes (fst (get_settings environ (as_cache \<lparr>as_cache = None\<rparr>))) = -1"
    using assms(1) py by (simp add: get_settings_def settings_from_env_def int_from_env_def Let_def)
  then obtain s where "r = sv_result (-1) s"
    using app_response_sv_result [OF assms(2)] by auto
  then show ?thesis by (simp add: sv_result_def truncate_negative)
qed

section \<open>Configuration errors\<close>

lemma execute_python_resolve_error:
  "resolve_wasm_runtime (x_host x) = Inl e \<Longrightarrow>
   execute_python x code stdin T m cpu mem =
     \<lparr>et_result = Inl (ExecResolveError e), et_launch = None, et_child_alive = False\<rparr>"
  by (simp add: execute_python_def)

text \<open>C39: A configuration error of the runtime or the module (\<open>RuntimeError\<close> of
  \<open>_resolve_wasm_runtime\<close>) turns every valid request within the timeout policy into the
  framework's bare HTTP 500, distinct from any execution result, and no process is started
  for it: the executor returns before \<open>Popen\<close>.\<close>

theorem setup_error_internal_error:
  assumes "resolve_wasm_runtime (x_host x) = Inl e"
    and "validate_request body = Inr req"
    and "rq_timeout_ms req \<le> st_max_exec_timeout_ms (fst (get_settings environ (as_cache st)))"
  shows "fst (handle_request environ (app_run x) st POST ''/v1/execute'' body) =
           RespError 500 ''Internal Server Error'' \<and>
         et_launch (execute_python x code stdin T m cpu mem) = None \<and>
         \<not> et_child_alive (execute_python x code stdin T m cpu mem)"
proof -
  obtain s c' where g: "get_settings environ (as_cache st) = (s, c')" by fastforce
  show ?thesis
    using assms g execute_python_resolve_error [OF assms(1)]
    by (simp add: handle_request_def execute_endpoint_def execute_route_def app_run_def)
qed

section \<open>The integration test passes\<close>

lemma validate_hello_request:
  "validate_request hello_request =
     Inr \<lparr>rq_code = map of_char ''print('hello')'', rq_stdin = None, rq_timeout_ms = 1000\<rparr>"
  by (simp add: hello_request_def validate_request_def json_lookup_def validate_code_def
      validate_stdin_def validate_timeout_def)

lemma hello_request_wf: "json_wf hello_request" "\<not> (httpx_new \<and> json_nonfinite hello_request)"
  by (simp_all add: hello_request_def scalar_value_iff)

lemma hello_code_encode: "utf8_encode (map of_char ''print('hello')'') = Inr (map of_char ''print('hello')'')"
  by (simp add: utf8_encode_def utf8_encode_cp_def is_surrogate_def)

lemma app_run_resolved:
  assumes "resolve_wasm_runtime (x_host x) = Inr (rp, wm, args)" and "utf8_encode code = Inr bs"
  shows "\<exists>gl. app_run x code None T m cpu mem =
           Inr (sv_result m (supervise T (x_start x) (x_spawn x) gl (x_child x None)))"
  using assms by (fastforce simp: app_run_def execute_python_def run_child_def Let_def)

lemma truncate_hello:
  assumes "6 \<le> m"
  shows "Sanitizer.truncate (map of_char ''hello'' @ [10]) m = map of_char ''hello'' @ [10] \<and>
         Sanitizer.truncate [] m = []"
proof -
  have e: "utf8_encode (map of_char ''hello'' @ [10]) = Inr (map of_char ''hello'' @ [10])"
    by (simp add: utf8_encode_def utf8_encode_cp_def is_surrogate_def)
  have p: "list_all py_char (map of_char ''hello'' @ [10])" by (simp add: py_char_def)
  show ?thesis using assms utf8_roundtrip_replace [OF p e] by (simp add: Sanitizer.truncate_def)
qed

text \<open>C37: The hello-world integration test passes whenever it is not skipped, in every
  world where the runtime resolves, the guest given no stdin prints \<open>hello\n\<close> and exits
  with status 0 within the test's one second, the clock is monotone, and the settings
  allow a timeout of 1000 ms and at least six bytes of output.\<close>

theorem hello_test_passes:
  assumes "resolve_wasm_runtime (x_host x) = Inr (rp, wm, args)"
    and "x_child x None = \<lparr>cr_runtime = Some rt, cr_status = 0, cr_out = map of_char ''hello'' @ [10], cr_err = []\<rparr>"
    and "rt < 1000 * ns_per_ms" and "x_start x \<le> x_spawn x"
    and "1000 \<le> st_max_exec_timeout_ms (fst (get_settings (h_environ (x_host x)) (as_cache st)))"
    and "6 \<le> st_max_output_bytes (fst (get_settings (h_environ (x_host x)) (as_cache st)))"
  shows "test_execute_returns_expected_payload httpx_new x st =
           (case require_wasm_environment (x_host x) of TestRuns \<Rightarrow> Passed | TestSkipped msg \<Rightarrow> Skipped msg)"
proof -
  obtain s c' where g: "get_settings (h_environ (x_host x)) (as_cache st) = (s, c')" by fastforce
  obtain gl where r: "app_run x (map of_char ''print('hello')'') None 1000 (st_max_output_bytes s)
       (Some (st_cpu_time_limit_sec s)) (Some (st_memory_limit_mb s)) =
     Inr (sv_result (st_max_output_bytes s) (supervise 1000 (x_start x) (x_spawn x) gl (x_child x None)))"
    using app_run_resolved [OF assms(1) hello_code_encode] by blast
  let ?D = "(x_spawn x + max 0 rt - x_start x) div ns_per_ms"
  have "fst (execute_endpoint (h_environ (x_host x)) (app_run x) st hello_request) =
     RespExecute \<lparr>er_stdout = pystr_lit ''hello'' @ [10], er_stderr = [], er_exit_code = Some 0,
                  er_timed_out = False, er_duration_ms = ?D\<rparr>"
    using assms(2-6) g r truncate_hello [of "st_max_output_bytes s"]
    by (simp add: execute_endpoint_def validate_hello_request execute_route_def
        sv_result_def supervise_def sv_init_def Let_def ns_per_ms_def)
  moreover have "0 \<le> ?D" using assms(4) by (simp add: ns_per_ms_def)
  ultimately have "hello_assertions (fst (execute_endpoint (h_environ (x_host x)) (app_run x) st hello_request))"
    by (simp add: hello_assertions_def http_status_def response_payload_def response_body_loads
        scalar_value_iff response_json_def json_get_def json_lookup_def)
  then show ?thesis using client_post_execute [OF hello_request_wf]
    by (simp add: test_execute_returns_expected_payload_def split: test_gate.split)
qed

section \<open>The data-stack integration test passes\<close>

lemma data_stack_code_small: "\<forall>c \<in> set data_stack_code. c < 256"
proof -
  have "set data_stack_code \<subseteq> {10} \<union> {c. c < 256}"
    using set_py_join [of "[10]"] unfolding data_stack_code_def by fastforce
  then show ?thesis by auto
qed

lemma data_stack_code_encode:
  "utf8_encode data_stack_code = Inr (concat (map utf8_encode_cp data_stack_code))"
  using data_stack_code_small by (auto simp: utf8_encode_def list_all_iff is_surrogate_def)

lemma data_stack_request_wf:
  "json_wf data_stack_request" "\<not> (httpx_new \<and> json_nonfinite data_stack_request)"
  using data_stack_code_small by (auto simp: data_stack_request_def scalar_value_iff list_all_iff)

lemma validate_data_stack_request:
  "validate_request data_stack_request =
     Inr \<lparr>rq_code = data_stack_code, rq_stdin = None, rq_timeout_ms = 2000\<rparr>"
  by (simp add: data_stack_request_def validate_request_def json_lookup_def validate_code_def
      validate_stdin_def validate_timeout_def)

lemma data_stack_json_wf: "json_wf (data_stack_json png)"
  by (simp add: data_stack_json_def json_float_text_def match_number_def num_int_part_def num_frac_def
      num_exp_def is_dig_def scalar_value_iff)

lemma of_char_py_char [simp]: "(of_char c :: nat) < 1114112"
  using nat_of_char_less_256 [of c] by linarith

lemma of_char_not_surrogate [simp]: "\<not> 55296 \<le> (of_char c :: nat)"
  using nat_of_char_less_256 [of c] by linarith

lemma data_stack_output_py_char: "list_all py_char (data_stack_output png)"
  by (simp add: data_stack_output_def data_stack_json_def json_encode_str_def json_escape_char_def
      py_char_def list_all_iff py_str_int_def)

lemma data_stack_strip_loads:
  "json_loads (pystr_strip (data_stack_output png)) = Some (data_stack_json png)"
proof -
  have s: "sep_ok 44 (pystr_lit '', '')" "sep_ok 58 (pystr_lit '': '')"
    by (simp_all add: sep_ok_def skip_ws_def json_ws_def)
  have "pystr_strip (data_stack_output png) = json_dumps True (pystr_lit '', '') (pystr_lit '': '') (data_stack_json png)"
    by (simp add: data_stack_output_def data_stack_json_def pystr_strip_def pystr_isspace_def)
  then show ?thesis
    using scan_dumps_complete [OF data_stack_json_wf s, where ea = True]
      skip_ws_dumps [OF data_stack_json_wf, where ea = True and isep = "pystr_lit '', ''"
        and ksep = "pystr_lit '': ''" and t = "[]"]
    by (simp add: json_loads_def skip_ws_def)
qed

lemma approx_literals:
  "json_approx (Some (JFloat (pystr_lit ''2.0''))) 2 \<and> json_approx (Some (JFloat (pystr_lit ''9.0''))) 9"
  by (simp add: json_approx_def json_number_def float_value_def num_int_part_def num_frac_def
      num_exp_def is_dig_def digits_int_def)

text \<open>\<open>test_numpy_pandas_matplotlib_stack\<close> passes whenever it is not skipped, in every
  world where the runtime resolves, the guest writes the UTF-8 encoding of the summary it
  prints with a positive figure size and exits with status 0 within the two seconds, the
  clock is monotone, and the settings allow the timeout and the output.\<close>

theorem data_stack_test_passes:
  assumes res: "resolve_wasm_runtime (x_host x) = Inr (rp, wm, args)"
    and child: "x_child x None = \<lparr>cr_runtime = Some rt, cr_status = 0, cr_out = bs, cr_err = []\<rparr>"
    and enc: "utf8_encode (data_stack_output png) = Inr bs" and png: "0 < png"
    and rt: "rt < 2000 * ns_per_ms" and clk: "x_start x \<le> x_spawn x"
    and tmo: "2000 \<le> st_max_exec_timeout_ms (fst (get_settings (h_environ (x_host x)) (as_cache st)))"
    and cap: "int (length bs) \<le> st_max_output_bytes (fst (get_settings (h_environ (x_host x)) (as_cache st)))"
  shows "test_numpy_pandas_matplotlib_stack httpx_new x st =
           (case require_wasm_environment (x_host x) of TestRuns \<Rightarrow> Passed | TestSkipped msg \<Rightarrow> Skipped msg)"
proof -
  obtain s c' where g: "get_settings (h_environ (x_host x)) (as_cache st) = (s, c')" by fastforce
  obtain gl where r: "app_run x data_stack_code None 2000 (st_max_output_bytes s)
       (Some (st_cpu_time_limit_sec s)) (Some (st_memory_limit_mb s)) =
     Inr (sv_result (st_max_output_bytes s) (supervise 2000 (x_start x) (x_spawn x) gl (x_child x None)))"
    using app_run_resolved [OF res data_stack_code_encode] by blast
  have out: "Sanitizer.truncate bs (st_max_output_bytes s) = data_stack_output png \<and>
             Sanitizer.truncate [] (st_max_output_bytes s) = []"
    using utf8_roundtrip_replace [OF data_stack_output_py_char enc] cap g
    by (simp add: Sanitizer.truncate_def)
  let ?D = "(x_spawn x + max 0 rt - x_start x) div ns_per_ms"
  let ?r = "\<lparr>er_stdout = data_stack_output png, er_stderr = [], er_exit_code = Some 0,
             er_timed_out = False, er_duration_ms = ?D\<rparr>"
  have resp: "fst (execute_endpoint (h_environ (x_host x)) (app_run x) st data_stack_request) =
     RespExecute ?r"
    using child rt tmo g r out
    by (simp add: execute_endpoint_def validate_data_stack_request execute_route_def
        sv_result_def supervise_def sv_init_def Let_def ns_per_ms_def)
  have sv: "list_all scalar_value (data_stack_output png)"
    by (rule utf8_encode_Inr_scalar [OF enc data_stack_output_py_char])
  have pay: "response_payload (RespExecute ?r) = Some (response_json ?r)"
    using response_body_loads [of ?r] sv by (simp add: response_payload_def)
  have "data_stack_assertions (RespExecute ?r)"
    using pay png data_stack_strip_loads [of png] approx_literals
    by (simp add: data_stack_assertions_def http_status_def response_json_def json_get_def
        json_lookup_def data_stack_json_def)
  then show ?thesis using resp client_post_execute [OF data_stack_request_wf]
    by (simp add: test_numpy_pandas_matplotlib_stack_def split: test_gate.split)
qed

text \<open>The hypotheses hold together: in \<open>demo_data_world\<close> the test runs and passes.\<close>

lemma data_stack_test_passes_demo:
  "test_numpy_pandas_matplotlib_stack httpx_new demo_data_world \<lparr>as_cache = None\<rparr> = Passed"
proof -
  have r: "resolve_wasm_runtime (x_host demo_data_world) =
     Inr (''/usr/local/bin/wasmtime'', ''/srv/python.wasm'', [''--wasm'', ''max-wasm-stack=1048576''])"
    by (simp add: demo_data_world_def demo_hello_world_def resolve_wasm_runtime_def find_runtime_def
        locate_runtime_def demo_host_def default_runtime_paths_def wasm_magic_def shlex_split_def
        shlex_whitespace_def shlex_escape_def shlex_quotes_def)
  have e: "utf8_encode (data_stack_output 17466) = Inr (concat (map utf8_encode_cp (data_stack_output 17466)))"
    using data_stack_output_py_char [of 17466]
    by (auto simp: utf8_encode_def list_all_iff is_surrogate_def py_char_def data_stack_output_def
        data_stack_json_def json_encode_str_def json_escape_char_def py_str_int_def)
  have c: "x_child demo_data_world None = \<lparr>cr_runtime = Some 1500000000, cr_status = 0,
     cr_out = concat (map utf8_encode_cp (data_stack_output 17466)), cr_err = []\<rparr>"
    by (simp add: demo_data_world_def)
  have t: "(1500000000 :: int) < 2000 * ns_per_ms" by (simp add: ns_per_ms_def)
  have k: "x_start demo_data_world \<le> x_spawn demo_data_world"
    by (simp add: demo_data_world_def demo_hello_world_def demo_world_def)
  have s: "fst (get_settings (h_environ (x_host demo_data_world)) (as_cache \<lparr>as_cache = None\<rparr>)) =
     \<lparr>st_max_exec_timeout_ms = 5000, st_max_output_bytes = 1000000, st_cpu_time_limit_sec = 2,
      st_memory_limit_mb = 256\<rparr>"
    by (simp add: demo_data_world_def demo_hello_world_def demo_host_def get_settings_def
        settings_from_env_def int_from_env_def Let_def)
  have l: "int (length (concat (map utf8_encode_cp (data_stack_output 17466)))) \<le> 1000000"
    by (simp add: data_stack_output_def data_stack_json_def json_encode_str_def json_escape_char_def
        py_str_int_def utf8_encode_cp_def nat_str_big)
  have g: "require_wasm_environment (x_host demo_data_world) = TestRuns"
    by (simp add: demo_data_world_def demo_hello_world_def demo_host_def require_wasm_environment_def
        runtime_available_def)
  show ?thesis using data_stack_test_passes [OF r c e _ t k] s l g by simp
qed

section \<open>Witnesses of the application\<close>

lemma demo_app_negative:
  "handle_request (map_of [(''MAX_OUTPUT_BYTES'', ''-1'')]) (app_run demo_world) \<lparr>as_cache = None\<rparr>
     POST ''/v1/execute'' (JObject [(pystr_lit ''code'', JStr [0x68, 0x69])]) =
   (RespExecute \<lparr>er_stdout = truncation_marker, er_stderr = truncation_marker, er_exit_code = Some 0,
                 er_timed_out = False, er_duration_ms = 0\<rparr>,
    \<lparr>as_cache = Some \<lparr>st_max_exec_timeout_ms = 5000, st_max_output_bytes = -1, st_cpu_time_limit_sec = 2,
                      st_memory_limit_mb = 256\<rparr>\<rparr>)"
proof -
  have py: "py_int ''-1'' = Some (-1)"
    by (simp add: py_int_def py_strip_def py_isspace_def is_digit_def less_eq_char_def digit_value_def)
  show ?thesis using demo_world_resolve py
    by (simp add: handle_request_def execute_endpoint_def validate_request_def json_lookup_def validate_code_def
        validate_stdin_def validate_timeout_def get_settings_def settings_from_env_def int_from_env_def
        execute_route_def app_run_def execute_python_def run_child_def utf8_encode_def utf8_encode_cp_def
        is_surrogate_def supervise_def sv_init_def sv_result_def demo_world_def demo_child_def
        ns_per_ms_def truncate_negative Let_def)
qed
theorem app_response_encodable_witness:
  "fst (handle_request (map_of [(''MAX_OUTPUT_BYTES'', ''-1'')]) (app_run demo_world) \<lparr>as_cache = None\<rparr>
          POST ''/v1/execute'' (JObject [(pystr_lit ''code'', JStr [0x68, 0x69])])) =
     RespExecute \<lparr>er_stdout = truncation_marker, er_stderr = truncation_marker, er_exit_code = Some 0,
                  er_timed_out = False, er_duration_ms = 0\<rparr> \<and>
   list_all scalar_value truncation_marker \<and> (\<exists>b. utf8_encode truncation_marker = Inr b)"
  using app_response_encodable [OF demo_app_negative] demo_app_negative by simp

theorem negative_output_cap_marker_witness:
  "fst (handle_request (map_of [(''MAX_OUTPUT_BYTES'', ''-1'')]) (app_run demo_world) \<lparr>as_cache = None\<rparr>
          POST ''/v1/execute'' (JObject [(pystr_lit ''code'', JStr [0x68, 0x69])])) =
     RespExecute \<lparr>er_stdout = truncation_marker, er_stderr = truncation_marker, er_exit_code = Some 0,
                  er_timed_out = False, er_duration_ms = 0\<rparr>"
  using negative_output_cap_marker [OF _ demo_app_negative] demo_app_negative by simp

theorem hello_test_passes_witness:
  "require_wasm_environment (x_host demo_hello_world) = TestRuns \<and>
   test_execute_returns_expected_payload True demo_hello_world \<lparr>as_cache = None\<rparr> = Passed"
proof -
  have r: "resolve_wasm_runtime (x_host demo_hello_world) =
     Inr (''/usr/local/bin/wasmtime'', ''/srv/python.wasm'', [''--wasm'', ''max-wasm-stack=1048576''])"
    by (simp add: demo_hello_world_def resolve_wasm_runtime_def find_runtime_def locate_runtime_def
        demo_host_def default_runtime_paths_def wasm_magic_def shlex_split_def shlex_whitespace_def
        shlex_escape_def shlex_quotes_def)
  have c: "x_child demo_hello_world None =
     \<lparr>cr_runtime = Some 3000000, cr_status = 0, cr_out = map of_char ''hello'' @ [10], cr_err = []\<rparr>"
    by (simp add: demo_hello_world_def hello_child_def)
  have t: "(3000000 :: int) < 1000 * ns_per_ms" by (simp add: ns_per_ms_def)
  have k: "x_start demo_hello_world \<le> x_spawn demo_hello_world"
    by (simp add: demo_hello_world_def demo_world_def)
  have s: "fst (get_settings (h_environ (x_host demo_hello_world)) (as_cache \<lparr>as_cache = None\<rparr>)) =
     \<lparr>st_max_exec_timeout_ms = 5000, st_max_output_bytes = 1000000, st_cpu_time_limit_sec = 2,
      st_memory_limit_mb = 256\<rparr>"
    by (simp add: demo_hello_world_def demo_host_def get_settings_def settings_from_env_def int_from_env_def Let_def)
  have g: "require_wasm_environment (x_host demo_hello_world) = TestRuns"
    by (simp add: demo_hello_world_def demo_host_def require_wasm_environment_def runtime_available_def)
  show ?thesis
    using hello_test_passes [OF r c t k, where st = "\<lparr>as_cache = None\<rparr>" and httpx_new = True] s g by simp
qed

theorem setup_error_internal_error_witness:
  "fst (handle_request Map.empty (app_run demo_unset_world) \<lparr>as_cache = None\<rparr> POST ''/v1/execute''
          (JObject [(pystr_lit ''code'', JStr [0x68, 0x69])])) = RespError 500 ''Internal Server Error'' \<and>
   et_launch (execute_python demo_unset_world [0x68, 0x69] None 2000 1000000 (Some 2) (Some 256)) = None"
proof -
  have r: "resolve_wasm_runtime (x_host demo_unset_world) = Inl WasmPathUnset"
    by (simp add: demo_unset_world_def resolve_wasm_runtime_def find_runtime_def locate_runtime_def
        demo_host_def default_runtime_paths_def)
  have v: "validate_request (JObject [(pystr_lit ''code'', JStr [0x68, 0x69])]) =
     Inr \<lparr>rq_code = [0x68, 0x69], rq_stdin = None, rq_timeout_ms = 2000\<rparr>"
    by (simp add: validate_request_def json_lookup_def validate_code_def validate_stdin_def
        validate_timeout_def)
  have t: "rq_timeout_ms \<lparr>rq_code = [0x68, 0x69], rq_stdin = None, rq_timeout_ms = 2000\<rparr> \<le>
     st_max_exec_timeout_ms (fst (get_settings Map.empty (as_cache \<lparr>as_cache = None\<rparr>)))"
    by (simp add: get_settings_def settings_from_env_def int_from_env_def Let_def)
  show ?thesis
    using setup_error_internal_error [OF r v t, of "[0x68, 0x69]" None 2000 1000000 "Some 2" "Some 256"]
    by simp
qed

end
